theory Spec2Isabelle
  imports Main "HOL-Library.Word"
begin

unbundle bit_operations_syntax

section \<open>Machine types of the target (AVR, ATmega32U4)\<close>

text \<open>
  The sketch is built for an Arduino Pro Micro: \<open>int\<close> and \<open>size_t\<close> are 16 bits wide,
  \<open>long\<close> and \<open>msec_time_stamp_t\<close> (\<open>unsigned long\<close>) are 32 bits wide, structures are not
  padded and multi-byte values are stored little-endian. Unsigned arithmetic wraps; the
  signed comparisons of the source are written with \<open>sint\<close>.
\<close>

type_synonym u8 = "8 word"
type_synonym u16 = "16 word"
type_synonym u32 = "32 word"
type_synonym msec_time_stamp_t = "32 word"

section \<open>PcbSignalDefinitions.h\<close>

definition BN_W_FAILSAFE :: nat where "BN_W_FAILSAFE = 0"
definition BN_R :: nat where "BN_R = BN_W_FAILSAFE"
definition BN_Z2 :: nat where "BN_Z2 = 1"
definition BN_FIRST_SIGNAL :: nat where "BN_FIRST_SIGNAL = BN_Z2"
definition BN_Z1 :: nat where "BN_Z1 = 2"
definition BN_W :: nat where "BN_W = 3"
definition BN_ZX :: nat where "BN_ZX = 4"
definition BN_X2 :: nat where "BN_X2 = 5"
definition BN_X1 :: nat where "BN_X1 = 6"
definition BN_LAST_SIGNAL :: nat where "BN_LAST_SIGNAL = BN_X1"
definition BN_X3 :: nat where "BN_X3 = 7"
definition NUMBER_OF_SIGNALS :: nat where "NUMBER_OF_SIGNALS = 8"

definition NUM_HVAC_INPUT_SIGNALS :: nat where
  "NUM_HVAC_INPUT_SIGNALS = BN_LAST_SIGNAL + 1 - BN_FIRST_SIGNAL"

definition INPUT_SIGNAL_MASK :: u8 where
  "INPUT_SIGNAL_MASK =
     push_bit BN_Z2 1 OR push_bit BN_Z1 1 OR push_bit BN_W 1 OR push_bit BN_ZX 1 OR
     push_bit BN_X2 1 OR push_bit BN_X1 1 OR push_bit BN_R 1"

definition OUTPUT_SIGNAL_MASK :: u8 where
  "OUTPUT_SIGNAL_MASK =
     push_bit BN_Z2 1 OR push_bit BN_Z1 1 OR push_bit BN_W 1 OR push_bit BN_ZX 1 OR
     push_bit BN_X2 1 OR push_bit BN_X1 1 OR push_bit BN_X3 1"

definition NUM_INPUT_SIGNAL_COMBINATIONS :: nat where
  "NUM_INPUT_SIGNAL_COMBINATIONS = 2 ^ NUM_HVAC_INPUT_SIGNALS"

section \<open>C strings and the number parsers\<close>

text \<open>
  A command buffer is the list of its characters before the terminating NUL. A pointer into
  the buffer is the remaining suffix: \<open>cur p\<close> is \<open>*p\<close> (the NUL at the end of the list) and
  \<open>tl p\<close> is \<open>p + 1\<close>.
\<close>

definition NUL :: char where "NUL = CHR 0x00"

definition cur :: "string \<Rightarrow> char" where
  "cur p = (case p of [] \<Rightarrow> NUL | c # _ \<Rightarrow> c)"

definition isdigit :: "char \<Rightarrow> bool" where
  "isdigit c = (48 \<le> (of_char c :: nat) \<and> (of_char c :: nat) \<le> 57)"

definition isxdigit :: "char \<Rightarrow> bool" where
  "isxdigit c = (isdigit c \<or> (97 \<le> (of_char c :: nat) \<and> (of_char c :: nat) \<le> 102)
                           \<or> (65 \<le> (of_char c :: nat) \<and> (of_char c :: nat) \<le> 70))"

definition isspace :: "char \<Rightarrow> bool" where
  "isspace c = ((of_char c :: nat) = 32 \<or> (9 \<le> (of_char c :: nat) \<and> (of_char c :: nat) \<le> 13))"

definition toupper :: "char \<Rightarrow> char" where
  "toupper c = (if 97 \<le> (of_char c :: nat) \<and> (of_char c :: nat) \<le> 122
                then char_of ((of_char c :: nat) - 32) else c)"

text \<open>\<open>aDecimalToInt(const char*& p)\<close>: the value and the advanced pointer.\<close>

fun aDecimalToInt_loop :: "u16 \<Rightarrow> string \<Rightarrow> u16 \<times> string" where
  "aDecimalToInt_loop ret [] = (ret, [])"
| "aDecimalToInt_loop ret (c # p) =
     (if isdigit c then aDecimalToInt_loop (ret * 10 + of_nat ((of_char c :: nat) - 48)) p
      else if c \<noteq> NUL then (ret, p) else (ret, c # p))"

definition aDecimalToInt :: "string \<Rightarrow> u16 \<times> string" where
  "aDecimalToInt p = aDecimalToInt_loop 0 p"

text \<open>\<open>aHexToInt(const char*& p)\<close>.\<close>

fun aHexToInt_loop :: "u32 \<Rightarrow> string \<Rightarrow> u32 \<times> string" where
  "aHexToInt_loop ret [] = (ret, [])"
| "aHexToInt_loop ret (c # p) =
     (if isxdigit c then
        aHexToInt_loop
          (if isdigit c then ret * 16 + of_nat ((of_char c :: nat) - 48)
           else ret * 16 + (10 + of_nat (of_char (toupper c) :: nat) - 65)) p
      else if c \<noteq> NUL then (ret, p) else (ret, c # p))"

definition aHexToInt :: "string \<Rightarrow> u32 \<times> string" where
  "aHexToInt p = aHexToInt_loop 0 p"

text \<open>\<open>strstr(s, pat)\<close> for a non-empty pattern: the suffix of \<open>s\<close> at the first match.\<close>

fun strstr :: "string \<Rightarrow> string \<Rightarrow> string option" where
  "strstr [] pat = None"
| "strstr (c # cs) pat =
     (if take (length pat) (c # cs) = pat then Some (c # cs)
      else if c = NUL then None else strstr cs pat)"

section \<open>The EEPROM\<close>

text \<open>
  The EEPROM is a byte store addressed by a 16-bit index. \<open>EEPROM.put\<close> and \<open>EEPROM.get\<close>
  move the bytes of an object to and from consecutive addresses.
\<close>

type_synonym eeprom = "u16 \<Rightarrow> u8"

fun EEPROM_put :: "eeprom \<Rightarrow> u16 \<Rightarrow> u8 list \<Rightarrow> eeprom" where
  "EEPROM_put e a [] = e"
| "EEPROM_put e a (b # bs) = EEPROM_put (e(a := b)) (a + 1) bs"

fun EEPROM_get :: "eeprom \<Rightarrow> u16 \<Rightarrow> nat \<Rightarrow> u8 list" where
  "EEPROM_get e a 0 = []"
| "EEPROM_get e a (Suc n) = e a # EEPROM_get e (a + 1) n"

section \<open>The persisted layout of the mode settings\<close>

datatype HvacTypes = HVAC_PASSTHROUGH | HVAC_MAPINPUTTOOUTPUT | HVAC_HEAT | HVAC_COOL | HVAC_AUTO

fun ordinal :: "HvacTypes \<Rightarrow> nat" where
  "ordinal HVAC_PASSTHROUGH = 0"
| "ordinal HVAC_MAPINPUTTOOUTPUT = 1"
| "ordinal HVAC_HEAT = 2"
| "ordinal HVAC_COOL = 3"
| "ordinal HVAC_AUTO = 4"

definition NUMBER_OF_HVAC_TYPES :: nat where "NUMBER_OF_HVAC_TYPES = 5"

text \<open>
  The sketch's \<open>enum class EepromAddresses\<close> starts at
  \<open>RadioConfiguration::EepromAddresses::TOTAL_EEPROM_USED\<close>, a constant of the radio library
  that is not part of this repository. It is the parameter \<open>R\<close> of everything that computes
  an address.
\<close>

definition MAX_WIRE_NAME_LEN :: nat where "MAX_WIRE_NAME_LEN = 2"
definition NUM_HEAT_SAFETY_ENTRIES :: nat where "NUM_HEAT_SAFETY_ENTRIES = 3"
definition NUM_SCHEDULE_TEMPERATURE_ENTRIES :: nat where "NUM_SCHEDULE_TEMPERATURE_ENTRIES = 16"

definition SIGNAL_LABEL_ASSIGNMENT :: "u16 \<Rightarrow> u16" where
  "SIGNAL_LABEL_ASSIGNMENT R = R"
definition DISPLAY_UNITS_ADDRESS :: "u16 \<Rightarrow> u16" where
  "DISPLAY_UNITS_ADDRESS R = SIGNAL_LABEL_ASSIGNMENT R + of_nat (NUMBER_OF_SIGNALS * MAX_WIRE_NAME_LEN)"
definition COMPRESSOR_MASK :: "u16 \<Rightarrow> u16" where
  "COMPRESSOR_MASK R = DISPLAY_UNITS_ADDRESS R + 1"
definition COMPRESSOR_HOLD_SECONDS :: "u16 \<Rightarrow> u16" where
  "COMPRESSOR_HOLD_SECONDS R = COMPRESSOR_MASK R + 1"
definition HEATSAFETY_HOLD_SECONDS :: "u16 \<Rightarrow> u16" where
  "HEATSAFETY_HOLD_SECONDS R = COMPRESSOR_HOLD_SECONDS R + 2"
definition HEATSAFETY_TRIGGER_TEMPERATURECx10 :: "u16 \<Rightarrow> u16" where
  "HEATSAFETY_TRIGGER_TEMPERATURECx10 R = HEATSAFETY_HOLD_SECONDS R + 2"
definition HEATSAFETY_MAP :: "u16 \<Rightarrow> u16" where
  "HEATSAFETY_MAP R = HEATSAFETY_TRIGGER_TEMPERATURECx10 R + 2"
definition SCHEDULE_TEMPERATURE_ENTRIES :: "u16 \<Rightarrow> u16" where
  "SCHEDULE_TEMPERATURE_ENTRIES R = HEATSAFETY_MAP R + of_nat (NUM_HEAT_SAFETY_ENTRIES * 3)"
definition TOTAL_EEPROM_USED :: "u16 \<Rightarrow> u16" where
  "TOTAL_EEPROM_USED R =
     SCHEDULE_TEMPERATURE_ENTRIES R + of_nat (NUM_SCHEDULE_TEMPERATURE_ENTRIES * 4)"

definition HVAC_EEPROM_START :: "u16 \<Rightarrow> u16" where
  "HVAC_EEPROM_START R = TOTAL_EEPROM_USED R"
definition HVAC_EEPROM_TYPE_AND_MODE_ADDR :: "u16 \<Rightarrow> u16" where
  "HVAC_EEPROM_TYPE_AND_MODE_ADDR R = HVAC_EEPROM_START R"
definition HVAC_SAVED_TYPE_AND_MODE_SIZE :: nat where
  "HVAC_SAVED_TYPE_AND_MODE_SIZE = 2"
definition HVAC_NUMBER_OF_MODES_IN_TYPE_ADDR :: "u16 \<Rightarrow> u16" where
  "HVAC_NUMBER_OF_MODES_IN_TYPE_ADDR R =
     HVAC_EEPROM_TYPE_AND_MODE_ADDR R + of_nat HVAC_SAVED_TYPE_AND_MODE_SIZE"
definition NUMBER_OF_HVAC_TYPES_IN_EEPROM :: nat where
  "NUMBER_OF_HVAC_TYPES_IN_EEPROM = NUMBER_OF_HVAC_TYPES - 1"
definition HVAC_MODES_EEPROM_START_ADDR :: "u16 \<Rightarrow> u16" where
  "HVAC_MODES_EEPROM_START_ADDR R =
     HVAC_NUMBER_OF_MODES_IN_TYPE_ADDR R + of_nat NUMBER_OF_HVAC_TYPES_IN_EEPROM"

definition NAME_LENGTH :: nat where "NAME_LENGTH = 5"

text \<open>\<open>sizeof\<close> of the five \<open>Settings\<close> structures (no padding on the AVR).\<close>

definition sizeof_HvacCommands_Settings :: u16 where
  "sizeof_HvacCommands_Settings = of_nat (NAME_LENGTH + 1)"
definition sizeof_MapInputToOutput_Settings :: u16 where
  "sizeof_MapInputToOutput_Settings = of_nat NUM_INPUT_SIGNAL_COMBINATIONS"
definition sizeof_OverrideAndDriveFromSensors_Settings :: u16 where
  "sizeof_OverrideAndDriveFromSensors_Settings = 2 + 2 + 4 + 1 + 1 + 1 + 1 + 1 + 2 + 2"
definition sizeof_HvacCool_Settings :: u16 where
  "sizeof_HvacCool_Settings = 1 + 1 + 2"
definition sizeof_HvacAuto_Settings :: u16 where
  "sizeof_HvacAuto_Settings = 2 + 2 + 1 + 1 + 1"

definition NumberOfModesInType :: "u16 \<Rightarrow> eeprom \<Rightarrow> HvacTypes \<Rightarrow> u8" where
  "NumberOfModesInType R e t =
     (if t = HVAC_PASSTHROUGH then 1
      else let addr = (of_nat (ordinal t) - 1) + HVAC_NUMBER_OF_MODES_IN_TYPE_ADDR R;
               ret = e addr
           in if ret = 0xff then 0 else ret)"

definition SetNumberOfModesInType :: "u16 \<Rightarrow> HvacTypes \<Rightarrow> u8 \<Rightarrow> eeprom \<Rightarrow> eeprom" where
  "SetNumberOfModesInType R t count e =
     (if t = HVAC_PASSTHROUGH then e
      else e((of_nat (ordinal t) - 1) + HVAC_NUMBER_OF_MODES_IN_TYPE_ADDR R := count))"

text \<open>The first \<open>switch\<close> of \<open>AddressOfModeTypeSettings\<close>, with its fall-through cases.\<close>

definition sze :: "HvacTypes \<Rightarrow> u16" where
  "sze t = sizeof_HvacCommands_Settings +
     (case t of
        HVAC_MAPINPUTTOOUTPUT \<Rightarrow> sizeof_MapInputToOutput_Settings
      | HVAC_AUTO \<Rightarrow> sizeof_HvacAuto_Settings + sizeof_HvacCool_Settings
                      + sizeof_OverrideAndDriveFromSensors_Settings
      | HVAC_COOL \<Rightarrow> sizeof_HvacCool_Settings + sizeof_OverrideAndDriveFromSensors_Settings
      | HVAC_HEAT \<Rightarrow> sizeof_OverrideAndDriveFromSensors_Settings
      | HVAC_PASSTHROUGH \<Rightarrow> 0)"

function (sequential) AddressOfModeTypeSettings :: "u16 \<Rightarrow> eeprom \<Rightarrow> HvacTypes \<Rightarrow> u8 \<Rightarrow> u16" where
  "AddressOfModeTypeSettings R e HVAC_PASSTHROUGH which =
     (if which > NumberOfModesInType R e HVAC_PASSTHROUGH then - 1
      else HVAC_MODES_EEPROM_START_ADDR R + ucast which * sze HVAC_PASSTHROUGH)"
| "AddressOfModeTypeSettings R e HVAC_MAPINPUTTOOUTPUT which =
     (if which > NumberOfModesInType R e HVAC_MAPINPUTTOOUTPUT then - 1
      else AddressOfModeTypeSettings R e HVAC_PASSTHROUGH (NumberOfModesInType R e HVAC_PASSTHROUGH)
             + ucast which * sze HVAC_MAPINPUTTOOUTPUT)"
| "AddressOfModeTypeSettings R e HVAC_HEAT which =
     (if which > NumberOfModesInType R e HVAC_HEAT then - 1
      else AddressOfModeTypeSettings R e HVAC_MAPINPUTTOOUTPUT
             (NumberOfModesInType R e HVAC_MAPINPUTTOOUTPUT)
             + ucast which * sze HVAC_HEAT)"
| "AddressOfModeTypeSettings R e HVAC_COOL which =
     (if which > NumberOfModesInType R e HVAC_COOL then - 1
      else AddressOfModeTypeSettings R e HVAC_HEAT (NumberOfModesInType R e HVAC_HEAT)
             + ucast which * sze HVAC_COOL)"
| "AddressOfModeTypeSettings R e HVAC_AUTO which =
     (if which > NumberOfModesInType R e HVAC_AUTO then - 1
      else AddressOfModeTypeSettings R e HVAC_COOL (NumberOfModesInType R e HVAC_COOL)
             + ucast which * sze HVAC_AUTO)"
  by pat_completeness auto
termination
  by (relation "measure (\<lambda>(R, e, t, which). ordinal t)") auto

text \<open>
  The layout in the words of the specification: the record size of a type is the shared
  name record plus every schema layer the type includes; the base of PassThrough is the
  start of the mode-settings region and the base of each next type is the previous base plus
  the previous count times the previous record size.
\<close>

definition spec_recordSize :: "HvacTypes \<Rightarrow> nat" where
  "spec_recordSize t =
     (case t of
        HVAC_PASSTHROUGH \<Rightarrow> unat sizeof_HvacCommands_Settings
      | HVAC_MAPINPUTTOOUTPUT \<Rightarrow>
          unat sizeof_HvacCommands_Settings + unat sizeof_MapInputToOutput_Settings
      | HVAC_HEAT \<Rightarrow>
          unat sizeof_HvacCommands_Settings + unat sizeof_OverrideAndDriveFromSensors_Settings
      | HVAC_COOL \<Rightarrow>
          unat sizeof_HvacCommands_Settings + unat sizeof_OverrideAndDriveFromSensors_Settings
          + unat sizeof_HvacCool_Settings
      | HVAC_AUTO \<Rightarrow>
          unat sizeof_HvacCommands_Settings + unat sizeof_OverrideAndDriveFromSensors_Settings
          + unat sizeof_HvacCool_Settings + unat sizeof_HvacAuto_Settings)"

function (sequential) spec_base :: "u16 \<Rightarrow> eeprom \<Rightarrow> HvacTypes \<Rightarrow> nat" where
  "spec_base R e HVAC_PASSTHROUGH = unat (HVAC_MODES_EEPROM_START_ADDR R)"
| "spec_base R e HVAC_MAPINPUTTOOUTPUT =
     spec_base R e HVAC_PASSTHROUGH
     + unat (NumberOfModesInType R e HVAC_PASSTHROUGH) * spec_recordSize HVAC_PASSTHROUGH"
| "spec_base R e HVAC_HEAT =
     spec_base R e HVAC_MAPINPUTTOOUTPUT
     + unat (NumberOfModesInType R e HVAC_MAPINPUTTOOUTPUT) * spec_recordSize HVAC_MAPINPUTTOOUTPUT"
| "spec_base R e HVAC_COOL =
     spec_base R e HVAC_HEAT
     + unat (NumberOfModesInType R e HVAC_HEAT) * spec_recordSize HVAC_HEAT"
| "spec_base R e HVAC_AUTO =
     spec_base R e HVAC_COOL
     + unat (NumberOfModesInType R e HVAC_COOL) * spec_recordSize HVAC_COOL"
  by pat_completeness auto
termination
  by (relation "measure (\<lambda>(R, e, t). ordinal t)") auto

text \<open>An EEPROM image for the examples: two MapInputToOutput slots, one Heat slot.\<close>

definition example_eeprom :: eeprom where
  "example_eeprom = (\<lambda>a. if a = 99 then 2 else if a = 100 then 1 else 0xff)"

section \<open>The state of the controller\<close>

text \<open>
  The settings structures of HVAC.cpp. Each class keeps its own static
  \<open>settingsFromEeprom\<close>; all of them exist at once, whichever mode is active. Values of type
  \<open>int16_t\<close> are kept as 16-bit words and read with \<open>sint\<close> where the source compares them.
\<close>

record OverrideAndDriveFromSensors_Settings =
  TemperatureTargetDegreesCx10 :: u16
  TemperatureActivateDegreesCx10 :: u16
  SensorMask :: u32
  MaskFanOnly :: u8
  AlwaysOnMask :: u8
  OutputStage1 :: u8
  OutputStage2 :: u8
  OutputStage3 :: u8
  SecondsToSecondStage :: u16
  SecondsToThirdStage :: u16

record HvacCool_Settings =
  MaskDehumidifyBitsOn :: u8
  MaskDehumidifyBitsOff :: u8
  HumiditySettingX10 :: u16

record HvacAuto_Settings =
  TemperatureTargetHeatDegreesCx10 :: u16
  TemperatureActivateHeatDegreesCx10 :: u16
  HeatMaskStage1 :: u8
  HeatMaskStage2 :: u8
  HeatMaskStage3 :: u8

datatype FurnaceState = STATE_OFF | STATE_STAGE1 | STATE_STAGE2 | STATE_STAGE3
datatype HeatState = HEAT_OFF | HEAT_STAGE1 | HEAT_STAGE2 | HEAT_STAGE3
datatype DehumidifyState = DEHUMDIFY_OFF | DEHUMIDIFY_ACTIVE

text \<open>
  The run state of the sensor-driven classes: the static members of
  \<open>OverrideAndDriveFromSensors\<close>, the member \<open>dehumidifyState\<close> of the objects \<open>hvacCool\<close> and
  \<open>hvacAuto\<close>, and the members \<open>heatState\<close> and \<open>autoTarget\<close> of \<open>HvacAuto\<close>.
\<close>

record sensors_run =
  lastHeardFromSensor :: msec_time_stamp_t
  lastHeardSensorId :: u8
  timeEnteredStage1 :: msec_time_stamp_t
  fancoilState :: FurnaceState
  fanIsOn :: bool
  previousActual :: u16
  dehumidifyState_hvacCool :: DehumidifyState
  dehumidifyState_hvacAuto :: DehumidifyState
  heatState :: HeatState
  autoTarget :: u16

text \<open>
  The globals of the sketch that the output arbiter uses. \<open>relayIsOn\<close> and \<open>onAtTime\<close> are the
  static locals of \<open>Furnace::UpdateOutputs\<close>; \<open>onAtTime\<close> is read only while \<open>relayIsOn\<close>
  holds, and both are set together, so the value it is initialised with is never used.
\<close>

record furnace_globals =
  OutputRegister :: u8
  InputRegister :: u8
  InputsToHvacFlag :: bool
  CompressorOffStartTime :: msec_time_stamp_t
  CompressorOffTimeActive :: bool
  HeatSafetyOffStartTime :: msec_time_stamp_t
  HeatSafetyShutoffMask :: u8
  HeatSafetyOffTimeActive :: bool
  TinletTemperatureCx10 :: u16
  LastOutputWrite :: u8
  relayIsOn :: bool
  onAtTime :: msec_time_stamp_t
  displayLcdFarenheit :: bool

text \<open>
  What the controller shows to the outside, in the order it happens: text on the USB serial
  port (the build has \<open>USE_SERIAL = SERIAL_PORT_VERBOSE\<close>), the LCD, the radio report and
  the clock chip. The text of a radio report depends on the clock chip and the wire labels
  and is not formatted here: the event keeps the two masks it is built from.
\<close>

datatype event =
    Serial_print string
  | Serial_println string
  | Serial_println_int int
  | LCD_printMode string
  | LCD_printBanner string
  | Radio_HvacReport u8 u8
  | Radio_PrintInfo
  | RTC_setTime u8 u8 u8 u8 u8 u8 u16

text \<open>
  The whole state. \<open>clock\<close> is what \<open>millis()\<close> returns; it advances between the calls of
  the functions below and inside \<open>delay\<close>, and a call without \<open>delay\<close> is taken to complete
  within one tick. \<open>hvac\<close> is the object the global pointer \<open>hvac\<close> points to.
\<close>

record machine =
  eeprom :: eeprom
  clock :: msec_time_stamp_t
  hvac :: HvacTypes
  MyTypeNumber :: u8
  MyModeNumber :: u8
  ModeName :: "char list"
  inputToOutput :: "u8 list"
  settingsOADFS :: OverrideAndDriveFromSensors_Settings
  settingsCool :: HvacCool_Settings
  settingsAuto :: HvacAuto_Settings
  run :: sensors_run
  furnace :: furnace_globals
  trace :: "event list"

definition emit :: "event \<Rightarrow> machine \<Rightarrow> machine" where
  "emit ev s = s\<lparr>trace := trace s @ [ev]\<rparr>"

section \<open>The output arbiter (namespace Furnace)\<close>

definition getCompressorMask :: "u16 \<Rightarrow> eeprom \<Rightarrow> u8" where
  "getCompressorMask R e = (let ret = e (COMPRESSOR_MASK R) in if ret = 0xff then 0 else ret)"

text \<open>\<open>EEPROM.get\<close> and \<open>EEPROM.put\<close> of a 16-bit value, low byte first.\<close>

definition bytes16 :: "u16 \<Rightarrow> u8 list" where
  "bytes16 w = [ucast w, ucast (drop_bit 8 w)]"

definition word16 :: "u8 \<Rightarrow> u8 \<Rightarrow> u16" where
  "word16 lo hi = ucast lo OR push_bit 8 (ucast hi)"

definition EEPROM_get16 :: "eeprom \<Rightarrow> u16 \<Rightarrow> u16" where
  "EEPROM_get16 e a = word16 (e a) (e (a + 1))"


definition getHeatSafetyHoldSeconds :: "u16 \<Rightarrow> eeprom \<Rightarrow> u16" where
  "getHeatSafetyHoldSeconds R e = EEPROM_get16 e (HEATSAFETY_HOLD_SECONDS R)"

definition getHeatSafetyTemperatureCx10 :: "u16 \<Rightarrow> eeprom \<Rightarrow> u16" where
  "getHeatSafetyTemperatureCx10 R e = EEPROM_get16 e (HEATSAFETY_TRIGGER_TEMPERATURECx10 R)"

record HeatSafetyMask_t =
  dontCareMask :: u8
  mustMatchMask :: u8
  toClear :: u8

definition getHeatSafetyMask :: "u16 \<Rightarrow> eeprom \<Rightarrow> nat \<Rightarrow> HeatSafetyMask_t" where
  "getHeatSafetyMask R e which =
     (if which < NUM_HEAT_SAFETY_ENTRIES then
        (let addr = HEATSAFETY_MAP R + of_nat (which * 3)
         in \<lparr>dontCareMask = e addr, mustMatchMask = e (addr + 1), toClear = e (addr + 2)\<rparr>)
      else \<lparr>dontCareMask = 0, mustMatchMask = 0, toClear = 0\<rparr>)"



definition setHeatSafetyHoldSeconds :: "u16 \<Rightarrow> u16 \<Rightarrow> eeprom \<Rightarrow> eeprom" where
  "setHeatSafetyHoldSeconds R sec e = EEPROM_put e (HEATSAFETY_HOLD_SECONDS R) (bytes16 sec)"

definition setHeatSafetyTemperatureX10 :: "u16 \<Rightarrow> u16 \<Rightarrow> eeprom \<Rightarrow> eeprom" where
  "setHeatSafetyTemperatureX10 R t e =
     EEPROM_put e (HEATSAFETY_TRIGGER_TEMPERATURECx10 R) (bytes16 t)"

definition setHeatSafetyMask :: "u16 \<Rightarrow> nat \<Rightarrow> HeatSafetyMask_t \<Rightarrow> eeprom \<Rightarrow> eeprom" where
  "setHeatSafetyMask R which m e =
     (if which < NUM_HEAT_SAFETY_ENTRIES then
        EEPROM_put e (HEATSAFETY_MAP R + of_nat (which * 3))
          [dontCareMask m, mustMatchMask m, toClear m]
      else e)"

definition MINIMUM_ON_MSEC :: u32 where "MINIMUM_ON_MSEC = 60000"

text \<open>
  \<open>Furnace::UpdateOutputs(mask)\<close>. The value left in \<open>OutputRegister\<close> is the byte shifted out
  to the relays.
\<close>

definition UpdateOutputs :: "u16 \<Rightarrow> u8 \<Rightarrow> machine \<Rightarrow> machine" where
  "UpdateOutputs R mask0 s =
     (let f = furnace s;
          mask1 = mask0 AND OUTPUT_SIGNAL_MASK;
          mask2 = (if HeatSafetyOffTimeActive f then mask1 AND HeatSafetyShutoffMask f else mask1);
          now = clock s;
          compressorMask = getCompressorMask R (eeprom s);
          turningOff = (\<not> CompressorOffTimeActive f \<and> compressorMask \<noteq> 0xff \<and>
                        OutputRegister f AND compressorMask \<noteq> 0 \<and> mask2 AND compressorMask = 0);
          active = (CompressorOffTimeActive f \<or> turningOff);
          mask3 = (if active then mask2 AND NOT compressorMask else mask2);
          held = (relayIsOn f \<and> now - onAtTime f < MINIMUM_ON_MSEC);
          differs = ((mask3 AND push_bit BN_W 1) XOR (InputRegister f AND push_bit BN_W 1) \<noteq> 0);
          mask4 = (if held \<or> differs then mask3 OR push_bit BN_W_FAILSAFE 1 else mask3)
      in s\<lparr>furnace := f\<lparr>
            LastOutputWrite := mask1,
            CompressorOffTimeActive := active,
            CompressorOffStartTime := (if turningOff then now else CompressorOffStartTime f),
            onAtTime := (if \<not> held \<and> differs then now else onAtTime f),
            relayIsOn := (relayIsOn f \<or> (\<not> held \<and> differs)),
            OutputRegister := mask4\<rparr>\<rparr>)"

definition SetOutputBits :: "u16 \<Rightarrow> u8 \<Rightarrow> machine \<Rightarrow> machine" where
  "SetOutputBits R msk s = UpdateOutputs R (msk OR LastOutputWrite (furnace s)) s"

definition ClearOutputBits :: "u16 \<Rightarrow> u8 \<Rightarrow> machine \<Rightarrow> machine" where
  "ClearOutputBits R msk s = UpdateOutputs R (LastOutputWrite (furnace s) AND NOT msk) s"

section \<open>Persisting the settings of a mode instance\<close>

definition bytes32 :: "u32 \<Rightarrow> u8 list" where
  "bytes32 w = [ucast w, ucast (drop_bit 8 w), ucast (drop_bit 16 w), ucast (drop_bit 24 w)]"

definition word32 :: "u8 \<Rightarrow> u8 \<Rightarrow> u8 \<Rightarrow> u8 \<Rightarrow> u32" where
  "word32 b0 b1 b2 b3 =
     ucast b0 OR push_bit 8 (ucast b1) OR push_bit 16 (ucast b2) OR push_bit 24 (ucast b3)"

text \<open>
  \<open>char ModeName[NAME_LENGTH + 1]\<close>: the array always holds six characters; \<open>name6\<close> is the
  identity on such a list.
\<close>

definition name6 :: "char list \<Rightarrow> char list" where
  "name6 xs = take (NAME_LENGTH + 1) (xs @ replicate (NAME_LENGTH + 1) NUL)"

definition byte_of_char :: "char \<Rightarrow> u8" where
  "byte_of_char c = of_nat (of_char c)"

definition char_of_byte :: "u8 \<Rightarrow> char" where
  "char_of_byte b = char_of (unat b)"

definition OverrideAndDriveFromSensors_Settings_bytes ::
    "OverrideAndDriveFromSensors_Settings \<Rightarrow> u8 list" where
  "OverrideAndDriveFromSensors_Settings_bytes st =
     bytes16 (TemperatureTargetDegreesCx10 st) @ bytes16 (TemperatureActivateDegreesCx10 st) @
     bytes32 (SensorMask st) @
     [MaskFanOnly st, AlwaysOnMask st, OutputStage1 st, OutputStage2 st, OutputStage3 st] @
     bytes16 (SecondsToSecondStage st) @ bytes16 (SecondsToThirdStage st)"

definition OverrideAndDriveFromSensors_Settings_of_bytes ::
    "u8 list \<Rightarrow> OverrideAndDriveFromSensors_Settings" where
  "OverrideAndDriveFromSensors_Settings_of_bytes bs =
     \<lparr>TemperatureTargetDegreesCx10 = word16 (bs ! 0) (bs ! 1),
      TemperatureActivateDegreesCx10 = word16 (bs ! 2) (bs ! 3),
      SensorMask = word32 (bs ! 4) (bs ! 5) (bs ! 6) (bs ! 7),
      MaskFanOnly = bs ! 8,
      AlwaysOnMask = bs ! 9,
      OutputStage1 = bs ! 10,
      OutputStage2 = bs ! 11,
      OutputStage3 = bs ! 12,
      SecondsToSecondStage = word16 (bs ! 13) (bs ! 14),
      SecondsToThirdStage = word16 (bs ! 15) (bs ! 16)\<rparr>"

definition HvacCool_Settings_bytes :: "HvacCool_Settings \<Rightarrow> u8 list" where
  "HvacCool_Settings_bytes st =
     [MaskDehumidifyBitsOn st, MaskDehumidifyBitsOff st] @ bytes16 (HumiditySettingX10 st)"

definition HvacCool_Settings_of_bytes :: "u8 list \<Rightarrow> HvacCool_Settings" where
  "HvacCool_Settings_of_bytes bs =
     \<lparr>MaskDehumidifyBitsOn = bs ! 0, MaskDehumidifyBitsOff = bs ! 1,
      HumiditySettingX10 = word16 (bs ! 2) (bs ! 3)\<rparr>"

definition HvacAuto_Settings_bytes :: "HvacAuto_Settings \<Rightarrow> u8 list" where
  "HvacAuto_Settings_bytes st =
     bytes16 (TemperatureTargetHeatDegreesCx10 st) @ bytes16 (TemperatureActivateHeatDegreesCx10 st) @
     [HeatMaskStage1 st, HeatMaskStage2 st, HeatMaskStage3 st]"

definition HvacAuto_Settings_of_bytes :: "u8 list \<Rightarrow> HvacAuto_Settings" where
  "HvacAuto_Settings_of_bytes bs =
     \<lparr>TemperatureTargetHeatDegreesCx10 = word16 (bs ! 0) (bs ! 1),
      TemperatureActivateHeatDegreesCx10 = word16 (bs ! 2) (bs ! 3),
      HeatMaskStage1 = bs ! 4, HeatMaskStage2 = bs ! 5, HeatMaskStage3 = bs ! 6\<rparr>"

definition EEPROM_length :: u16 where "EEPROM_length = 1024"

text \<open>
  \<open>HvacCommands::WriteEprom\<close> and the \<open>WriteEprom\<close> of each subclass: the new state and the
  address after the bytes written. \<open>remaining\<close> is a 16-bit \<open>int\<close>.
\<close>

definition HvacCommands_WriteEprom :: "u16 \<Rightarrow> machine \<Rightarrow> u16 \<times> machine" where
  "HvacCommands_WriteEprom addr s =
     (let s1 = s\<lparr>eeprom := EEPROM_put (eeprom s) addr (map byte_of_char (name6 (ModeName s)))\<rparr>;
          ret = addr + sizeof_HvacCommands_Settings;
          remaining = sint (EEPROM_length - ret)
      in (ret,
          if remaining < 0 then emit (Serial_println ''ERROR: WriteEprom beyond capacity'') s1
          else emit (Serial_println_int remaining) (emit (Serial_print ''EEPROM remaining:'') s1)))"

definition HvacCommands_ReadEprom :: "u16 \<Rightarrow> machine \<Rightarrow> u16 \<times> machine" where
  "HvacCommands_ReadEprom addr s =
     (addr + sizeof_HvacCommands_Settings,
      if eeprom s addr \<noteq> 0xff
      then s\<lparr>ModeName := map char_of_byte (EEPROM_get (eeprom s) addr (NAME_LENGTH + 1))\<rparr>
      else s)"

definition MapInputToOutput_WriteEprom :: "u16 \<Rightarrow> machine \<Rightarrow> u16 \<times> machine" where
  "MapInputToOutput_WriteEprom addr s =
     (let (addr1, s1) = HvacCommands_WriteEprom addr s
      in (addr1 + sizeof_MapInputToOutput_Settings,
          s1\<lparr>eeprom := EEPROM_put (eeprom s1) addr1
                 (take NUM_INPUT_SIGNAL_COMBINATIONS
                    (inputToOutput s1 @ replicate NUM_INPUT_SIGNAL_COMBINATIONS 0))\<rparr>))"

definition MapInputToOutput_ReadEprom :: "u16 \<Rightarrow> machine \<Rightarrow> u16 \<times> machine" where
  "MapInputToOutput_ReadEprom addr s =
     (let (addr1, s1) = HvacCommands_ReadEprom addr s
      in (addr1 + sizeof_MapInputToOutput_Settings,
          s1\<lparr>inputToOutput := EEPROM_get (eeprom s1) addr1 NUM_INPUT_SIGNAL_COMBINATIONS\<rparr>))"

definition OverrideAndDriveFromSensors_WriteEprom :: "u16 \<Rightarrow> machine \<Rightarrow> u16 \<times> machine" where
  "OverrideAndDriveFromSensors_WriteEprom addr s =
     (let (addr1, s1) = HvacCommands_WriteEprom addr s
      in (addr1 + sizeof_OverrideAndDriveFromSensors_Settings,
          s1\<lparr>eeprom := EEPROM_put (eeprom s1) addr1
                 (OverrideAndDriveFromSensors_Settings_bytes (settingsOADFS s1))\<rparr>))"

definition OverrideAndDriveFromSensors_ReadEprom :: "u16 \<Rightarrow> machine \<Rightarrow> u16 \<times> machine" where
  "OverrideAndDriveFromSensors_ReadEprom addr s =
     (let (addr1, s1) = HvacCommands_ReadEprom addr s
      in (addr1 + sizeof_OverrideAndDriveFromSensors_Settings,
          s1\<lparr>settingsOADFS := OverrideAndDriveFromSensors_Settings_of_bytes
                 (EEPROM_get (eeprom s1) addr1 (unat sizeof_OverrideAndDriveFromSensors_Settings))\<rparr>))"

definition HvacCool_WriteEprom :: "u16 \<Rightarrow> machine \<Rightarrow> u16 \<times> machine" where
  "HvacCool_WriteEprom addr s =
     (let (addr1, s1) = OverrideAndDriveFromSensors_WriteEprom addr s
      in (addr1 + sizeof_HvacCool_Settings,
          s1\<lparr>eeprom := EEPROM_put (eeprom s1) addr1 (HvacCool_Settings_bytes (settingsCool s1))\<rparr>))"

definition HvacCool_ReadEprom :: "u16 \<Rightarrow> machine \<Rightarrow> u16 \<times> machine" where
  "HvacCool_ReadEprom addr s =
     (let (addr1, s1) = OverrideAndDriveFromSensors_ReadEprom addr s
      in (addr1 + sizeof_HvacCool_Settings,
          s1\<lparr>settingsCool := HvacCool_Settings_of_bytes
                 (EEPROM_get (eeprom s1) addr1 (unat sizeof_HvacCool_Settings))\<rparr>))"

definition HvacAuto_WriteEprom :: "u16 \<Rightarrow> machine \<Rightarrow> u16 \<times> machine" where
  "HvacAuto_WriteEprom addr s =
     (let (addr1, s1) = HvacCool_WriteEprom addr s
      in (addr1 + sizeof_HvacAuto_Settings,
          s1\<lparr>eeprom := EEPROM_put (eeprom s1) addr1 (HvacAuto_Settings_bytes (settingsAuto s1))\<rparr>))"

definition HvacAuto_ReadEprom :: "u16 \<Rightarrow> machine \<Rightarrow> u16 \<times> machine" where
  "HvacAuto_ReadEprom addr s =
     (let (addr1, s1) = HvacCool_ReadEprom addr s
      in (addr1 + sizeof_HvacAuto_Settings,
          s1\<lparr>settingsAuto := HvacAuto_Settings_of_bytes
                 (EEPROM_get (eeprom s1) addr1 (unat sizeof_HvacAuto_Settings))\<rparr>))"

text \<open>
  The virtual functions \<open>CommitSettings\<close>, \<open>ReadSettings\<close>, \<open>InitializeState\<close> and
  \<open>TurnFurnaceOff\<close>; the first argument after \<open>R\<close> is the class of the object they are
  called on.
\<close>

definition CommitSettings :: "u16 \<Rightarrow> HvacTypes \<Rightarrow> machine \<Rightarrow> machine" where
  "CommitSettings R t s =
     (case t of
        HVAC_PASSTHROUGH \<Rightarrow>
          snd (HvacCommands_WriteEprom (AddressOfModeTypeSettings R (eeprom s) HVAC_PASSTHROUGH 0) s)
      | HVAC_MAPINPUTTOOUTPUT \<Rightarrow>
          snd (MapInputToOutput_WriteEprom
                 (AddressOfModeTypeSettings R (eeprom s) HVAC_MAPINPUTTOOUTPUT (MyModeNumber s)) s)
      | HVAC_HEAT \<Rightarrow>
          snd (OverrideAndDriveFromSensors_WriteEprom
                 (AddressOfModeTypeSettings R (eeprom s) HVAC_HEAT (MyModeNumber s)) s)
      | HVAC_COOL \<Rightarrow>
          snd (HvacCool_WriteEprom
                 (AddressOfModeTypeSettings R (eeprom s) HVAC_COOL (MyModeNumber s)) s)
      | HVAC_AUTO \<Rightarrow>
          snd (HvacAuto_WriteEprom
                 (AddressOfModeTypeSettings R (eeprom s) HVAC_AUTO (MyModeNumber s)) s))"

definition ReadSettings :: "u16 \<Rightarrow> HvacTypes \<Rightarrow> machine \<Rightarrow> machine" where
  "ReadSettings R t s =
     (case t of
        HVAC_PASSTHROUGH \<Rightarrow>
          snd (HvacCommands_ReadEprom (AddressOfModeTypeSettings R (eeprom s) HVAC_PASSTHROUGH 0) s)
      | HVAC_MAPINPUTTOOUTPUT \<Rightarrow>
          snd (MapInputToOutput_ReadEprom
                 (AddressOfModeTypeSettings R (eeprom s) HVAC_MAPINPUTTOOUTPUT (MyModeNumber s)) s)
      | HVAC_HEAT \<Rightarrow>
          snd (OverrideAndDriveFromSensors_ReadEprom
                 (AddressOfModeTypeSettings R (eeprom s) HVAC_HEAT (MyModeNumber s)) s)
      | HVAC_COOL \<Rightarrow>
          snd (HvacCool_ReadEprom
                 (AddressOfModeTypeSettings R (eeprom s) HVAC_COOL (MyModeNumber s)) s)
      | HVAC_AUTO \<Rightarrow>
          snd (HvacAuto_ReadEprom
                 (AddressOfModeTypeSettings R (eeprom s) HVAC_AUTO (MyModeNumber s)) s))"

definition OverrideAndDriveFromSensors_InitializeState :: "machine \<Rightarrow> machine" where
  "OverrideAndDriveFromSensors_InitializeState s =
     s\<lparr>run := (run s)\<lparr>timeEnteredStage1 := clock s, lastHeardFromSensor := clock s,
                        lastHeardSensorId := 0, fancoilState := STATE_OFF, fanIsOn := False,
                        previousActual := 0\<rparr>\<rparr>"

definition InitializeState :: "HvacTypes \<Rightarrow> machine \<Rightarrow> machine" where
  "InitializeState t s =
     (case t of
        HVAC_PASSTHROUGH \<Rightarrow> s
      | HVAC_MAPINPUTTOOUTPUT \<Rightarrow> s
      | HVAC_HEAT \<Rightarrow> OverrideAndDriveFromSensors_InitializeState s
      | HVAC_COOL \<Rightarrow>
          (let s1 = OverrideAndDriveFromSensors_InitializeState s
           in s1\<lparr>run := (run s1)\<lparr>dehumidifyState_hvacCool := DEHUMDIFY_OFF\<rparr>\<rparr>)
      | HVAC_AUTO \<Rightarrow>
          (let s1 = OverrideAndDriveFromSensors_InitializeState s
           in s1\<lparr>run := (run s1)\<lparr>dehumidifyState_hvacAuto := DEHUMDIFY_OFF, heatState := HEAT_OFF,
                   autoTarget := TemperatureTargetHeatDegreesCx10 (settingsAuto s1)\<rparr>\<rparr>))"

definition TurnFurnaceOff :: "u16 \<Rightarrow> HvacTypes \<Rightarrow> machine \<Rightarrow> machine" where
  "TurnFurnaceOff R t s =
     (case t of
        HVAC_PASSTHROUGH \<Rightarrow> UpdateOutputs R 0 s
      | HVAC_MAPINPUTTOOUTPUT \<Rightarrow> UpdateOutputs R 0 s
      | _ \<Rightarrow> UpdateOutputs R (AlwaysOnMask (settingsOADFS s)) s)"

definition HvacTypes_of_nat :: "nat \<Rightarrow> HvacTypes" where
  "HvacTypes_of_nat n =
     (if n = 0 then HVAC_PASSTHROUGH else if n = 1 then HVAC_MAPINPUTTOOUTPUT
      else if n = 2 then HVAC_HEAT else if n = 3 then HVAC_COOL else HVAC_AUTO)"

text \<open>
  \<open>ThermostatCommon::setup()\<close>, and the memory it finds at power-up: the statics with their
  C++ initial values over the EEPROM as it was left.
\<close>

definition ThermostatCommon_setup :: "u16 \<Rightarrow> machine \<Rightarrow> machine" where
  "ThermostatCommon_setup R s =
     (let thermoType = eeprom s (HVAC_EEPROM_TYPE_AND_MODE_ADDR R);
          thermoMode = eeprom s (HVAC_EEPROM_TYPE_AND_MODE_ADDR R + 1)
      in if unat thermoType < NUMBER_OF_HVAC_TYPES \<and>
            thermoMode < NumberOfModesInType R (eeprom s) (HvacTypes_of_nat (unat thermoType))
         then (let t = HvacTypes_of_nat (unat thermoType);
                   s1 = s\<lparr>hvac := t, MyModeNumber := thermoMode, MyTypeNumber := thermoType\<rparr>;
                   s2 = ReadSettings R t (s1\<lparr>MyModeNumber := thermoMode\<rparr>)
               in TurnFurnaceOff R t s2)
         else s)"

definition power_on_reset :: "eeprom \<Rightarrow> machine" where
  "power_on_reset e =
     \<lparr>eeprom = e, clock = 0, hvac = HVAC_PASSTHROUGH, MyTypeNumber = 0, MyModeNumber = 0,
      ModeName = ''PASS'' @ [NUL, NUL],
      inputToOutput = replicate NUM_INPUT_SIGNAL_COMBINATIONS 0,
      settingsOADFS = \<lparr>TemperatureTargetDegreesCx10 = 0, TemperatureActivateDegreesCx10 = 0,
         SensorMask = 0, MaskFanOnly = 0, AlwaysOnMask = 0, OutputStage1 = 0, OutputStage2 = 0,
         OutputStage3 = 0, SecondsToSecondStage = 0, SecondsToThirdStage = 0\<rparr>,
      settingsCool = \<lparr>MaskDehumidifyBitsOn = 0, MaskDehumidifyBitsOff = 0, HumiditySettingX10 = 0\<rparr>,
      settingsAuto = \<lparr>TemperatureTargetHeatDegreesCx10 = 0, TemperatureActivateHeatDegreesCx10 = 0,
         HeatMaskStage1 = 0, HeatMaskStage2 = 0, HeatMaskStage3 = 0\<rparr>,
      run = \<lparr>lastHeardFromSensor = 0, lastHeardSensorId = 0, timeEnteredStage1 = 0,
         fancoilState = STATE_OFF, fanIsOn = False, previousActual = 0,
         dehumidifyState_hvacCool = DEHUMDIFY_OFF, dehumidifyState_hvacAuto = DEHUMDIFY_OFF,
         heatState = HEAT_OFF, autoTarget = 0\<rparr>,
      furnace = \<lparr>OutputRegister = 0, InputRegister = 0, InputsToHvacFlag = False,
         CompressorOffStartTime = 0, CompressorOffTimeActive = False,
         HeatSafetyOffStartTime = 0, HeatSafetyShutoffMask = 0, HeatSafetyOffTimeActive = False,
         TinletTemperatureCx10 = 0, LastOutputWrite = 0, relayIsOn = False, onAtTime = 0,
         displayLcdFarenheit = False\<rparr>,
      trace = []\<rparr>"

section \<open>The mode classes of HVAC.cpp\<close>

subsection \<open>HvacCommands: the commands every mode shares\<close>

text \<open>
  The \<open>NAME=\<close> branch copies at most five characters up to the first space and appends a
  NUL; the characters of the array behind that NUL stay as they were.
\<close>

definition set_ModeName :: "string \<Rightarrow> char list \<Rightarrow> char list" where
  "set_ModeName q old =
     (let n = take NAME_LENGTH (takeWhile (\<lambda>c. c \<noteq> NUL \<and> \<not> isspace c) q)
      in n @ [NUL] @ drop (length n + 1) (name6 old))"

definition HvacCommands_ProcessCommand ::
    "u16 \<Rightarrow> HvacTypes \<Rightarrow> string \<Rightarrow> u8 \<Rightarrow> u8 \<Rightarrow> bool \<Rightarrow> machine \<Rightarrow> bool \<times> machine" where
  "HvacCommands_ProcessCommand R t cmd len senderid toMe s =
     (if \<not> toMe then (False, s)
      else if map toupper (take 5 cmd) \<noteq> ''HVAC '' then (False, s)
      else
        (let hvacType :: u16 =
               (case strstr cmd ''TYPE='' of None \<Rightarrow> - 1
                | Some q \<Rightarrow> fst (aDecimalToInt (drop 5 q)))
         in if strstr cmd ''TYPE='' \<noteq> None \<and> unat hvacType \<ge> NUMBER_OF_HVAC_TYPES then (False, s)
            else
              (case strstr cmd ''NAME='' of
                 Some q \<Rightarrow> (True, s\<lparr>ModeName := set_ModeName (drop 5 q) (ModeName s)\<rparr>)
               | None \<Rightarrow>
                  (case strstr cmd '' COMMIT'' of
                     Some q \<Rightarrow>
                       (if cur (drop 7 q) \<noteq> NUL \<and> \<not> isspace (cur (drop 7 q)) then (False, s)
                        else (True, CommitSettings R t s))
                   | None \<Rightarrow>
                      (if unat hvacType \<ge> NUMBER_OF_HVAC_TYPES then (False, s)
                       else
                         (let tp = HvacTypes_of_nat (unat hvacType)
                          in case strstr cmd ''MODE='' of
                               Some q \<Rightarrow>
                                 (let mode = fst (aDecimalToInt (drop 5 q))
                                  in if unat mode \<ge> unat (NumberOfModesInType R (eeprom s) tp)
                                     then (False, s)
                                     else if unat (MyModeNumber s) \<noteq> unat mode \<or>
                                             MyTypeNumber s \<noteq> ucast hvacType
                                     then
                                       (let s1 = s\<lparr>MyModeNumber := ucast mode,
                                                    MyTypeNumber := ucast hvacType, hvac := tp\<rparr>;
                                            s2 = InitializeState tp s1;
                                            s3 = ReadSettings R tp s2;
                                            s4 = s3\<lparr>eeprom := (eeprom s3)
                                                   (HVAC_EEPROM_TYPE_AND_MODE_ADDR R := ucast hvacType,
                                                    HVAC_EEPROM_TYPE_AND_MODE_ADDR R + 1 := MyModeNumber s3)\<rparr>
                                        in (True, TurnFurnaceOff R tp s4))
                                     else (True, s))
                             | None \<Rightarrow>
                                (case strstr cmd ''COUNT='' of
                                   Some q \<Rightarrow>
                                     (True, s\<lparr>eeprom := SetNumberOfModesInType R tp
                                               (ucast (fst (aDecimalToInt (drop 6 q)))) (eeprom s)\<rparr>)
                                 | None \<Rightarrow> (False, s))))))))"

subsection \<open>PassThrough\<close>

definition PassThrough_OnInputsChanged :: "u16 \<Rightarrow> u8 \<Rightarrow> u8 \<Rightarrow> machine \<Rightarrow> machine" where
  "PassThrough_OnInputsChanged R inputs previous s = UpdateOutputs R (INPUT_SIGNAL_MASK AND inputs) s"

subsection \<open>MapInputToOutput\<close>

text \<open>
  \<open>uint8_t inputToOutput[NUM_INPUT_SIGNAL_COMBINATIONS]\<close>: the array always holds 64 bytes;
  \<open>table64\<close> is the identity on such a list.
\<close>

definition table64 :: "u8 list \<Rightarrow> u8 list" where
  "table64 xs = take NUM_INPUT_SIGNAL_COMBINATIONS (xs @ replicate NUM_INPUT_SIGNAL_COMBINATIONS 0)"

text \<open>The local \<open>value\<close> of \<open>MapInputToOutput::OnInputsChanged\<close> at the call of \<open>UpdateOutputs\<close>.\<close>

definition MapInputToOutput_value :: "u8 list \<Rightarrow> u8 \<Rightarrow> u8" where
  "MapInputToOutput_value tbl inputs0 =
     (let inputs = inputs0 AND INPUT_SIGNAL_MASK;
          v = table64 tbl ! unat (drop_bit BN_FIRST_SIGNAL inputs)
      in if v = 0xff then inputs else v)"

definition MapInputToOutput_OnInputsChanged :: "u16 \<Rightarrow> u8 \<Rightarrow> u8 \<Rightarrow> machine \<Rightarrow> machine" where
  "MapInputToOutput_OnInputsChanged R inputs previous s =
     UpdateOutputs R (MapInputToOutput_value (inputToOutput s) inputs) s"

function HVACMAP_loop :: "u8 \<Rightarrow> string \<Rightarrow> machine \<Rightarrow> bool \<times> machine" where
  "HVACMAP_loop addr q s =
     (if cur q = NUL then (True, s)
      else if unat addr \<ge> NUM_INPUT_SIGNAL_COMBINATIONS then (False, s)
      else HVACMAP_loop (addr + 1) (snd (aHexToInt q))
             (s\<lparr>inputToOutput := (table64 (inputToOutput s))[unat addr := ucast (fst (aHexToInt q))]\<rparr>))"
  by pat_completeness auto
termination
proof (relation "measure (\<lambda>(addr, q, s). NUM_INPUT_SIGNAL_COMBINATIONS - unat addr)")
  show "wf (measure (\<lambda>(addr, q, s). NUM_INPUT_SIGNAL_COMBINATIONS - unat addr))" by simp
next
  fix addr :: u8 and q :: string and s :: machine
  assume "\<not> unat addr \<ge> NUM_INPUT_SIGNAL_COMBINATIONS"
  then have lt: "unat addr < 64"
    by (simp add: NUM_INPUT_SIGNAL_COMBINATIONS_def NUM_HVAC_INPUT_SIGNALS_def BN_LAST_SIGNAL_def
        BN_FIRST_SIGNAL_def BN_X1_def BN_Z2_def)
  then have "unat (addr + 1) = unat addr + 1"
    using unat_add_lem[of addr 1] by simp
  with lt show "((addr + 1, snd (aHexToInt q),
           s\<lparr>inputToOutput := (table64 (inputToOutput s))[unat addr := ucast (fst (aHexToInt q))]\<rparr>),
          addr, q, s) \<in> measure (\<lambda>(addr, q, s). NUM_INPUT_SIGNAL_COMBINATIONS - unat addr)"
    by (simp add: NUM_INPUT_SIGNAL_COMBINATIONS_def NUM_HVAC_INPUT_SIGNALS_def BN_LAST_SIGNAL_def
        BN_FIRST_SIGNAL_def BN_X1_def BN_Z2_def)
qed

declare HVACMAP_loop.simps [simp del]

definition MapInputToOutput_ProcessCommand ::
    "u16 \<Rightarrow> string \<Rightarrow> u8 \<Rightarrow> u8 \<Rightarrow> bool \<Rightarrow> machine \<Rightarrow> bool \<times> machine" where
  "MapInputToOutput_ProcessCommand R cmd len senderid toMe s =
     (let (r, s1) = HvacCommands_ProcessCommand R HVAC_MAPINPUTTOOUTPUT cmd len senderid toMe s
      in if r then (True, s1)
         else if \<not> toMe then (False, s1)
         else if take 10 cmd = ''HVACMAP=0x''
         then HVACMAP_loop (ucast (fst (aHexToInt (drop 10 cmd)))) (snd (aHexToInt (drop 10 cmd))) s1
         else (False, s1))"

subsection \<open>OverrideAndDriveFromSensors and its subclasses HvacHeat, HvacCool, HvacAuto\<close>

definition SENSOR_TIMEOUT_MSEC :: msec_time_stamp_t where
  "SENSOR_TIMEOUT_MSEC = 1000 * 60 * 15"

text \<open>\<open>parseForColon(flag, p, len)\<close>; the result is an \<open>int16_t\<close>, \<open>- 1\<close> when there is no field.\<close>

definition parse_field :: "string \<Rightarrow> u16" where
  "parse_field p =
     (let neg = (cur p = CHR ''-'');
          p1 = (if cur p = CHR ''-'' \<or> cur p = CHR ''+'' then tl p else p);
          (v, p2) = aDecimalToInt p1;
          ret0 = v * 10;
          ret1 = (if isdigit (cur p2) then ret0 + of_nat ((of_char (cur p2) :: nat) - 48) else ret0)
      in if neg then - ret1 else ret1)"

fun parseForColon_loop :: "char \<Rightarrow> string \<Rightarrow> u8 \<Rightarrow> u16" where
  "parseForColon_loop flag [] c = - 1"
| "parseForColon_loop flag (x # p) c =
     (if x = NUL then - 1
      else if c = 0 then - 1
      else if x = flag \<and> cur p = CHR '':'' then parse_field (tl p)
      else parseForColon_loop flag p (c - 1))"

definition parseForColon :: "char \<Rightarrow> string \<Rightarrow> u8 \<Rightarrow> u16" where
  "parseForColon flag p len = parseForColon_loop flag p len"

text \<open>The member \<open>dehumidifyState\<close> of the object of class \<open>t\<close>.\<close>

definition get_dehumidifyState :: "HvacTypes \<Rightarrow> machine \<Rightarrow> DehumidifyState" where
  "get_dehumidifyState t s =
     (if t = HVAC_AUTO then dehumidifyState_hvacAuto (run s) else dehumidifyState_hvacCool (run s))"

definition set_dehumidifyState :: "HvacTypes \<Rightarrow> DehumidifyState \<Rightarrow> machine \<Rightarrow> machine" where
  "set_dehumidifyState t d s =
     (if t = HVAC_AUTO then s\<lparr>run := (run s)\<lparr>dehumidifyState_hvacAuto := d\<rparr>\<rparr>
      else s\<lparr>run := (run s)\<lparr>dehumidifyState_hvacCool := d\<rparr>\<rparr>)"

text \<open>The virtual functions of the sensor-driven classes, by the class \<open>t\<close> of the object.\<close>

definition HvacHeat_OnReceivedTemperatureInput :: "u16 \<Rightarrow> machine \<Rightarrow> bool" where
  "HvacHeat_OnReceivedTemperatureInput degCx10 s =
     (if fancoilState (run s) = STATE_OFF
      then sint degCx10 \<le> sint (TemperatureActivateDegreesCx10 (settingsOADFS s))
      else sint degCx10 < sint (TemperatureTargetDegreesCx10 (settingsOADFS s)))"

definition HvacCool_OnReceivedTemperatureInput :: "u16 \<Rightarrow> machine \<Rightarrow> bool" where
  "HvacCool_OnReceivedTemperatureInput degCx10 s =
     (if fancoilState (run s) = STATE_OFF
      then sint degCx10 \<ge> sint (TemperatureActivateDegreesCx10 (settingsOADFS s))
      else sint degCx10 > sint (TemperatureTargetDegreesCx10 (settingsOADFS s)))"

definition OnReceivedTemperatureInput :: "HvacTypes \<Rightarrow> u16 \<Rightarrow> machine \<Rightarrow> bool \<times> machine" where
  "OnReceivedTemperatureInput t degCx10 s =
     (if t = HVAC_HEAT then (HvacHeat_OnReceivedTemperatureInput degCx10 s, s)
      else if t = HVAC_AUTO then
        (let ret = HvacCool_OnReceivedTemperatureInput degCx10 s
         in (ret, if ret then s\<lparr>run := (run s)\<lparr>autoTarget :=
                                  TemperatureTargetDegreesCx10 (settingsOADFS s)\<rparr>\<rparr> else s))
      else (HvacCool_OnReceivedTemperatureInput degCx10 s, s))"

definition ActivateTemperatureFromTarget :: "HvacTypes \<Rightarrow> u16 \<Rightarrow> u16" where
  "ActivateTemperatureFromTarget t target = (if t = HVAC_HEAT then target - 6 else target + 6)"

text \<open>
  The stage selection by elapsed time: \<open>sinceStage1\<close> is an \<open>int32_t\<close>, the thresholds are
  \<open>long\<close> products of the 16-bit settings.
\<close>

definition stage_by_time :: "int \<Rightarrow> u16 \<Rightarrow> u16 \<Rightarrow> 'a \<Rightarrow> 'a \<Rightarrow> 'a \<Rightarrow> 'a" where
  "stage_by_time sinceStage1 secondsToSecond secondsToThird m1 m2 m3 =
     (if sinceStage1 \<ge> int (unat secondsToThird) * 1000 then m3
      else if sinceStage1 \<ge> int (unat secondsToSecond) * 1000 then m2
      else m1)"

definition HvacAuto_OnReceivedTemperatureInput2 :: "u16 \<Rightarrow> u8 \<Rightarrow> machine \<Rightarrow> u8 \<times> machine" where
  "HvacAuto_OnReceivedTemperatureInput2 degCx10 msk s =
     (let needHeat =
            (if heatState (run s) = HEAT_OFF
             then sint degCx10 \<le> sint (TemperatureActivateHeatDegreesCx10 (settingsAuto s))
             else sint degCx10 < sint (TemperatureTargetHeatDegreesCx10 (settingsAuto s)))
      in if \<not> needHeat then (msk, s\<lparr>run := (run s)\<lparr>heatState := HEAT_OFF\<rparr>\<rparr>)
         else
           (let s1 = s\<lparr>run := (run s)\<lparr>autoTarget :=
                       TemperatureTargetHeatDegreesCx10 (settingsAuto s)\<rparr>\<rparr>
            in if heatState (run s1) = HEAT_OFF
               then (HeatMaskStage1 (settingsAuto s1),
                     s1\<lparr>run := (run s1)\<lparr>heatState := HEAT_STAGE1, timeEnteredStage1 := clock s1\<rparr>\<rparr>)
               else (stage_by_time (sint (clock s1 - timeEnteredStage1 (run s1)))
                       (SecondsToSecondStage (settingsOADFS s1)) (SecondsToThirdStage (settingsOADFS s1))
                       (HeatMaskStage1 (settingsAuto s1)) (HeatMaskStage2 (settingsAuto s1))
                       (HeatMaskStage3 (settingsAuto s1)),
                     s1)))"

definition OnReceivedTemperatureInput2 :: "HvacTypes \<Rightarrow> u16 \<Rightarrow> u8 \<Rightarrow> machine \<Rightarrow> u8 \<times> machine" where
  "OnReceivedTemperatureInput2 t degCx10 msk s =
     (if t = HVAC_AUTO then HvacAuto_OnReceivedTemperatureInput2 degCx10 msk s else (msk, s))"

definition DEHUMIDIFY_HYSTERESIS :: u16 where "DEHUMIDIFY_HYSTERESIS = 15"
definition HALF_DEGREE_C :: u16 where "HALF_DEGREE_C = 5"

definition HvacCool_OnReceivedHumidityInput ::
    "HvacTypes \<Rightarrow> u16 \<Rightarrow> u16 \<Rightarrow> u8 \<Rightarrow> machine \<Rightarrow> u8 \<times> machine" where
  "HvacCool_OnReceivedHumidityInput t rhX10 degCx10 msk s =
     (if HumiditySettingX10 (settingsCool s) = 0xffff then (msk, s)
      else
        (let needDehumd =
               (if get_dehumidifyState t s = DEHUMDIFY_OFF
                then rhX10 > HumiditySettingX10 (settingsCool s) + DEHUMIDIFY_HYSTERESIS
                else rhX10 > HumiditySettingX10 (settingsCool s) - DEHUMIDIFY_HYSTERESIS)
         in if needDehumd then
              (if sint degCx10 < sint (TemperatureActivateDegreesCx10 (settingsOADFS s) - HALF_DEGREE_C)
               then (msk, set_dehumidifyState t DEHUMDIFY_OFF s)
               else ((msk OR MaskDehumidifyBitsOn (settingsCool s))
                       AND NOT (MaskDehumidifyBitsOff (settingsCool s)),
                     set_dehumidifyState t DEHUMIDIFY_ACTIVE s))
            else (msk, s)))"

definition OnReceivedHumidityInput ::
    "HvacTypes \<Rightarrow> u16 \<Rightarrow> u16 \<Rightarrow> u8 \<Rightarrow> machine \<Rightarrow> u8 \<times> machine" where
  "OnReceivedHumidityInput t rhX10 degCx10 msk s =
     (if t = HVAC_HEAT then (msk, s)
      else if t = HVAC_AUTO \<and> heatState (run s) \<noteq> HEAT_OFF then (msk, s)
      else HvacCool_OnReceivedHumidityInput t rhX10 degCx10 msk s)"

text \<open>
  The body of the \<open>HVAC_SETTINGS\<close> branch: the settings and the member \<open>off\<close> of the
  \<open>OffOnExit\<close> object after the fields of the text at \<open>q\<close> have been applied.
\<close>

definition HVAC_SETTINGS_fields ::
    "HvacTypes \<Rightarrow> string \<Rightarrow> OverrideAndDriveFromSensors_Settings \<Rightarrow> u8
       \<Rightarrow> OverrideAndDriveFromSensors_Settings \<times> u8" where
  "HVAC_SETTINGS_fields t q0 st0 off0 =
     (let (v1, q1) = aDecimalToInt q0;
          st1 = st0\<lparr>TemperatureTargetDegreesCx10 := v1,
                    TemperatureActivateDegreesCx10 := ActivateTemperatureFromTarget t v1\<rparr>
      in if cur q1 = NUL then (st1, off0) else
     (let (v2, q2) = aDecimalToInt q1;
          st2 = st1\<lparr>TemperatureActivateDegreesCx10 := v2\<rparr>
      in if cur q2 = NUL then (st2, off0) else
     (let (v3, q3) = aHexToInt q2;
          st3 = st2\<lparr>SensorMask := v3\<rparr>
      in if cur q3 = NUL then (st3, off0) else
     (let (v4, q4) = aHexToInt q3;
          st4 = st3\<lparr>MaskFanOnly := ucast v4\<rparr>
      in if cur q4 = NUL then (st4, off0) else
     (let (v5, q5) = aHexToInt q4;
          st5 = st4\<lparr>AlwaysOnMask := ucast v5\<rparr>;
          off5 = ucast v5
      in if cur q5 = NUL then (st5, off5) else
     (let (v6, q6) = aHexToInt q5;
          st6 = st5\<lparr>OutputStage1 := ucast v6\<rparr>
      in if cur q6 = NUL then (st6, off5) else
     (let (v7, q7) = aHexToInt q6;
          st7 = st6\<lparr>OutputStage2 := ucast v7\<rparr>
      in if cur q7 = NUL then (st7, off5) else
     (let (v8, q8) = aHexToInt q7;
          st8 = st7\<lparr>OutputStage3 := ucast v8\<rparr>
      in if cur q8 = NUL then (st8, off5) else
     (let (v9, q9) = aDecimalToInt q8;
          st9 = st8\<lparr>SecondsToSecondStage := v9\<rparr>
      in if cur q9 = NUL then (st9, off5) else
     (let (v10, q10) = aDecimalToInt q9
      in (st9\<lparr>SecondsToThirdStage := v10\<rparr>, off5)))))))))))"

definition HVAC_SETTINGS_command :: "u16 \<Rightarrow> HvacTypes \<Rightarrow> string \<Rightarrow> machine \<Rightarrow> machine" where
  "HVAC_SETTINGS_command R t q s =
     (let off0 = (if fanIsOn (run s)
                  then AlwaysOnMask (settingsOADFS s) OR MaskFanOnly (settingsOADFS s)
                  else AlwaysOnMask (settingsOADFS s));
          s1 = s\<lparr>run := (run s)\<lparr>fancoilState := STATE_OFF\<rparr>\<rparr>;
          (st, off) = HVAC_SETTINGS_fields t (drop 14 q) (settingsOADFS s1) off0
      in UpdateOutputs R off (s1\<lparr>settingsOADFS := st\<rparr>))"

text \<open>
  The part of \<open>OverrideAndDriveFromSensors::ProcessCommand\<close> that handles a packet not
  addressed to this node, the report of a wireless thermometer, in the order of the source:
  \<open>select_stage\<close> is the \<open>if (!needToBeOn) ... else ...\<close> statement that chooses the output,
  \<open>overlays\<close> the humidity and fan statements after it, \<open>accepted_report\<close> everything from
  the parsed temperature on. \<open>1L << senderid\<close> is undefined in C for \<open>senderid\<close> of 32 and
  more; here it is 0.
\<close>

definition select_stage :: "HvacTypes \<Rightarrow> u16 \<Rightarrow> bool \<Rightarrow> machine \<Rightarrow> u8 \<times> machine" where
  "select_stage t tCx10 needToBeOn s =
     (if \<not> needToBeOn
      then OnReceivedTemperatureInput2 t tCx10 (AlwaysOnMask (settingsOADFS s))
             (s\<lparr>run := (run s)\<lparr>fancoilState := STATE_OFF\<rparr>\<rparr>)
      else if fancoilState (run s) = STATE_OFF
      then (OutputStage1 (settingsOADFS s),
            s\<lparr>run := (run s)\<lparr>fancoilState := STATE_STAGE1, timeEnteredStage1 := clock s\<rparr>\<rparr>)
      else (stage_by_time (sint (clock s - timeEnteredStage1 (run s)))
              (SecondsToSecondStage (settingsOADFS s)) (SecondsToThirdStage (settingsOADFS s))
              (OutputStage1 (settingsOADFS s)) (OutputStage2 (settingsOADFS s))
              (OutputStage3 (settingsOADFS s)),
            s))"

text \<open>
  The output \<open>select_stage\<close> chooses when the mode needs to be on: stage 1 on entry, and
  the stage by the time since the entry into stage 1 after that.
\<close>

definition stage_base :: "machine \<Rightarrow> u8" where
  "stage_base s =
     (if fancoilState (run s) = STATE_OFF then OutputStage1 (settingsOADFS s)
      else stage_by_time (sint (clock s - timeEnteredStage1 (run s)))
             (SecondsToSecondStage (settingsOADFS s)) (SecondsToThirdStage (settingsOADFS s))
             (OutputStage1 (settingsOADFS s)) (OutputStage2 (settingsOADFS s))
             (OutputStage3 (settingsOADFS s)))"

definition overlays :: "HvacTypes \<Rightarrow> u16 \<Rightarrow> u16 \<Rightarrow> u8 \<Rightarrow> machine \<Rightarrow> u8 \<times> machine" where
  "overlays t rhx10 tCx10 output1 s =
     (let (output2, s1) =
            (if 0 < sint rhx10 then OnReceivedHumidityInput t rhx10 tCx10 output1 s
             else (output1, s))
      in (if fanIsOn (run s1) then output2 OR MaskFanOnly (settingsOADFS s1) else output2, s1))"

definition accepted_report ::
    "u16 \<Rightarrow> HvacTypes \<Rightarrow> string \<Rightarrow> u8 \<Rightarrow> u16 \<Rightarrow> machine \<Rightarrow> bool \<times> machine" where
  "accepted_report R t cmd len tCx10 s =
     (let rhx10 = parseForColon CHR ''R'' cmd len;
          (needToBeOn, s1) = OnReceivedTemperatureInput t tCx10 s;
          s2 = s1\<lparr>run := (run s1)\<lparr>previousActual := tCx10\<rparr>\<rparr>;
          (output1, s3) = select_stage t tCx10 needToBeOn s2;
          (output, s4) = overlays t rhx10 tCx10 output1 s3
      in (True, UpdateOutputs R output s4))"

definition sensor_report ::
    "u16 \<Rightarrow> HvacTypes \<Rightarrow> string \<Rightarrow> u8 \<Rightarrow> u8 \<Rightarrow> machine \<Rightarrow> bool \<times> machine" where
  "sensor_report R t cmd len senderid s =
     (let msk :: u32 = push_bit (unat senderid) 1
      in if SensorMask (settingsOADFS s) AND msk \<noteq> 0 then
           (let now = clock s
            in if lastHeardSensorId (run s) > 0 \<and> senderid > lastHeardSensorId (run s) \<and>
                  now - lastHeardFromSensor (run s) < SENSOR_TIMEOUT_MSEC
               then (True, s)
               else
                 (let s1 = s\<lparr>run := (run s)\<lparr>lastHeardFromSensor := now,
                                                lastHeardSensorId := senderid\<rparr>\<rparr>;
                      tCx10 = parseForColon CHR ''T'' cmd len
                  in if tCx10 = - 1 then (False, s1)
                     else accepted_report R t cmd len tCx10 s1))
         else (False, s))"

definition OverrideAndDriveFromSensors_ProcessCommand ::
    "u16 \<Rightarrow> HvacTypes \<Rightarrow> string \<Rightarrow> u8 \<Rightarrow> u8 \<Rightarrow> bool \<Rightarrow> machine \<Rightarrow> bool \<times> machine" where
  "OverrideAndDriveFromSensors_ProcessCommand R t cmd len senderid toMe s =
     (let (r, s1) = HvacCommands_ProcessCommand R t cmd len senderid toMe s
      in if r then (True, s1)
         else if toMe then
           (if map toupper (take 10 cmd) = ''HVAC FAN=O'' then
              (let s2 = s1\<lparr>run := (run s1)\<lparr>fanIsOn := (toupper (cur (drop 10 cmd)) = CHR ''N'')\<rparr>\<rparr>
               in (True,
                   if fanIsOn (run s2) then SetOutputBits R (MaskFanOnly (settingsOADFS s2)) s2
                   else if fancoilState (run s2) = STATE_OFF
                   then ClearOutputBits R (MaskFanOnly (settingsOADFS s2)) s2
                   else s2))
            else
              (case strstr cmd ''HVAC_SETTINGS '' of
                 Some q \<Rightarrow> (True, HVAC_SETTINGS_command R t q s1)
               | None \<Rightarrow> (False, s1)))
         else sensor_report R t cmd len senderid s1)"

definition HUM_SETTINGS_fields :: "string \<Rightarrow> HvacCool_Settings \<Rightarrow> HvacCool_Settings" where
  "HUM_SETTINGS_fields q st0 =
     (let st1 = st0\<lparr>HumiditySettingX10 := 0xffff\<rparr>
      in if cur q = NUL then st1 else
     (let (v1, q1) = aDecimalToInt (tl q);
          st2 = st1\<lparr>HumiditySettingX10 := v1\<rparr>
      in if cur q1 = NUL then st2 else
     (let (v2, q2) = aHexToInt q1;
          st3 = st2\<lparr>MaskDehumidifyBitsOn := ucast v2\<rparr>
      in if cur q2 = NUL then st3 else
     (let (v3, q3) = aHexToInt q2
      in st3\<lparr>MaskDehumidifyBitsOff := ucast v3\<rparr>))))"

definition HvacCool_ProcessCommand ::
    "u16 \<Rightarrow> HvacTypes \<Rightarrow> string \<Rightarrow> u8 \<Rightarrow> u8 \<Rightarrow> bool \<Rightarrow> machine \<Rightarrow> bool \<times> machine" where
  "HvacCool_ProcessCommand R t cmd len senderid toMe s =
     (let (r, s1) = OverrideAndDriveFromSensors_ProcessCommand R t cmd len senderid toMe s
      in if r then (True, s1)
         else if toMe then
           (case strstr cmd ''HUM_SETTINGS'' of
              Some q \<Rightarrow> (True, s1\<lparr>settingsCool := HUM_SETTINGS_fields (drop 12 q) (settingsCool s1)\<rparr>)
            | None \<Rightarrow> (False, s1))
         else (False, s1))"

definition AUTO_SETTINGS_fields :: "string \<Rightarrow> HvacAuto_Settings \<Rightarrow> HvacAuto_Settings" where
  "AUTO_SETTINGS_fields q st0 =
     (if cur q = NUL then st0 else
     (let (v1, q1) = aDecimalToInt (tl q);
          st1 = st0\<lparr>TemperatureTargetHeatDegreesCx10 := v1,
                    TemperatureActivateHeatDegreesCx10 := v1 - 6\<rparr>
      in if cur q1 = NUL then st1 else
     (let (v2, q2) = aDecimalToInt q1;
          st2 = st1\<lparr>TemperatureActivateHeatDegreesCx10 := v2\<rparr>
      in if cur q2 = NUL then st2 else
     (let (v3, q3) = aHexToInt q2;
          st3 = st2\<lparr>HeatMaskStage1 := ucast v3, HeatMaskStage2 := ucast v3,
                    HeatMaskStage3 := ucast v3\<rparr>
      in if cur q3 = NUL then st3 else
     (let (v4, q4) = aHexToInt q3;
          st4 = st3\<lparr>HeatMaskStage2 := ucast v4\<rparr>
      in if cur q4 = NUL then st4 else
     (let (v5, q5) = aHexToInt q4
      in st4\<lparr>HeatMaskStage3 := ucast v5\<rparr>))))))"

definition HvacAuto_ProcessCommand ::
    "u16 \<Rightarrow> string \<Rightarrow> u8 \<Rightarrow> u8 \<Rightarrow> bool \<Rightarrow> machine \<Rightarrow> bool \<times> machine" where
  "HvacAuto_ProcessCommand R cmd len senderid toMe s =
     (let (r, s1) = HvacCool_ProcessCommand R HVAC_AUTO cmd len senderid toMe s
      in if r then (True, s1)
         else
           (case strstr cmd ''AUTO_SETTINGS'' of
              Some q \<Rightarrow> (True, s1\<lparr>settingsAuto := AUTO_SETTINGS_fields (drop 13 q) (settingsAuto s1)\<rparr>)
            | None \<Rightarrow> (False, s1)))"

text \<open>\<open>isSensorTimedOut\<close> and the \<open>loop\<close> functions of the sensor-driven classes.\<close>

definition isSensorTimedOut :: "u16 \<Rightarrow> HvacTypes \<Rightarrow> msec_time_stamp_t \<Rightarrow> machine \<Rightarrow> bool \<times> machine" where
  "isSensorTimedOut R t now s =
     (let interval = sint (now - lastHeardFromSensor (run s));
          ret = (interval > int (unat (SecondsToThirdStage (settingsOADFS s))) * 2000)
      in if ret then
           (True, TurnFurnaceOff R t
              ((emit (Serial_println_int interval) (emit (Serial_print ''Sensor timed out! '') s))
                 \<lparr>run := (run s)\<lparr>previousActual := 0\<rparr>\<rparr>))
         else (False, s))"

definition OverrideAndDriveFromSensors_loop ::
    "u16 \<Rightarrow> HvacTypes \<Rightarrow> msec_time_stamp_t \<Rightarrow> machine \<Rightarrow> machine" where
  "OverrideAndDriveFromSensors_loop R t now s =
     (if fancoilState (run s) \<noteq> STATE_OFF then
        (let (timedOut, s1) = isSensorTimedOut R t now s
         in if timedOut then s1\<lparr>run := (run s1)\<lparr>fancoilState := STATE_OFF\<rparr>\<rparr>
            else
              (let sinceStage1 = sint (now - timeEnteredStage1 (run s1))
               in if sinceStage1 \<ge> int (unat (SecondsToThirdStage (settingsOADFS s1))) * 1000 then
                    (if fancoilState (run s1) \<noteq> STATE_STAGE3
                     then UpdateOutputs R (OutputStage3 (settingsOADFS s1))
                            (s1\<lparr>run := (run s1)\<lparr>fancoilState := STATE_STAGE3\<rparr>\<rparr>)
                     else s1)
                  else if sinceStage1 \<ge> int (unat (SecondsToSecondStage (settingsOADFS s1))) * 1000 then
                    (if fancoilState (run s1) \<noteq> STATE_STAGE2
                     then UpdateOutputs R (OutputStage2 (settingsOADFS s1))
                            (s1\<lparr>run := (run s1)\<lparr>fancoilState := STATE_STAGE2\<rparr>\<rparr>)
                     else s1)
                  else s1))
      else s)"

definition HvacAuto_loop :: "u16 \<Rightarrow> msec_time_stamp_t \<Rightarrow> machine \<Rightarrow> machine" where
  "HvacAuto_loop R now s =
     (if heatState (run s) \<noteq> HEAT_OFF then
        (let (timedOut, s1) = isSensorTimedOut R HVAC_AUTO now s
         in if timedOut then s1\<lparr>run := (run s1)\<lparr>heatState := HEAT_OFF\<rparr>\<rparr>
            else
              (let sinceStage1 = sint (now - timeEnteredStage1 (run s1))
               in if sinceStage1 \<ge> int (unat (SecondsToThirdStage (settingsOADFS s1))) * 1000 then
                    (if heatState (run s1) \<noteq> HEAT_STAGE3
                     then UpdateOutputs R (HeatMaskStage3 (settingsAuto s1))
                            (s1\<lparr>run := (run s1)\<lparr>heatState := HEAT_STAGE3\<rparr>\<rparr>)
                     else s1)
                  else if sinceStage1 \<ge> int (unat (SecondsToSecondStage (settingsOADFS s1))) * 1000 then
                    (if heatState (run s1) \<noteq> HEAT_STAGE2
                     then UpdateOutputs R (HeatMaskStage2 (settingsAuto s1))
                            (s1\<lparr>run := (run s1)\<lparr>heatState := HEAT_STAGE2\<rparr>\<rparr>)
                     else s1)
                  else s1))
      else OverrideAndDriveFromSensors_loop R HVAC_AUTO now s)"

subsection \<open>Calls through the pointer \<open>hvac\<close>\<close>

definition hvac_ProcessCommand ::
    "u16 \<Rightarrow> string \<Rightarrow> u8 \<Rightarrow> u8 \<Rightarrow> bool \<Rightarrow> machine \<Rightarrow> bool \<times> machine" where
  "hvac_ProcessCommand R cmd len senderid toMe s =
     (case hvac s of
        HVAC_PASSTHROUGH \<Rightarrow> HvacCommands_ProcessCommand R HVAC_PASSTHROUGH cmd len senderid toMe s
      | HVAC_MAPINPUTTOOUTPUT \<Rightarrow> MapInputToOutput_ProcessCommand R cmd len senderid toMe s
      | HVAC_HEAT \<Rightarrow> OverrideAndDriveFromSensors_ProcessCommand R HVAC_HEAT cmd len senderid toMe s
      | HVAC_COOL \<Rightarrow> HvacCool_ProcessCommand R HVAC_COOL cmd len senderid toMe s
      | HVAC_AUTO \<Rightarrow> HvacAuto_ProcessCommand R cmd len senderid toMe s)"

definition hvac_OnInputsChanged :: "u16 \<Rightarrow> u8 \<Rightarrow> u8 \<Rightarrow> machine \<Rightarrow> machine" where
  "hvac_OnInputsChanged R inputs previous s =
     (case hvac s of
        HVAC_PASSTHROUGH \<Rightarrow> PassThrough_OnInputsChanged R inputs previous s
      | HVAC_MAPINPUTTOOUTPUT \<Rightarrow> MapInputToOutput_OnInputsChanged R inputs previous s
      | _ \<Rightarrow> s)"

definition hvac_loop :: "u16 \<Rightarrow> msec_time_stamp_t \<Rightarrow> machine \<Rightarrow> machine" where
  "hvac_loop R now s =
     (case hvac s of
        HVAC_PASSTHROUGH \<Rightarrow> s
      | HVAC_MAPINPUTTOOUTPUT \<Rightarrow> s
      | HVAC_HEAT \<Rightarrow> OverrideAndDriveFromSensors_loop R HVAC_HEAT now s
      | HVAC_COOL \<Rightarrow> OverrideAndDriveFromSensors_loop R HVAC_COOL now s
      | HVAC_AUTO \<Rightarrow> HvacAuto_loop R now s)"

definition hvac_GetTargetAndActual :: "machine \<Rightarrow> (u16 \<times> u16) option" where
  "hvac_GetTargetAndActual s =
     (case hvac s of
        HVAC_PASSTHROUGH \<Rightarrow> None
      | HVAC_MAPINPUTTOOUTPUT \<Rightarrow> None
      | HVAC_AUTO \<Rightarrow> Some (autoTarget (run s), previousActual (run s))
      | _ \<Rightarrow> Some (TemperatureTargetDegreesCx10 (settingsOADFS s), previousActual (run s)))"

definition hvac_ModeNameString :: "machine \<Rightarrow> string" where
  "hvac_ModeNameString s = takeWhile (\<lambda>c. c \<noteq> NUL) (name6 (ModeName s))"

section \<open>The timers of \<open>loop()\<close>\<close>

text \<open>
  \<open>LCD::printBanner\<close> writes the text and waits \<open>BANNER_TIME_MSEC\<close> in \<open>delay\<close>.
\<close>

definition BANNER_TIME_MSEC :: msec_time_stamp_t where "BANNER_TIME_MSEC = 2000"

definition HeatSafetyBanner :: string where "HeatSafetyBanner = ''OVER!''"

definition printBanner :: "string \<Rightarrow> machine \<Rightarrow> machine" where
  "printBanner p s = (emit (LCD_printBanner p) s)\<lparr>clock := clock s + BANNER_TIME_MSEC\<rparr>"


definition heat_safety_expire :: "u16 \<Rightarrow> msec_time_stamp_t \<Rightarrow> machine \<Rightarrow> machine" where
  "heat_safety_expire R now s =
     (if HeatSafetyOffTimeActive (furnace s) \<and>
         uint (now - HeatSafetyOffStartTime (furnace s))
           > 1000 * uint (getHeatSafetyHoldSeconds R (eeprom s))
      then SetOutputBits R 0
             (printBanner (hvac_ModeNameString s)
                (s\<lparr>furnace := (furnace s)\<lparr>HeatSafetyOffTimeActive := False\<rparr>\<rparr>))
      else s)"

text \<open>
  The \<open>for\<close> loop over the heat safety entries with its \<open>break\<close>; \<open>heat_safety_trip\<close> is
  the body of its \<open>if\<close> for the entry \<open>m\<close>.
\<close>

definition heat_safety_trip :: "u16 \<Rightarrow> HeatSafetyMask_t \<Rightarrow> machine \<Rightarrow> machine" where
  "heat_safety_trip R m s =
     (let s1 = s\<lparr>furnace := (furnace s)\<lparr>HeatSafetyOffStartTime := clock s,
                                          HeatSafetyOffTimeActive := True\<rparr>\<rparr>;
          s2 = printBanner HeatSafetyBanner s1;
          s3 = s2\<lparr>furnace := (furnace s2)\<lparr>HeatSafetyShutoffMask := NOT (toClear m)\<rparr>\<rparr>
      in SetOutputBits R 0 s3)"

fun heat_safety_entries :: "u16 \<Rightarrow> nat list \<Rightarrow> machine \<Rightarrow> machine" where
  "heat_safety_entries R [] s = s"
| "heat_safety_entries R (i # rest) s =
     (let m = getHeatSafetyMask R (eeprom s) i;
          bits = NOT (dontCareMask m) AND LastOutputWrite (furnace s)
      in if bits = mustMatchMask m \<and> toClear m \<noteq> 0
         then heat_safety_trip R m s
         else heat_safety_entries R rest s)"

definition heat_safety_detect :: "u16 \<Rightarrow> machine \<Rightarrow> machine" where
  "heat_safety_detect R s =
     (if \<not> HeatSafetyOffTimeActive (furnace s) then
        (let heatSafetySeconds = getHeatSafetyHoldSeconds R (eeprom s)
         in if 0 < heatSafetySeconds \<and> heatSafetySeconds \<noteq> 0xffff then
              (let heatSafetyTempCx10 = getHeatSafetyTemperatureCx10 R (eeprom s)
               in if 0 < sint heatSafetyTempCx10 then
                    (if sint heatSafetyTempCx10 \<le> sint (TinletTemperatureCx10 (furnace s))
                     then heat_safety_entries R [0..<NUM_HEAT_SAFETY_ENTRIES] s
                     else s)
                  else s)
            else s)
      else s)"

definition loop_heat_safety :: "u16 \<Rightarrow> msec_time_stamp_t \<Rightarrow> machine \<Rightarrow> machine" where
  "loop_heat_safety R now s = heat_safety_detect R (heat_safety_expire R now s)"

text \<open>
  The value of the local \<open>mask\<close> of \<open>Furnace::UpdateOutputs\<close> when it reaches the compressor
  check: the output-legal bits of the request, without the bits an active heat safety hold
  clears.
\<close>

definition mask_before_compressor :: "u8 \<Rightarrow> machine \<Rightarrow> u8" where
  "mask_before_compressor m s =
     (if HeatSafetyOffTimeActive (furnace s)
      then (m AND OUTPUT_SIGNAL_MASK) AND HeatSafetyShutoffMask (furnace s)
      else m AND OUTPUT_SIGNAL_MASK)"

text \<open>The test of the \<open>for\<close> loop on entry \<open>i\<close>.\<close>

definition heat_safety_match :: "u16 \<Rightarrow> machine \<Rightarrow> nat \<Rightarrow> bool" where
  "heat_safety_match R s i =
     (NOT (dontCareMask (getHeatSafetyMask R (eeprom s) i)) AND LastOutputWrite (furnace s)
        = mustMatchMask (getHeatSafetyMask R (eeprom s) i) \<and>
      toClear (getHeatSafetyMask R (eeprom s) i) \<noteq> 0)"

section \<open>Well-formed command texts\<close>

text \<open>
  The text of an \<open>HVACMAP\<close> command: the address and the values in hexadecimal, as
  \<open>aHexToInt\<close> reads them; here two upper-case digits each, separated by one space.
\<close>

definition hex_digit :: "nat \<Rightarrow> char" where
  "hex_digit d = (if d < 10 then char_of (48 + d) else char_of (55 + d))"

definition hex_byte :: "u8 \<Rightarrow> string" where
  "hex_byte v = [hex_digit (unat v div 16), hex_digit (unat v mod 16)]"

fun HVACMAP_values :: "u8 list \<Rightarrow> string" where
  "HVACMAP_values [] = []"
| "HVACMAP_values [v] = hex_byte v"
| "HVACMAP_values (v # w # vs) = hex_byte v @ CHR '' '' # HVACMAP_values (w # vs)"

definition HVACMAP_text :: "u8 \<Rightarrow> u8 list \<Rightarrow> string" where
  "HVACMAP_text a vs = ''HVACMAP=0x'' @ hex_byte a @ (if vs = [] then [] else CHR '' '' # HVACMAP_values vs)"


section \<open>The fields of a settings command\<close>




definition given :: "u32 list \<Rightarrow> nat \<Rightarrow> 'a::len word \<Rightarrow> 'a word" where
  "given vs i old = (if i < length vs then ucast (vs ! i) else old)"









section \<open>Example states\<close>

text \<open>
  A controller in Heat mode: target 20.0 C, activate 19.4 C, sensors 8 and 9, the fan on mask 04,
  stage masks 08, 18 and 38, stage 2 after 900 s and stage 3 after 1200 s; the EEPROM is
  blank.
\<close>

definition example_heat_settings :: OverrideAndDriveFromSensors_Settings where
  "example_heat_settings =
     \<lparr>TemperatureTargetDegreesCx10 = 200, TemperatureActivateDegreesCx10 = 194,
      SensorMask = 0x300, MaskFanOnly = 0x04, AlwaysOnMask = 0, OutputStage1 = 0x08,
      OutputStage2 = 0x18, OutputStage3 = 0x38, SecondsToSecondStage = 900,
      SecondsToThirdStage = 1200\<rparr>"

definition example_heat :: machine where
  "example_heat =
     (power_on_reset (\<lambda>a. 0xff))\<lparr>hvac := HVAC_HEAT, MyTypeNumber := 2,
        settingsOADFS := example_heat_settings\<rparr>"

text \<open>The same controller at a later time.\<close>

definition at_time :: "msec_time_stamp_t \<Rightarrow> machine \<Rightarrow> machine" where
  "at_time ms s = s\<lparr>clock := ms\<rparr>"

text \<open>
  A controller in Auto mode: cooling to 25.0 C (activate 25.6 C) with the stage masks 20,
  60 and 60, heating to 20.0 C (activate 19.4 C) with the stage masks 08, 18 and 38.
\<close>

definition example_auto :: machine where
  "example_auto =
     (power_on_reset (\<lambda>a. 0xff))\<lparr>hvac := HVAC_AUTO, MyTypeNumber := 4,
        settingsOADFS :=
          \<lparr>TemperatureTargetDegreesCx10 = 250, TemperatureActivateDegreesCx10 = 256,
           SensorMask = 0x300, MaskFanOnly = 0x04, AlwaysOnMask = 0, OutputStage1 = 0x20,
           OutputStage2 = 0x60, OutputStage3 = 0x60, SecondsToSecondStage = 900,
           SecondsToThirdStage = 1200\<rparr>,
        settingsCool :=
          \<lparr>MaskDehumidifyBitsOn = 0, MaskDehumidifyBitsOff = 0, HumiditySettingX10 = 0xffff\<rparr>,
        settingsAuto :=
          \<lparr>TemperatureTargetHeatDegreesCx10 = 200, TemperatureActivateHeatDegreesCx10 = 194,
           HeatMaskStage1 = 0x08, HeatMaskStage2 = 0x18, HeatMaskStage3 = 0x38\<rparr>\<rparr>"

text \<open>The Heat controller with the two stage thresholds the other way round.\<close>

definition example_heat_inverted :: machine where
  "example_heat_inverted =
     example_heat\<lparr>settingsOADFS := example_heat_settings\<lparr>SecondsToSecondStage := 900,
        SecondsToThirdStage := 300\<rparr>\<rparr>"

text \<open>The Heat controller after sensor 9 has reported 15.0 C at time 0: heating, stage 1.\<close>

definition example_heat_stage1 :: machine where
  "example_heat_stage1 = snd (hvac_ProcessCommand 0 ''C:1, T:+15.00'' 61 9 False example_heat)"

text \<open>
  A controller in MapInputToOutput mode whose table was read from a blank EEPROM: every entry
  is the sentinel FF.
\<close>

definition example_map :: machine where
  "example_map =
     (power_on_reset (\<lambda>a. 0xff))\<lparr>hvac := HVAC_MAPINPUTTOOUTPUT, MyTypeNumber := 1,
        inputToOutput := replicate NUM_INPUT_SIGNAL_COMBINATIONS 0xff\<rparr>"



text \<open>
  The Heat controller with the heat safety of the specification: trigger 32.2 C, hold 300 s,
  entry 1 with \<open>dontCare\<close> F7 (all but W), \<open>mustMatch\<close> 08 (W) and \<open>toClear\<close> 38; the mode
  has requested W, the relays show W and the inlet is at 33.0 C.
\<close>

definition example_heat_safety_eeprom :: eeprom where
  "example_heat_safety_eeprom =
     setHeatSafetyMask 0 0 \<lparr>dontCareMask = 0xF7, mustMatchMask = 0x08, toClear = 0x38\<rparr>
       (setHeatSafetyTemperatureX10 0 322 (setHeatSafetyHoldSeconds 0 300 (\<lambda>a. 0xff)))"

definition example_heat_safety :: machine where
  "example_heat_safety =
     example_heat\<lparr>eeprom := example_heat_safety_eeprom,
        furnace := (furnace example_heat)\<lparr>OutputRegister := 0x08, LastOutputWrite := 0x08,
                     TinletTemperatureCx10 := 330\<rparr>\<rparr>"

section \<open>Properties\<close>

subsection \<open>The address computation\<close>


lemma spec_recordSize_sze: "of_nat (spec_recordSize t) = sze t"
  by (cases t) (simp_all add: spec_recordSize_def sze_def)

lemma spec_recordSize_values:
  "spec_recordSize HVAC_PASSTHROUGH = 6" "spec_recordSize HVAC_MAPINPUTTOOUTPUT = 70" "spec_recordSize HVAC_HEAT = 23"
  "spec_recordSize HVAC_COOL = 27" "spec_recordSize HVAC_AUTO = 34"
  by (simp_all add: spec_recordSize_def sizeof_HvacCommands_Settings_def sizeof_MapInputToOutput_Settings_def
      sizeof_OverrideAndDriveFromSensors_Settings_def sizeof_HvacCool_Settings_def
      sizeof_HvacAuto_Settings_def NAME_LENGTH_def NUM_INPUT_SIGNAL_COMBINATIONS_def
      NUM_HVAC_INPUT_SIGNALS_def BN_LAST_SIGNAL_def BN_FIRST_SIGNAL_def BN_X1_def BN_Z2_def)

lemma address_word_step:
  "of_nat (b + unat (w::u8) * spec_recordSize t) = (of_nat b :: u16) + ucast w * sze t"
  by (simp add: spec_recordSize_sze)

lemmas address_word_simps =
  address_word_step AddressOfModeTypeSettings.simps spec_base.simps not_less[symmetric] if_False
  of_nat_unat ucast_id order_refl order_less_irrefl

lemma address_word_pass:
  "which \<le> NumberOfModesInType R e HVAC_PASSTHROUGH \<Longrightarrow>
   AddressOfModeTypeSettings R e HVAC_PASSTHROUGH which
     = of_nat (spec_base R e HVAC_PASSTHROUGH + unat which * spec_recordSize HVAC_PASSTHROUGH)"
  by (simp only: address_word_simps)

lemma address_word_map:
  "which \<le> NumberOfModesInType R e HVAC_MAPINPUTTOOUTPUT \<Longrightarrow>
   AddressOfModeTypeSettings R e HVAC_MAPINPUTTOOUTPUT which
     = of_nat (spec_base R e HVAC_MAPINPUTTOOUTPUT + unat which * spec_recordSize HVAC_MAPINPUTTOOUTPUT)"
  by (simp only: address_word_simps address_word_pass)

lemma address_word_heat:
  "which \<le> NumberOfModesInType R e HVAC_HEAT \<Longrightarrow>
   AddressOfModeTypeSettings R e HVAC_HEAT which
     = of_nat (spec_base R e HVAC_HEAT + unat which * spec_recordSize HVAC_HEAT)"
  by (simp only: address_word_simps address_word_map)

lemma address_word_cool:
  "which \<le> NumberOfModesInType R e HVAC_COOL \<Longrightarrow>
   AddressOfModeTypeSettings R e HVAC_COOL which
     = of_nat (spec_base R e HVAC_COOL + unat which * spec_recordSize HVAC_COOL)"
  by (simp only: address_word_simps address_word_heat)

lemma address_word_auto:
  "which \<le> NumberOfModesInType R e HVAC_AUTO \<Longrightarrow>
   AddressOfModeTypeSettings R e HVAC_AUTO which
     = of_nat (spec_base R e HVAC_AUTO + unat which * spec_recordSize HVAC_AUTO)"
  by (simp only: address_word_simps address_word_cool)

lemma address_word:
  "which \<le> NumberOfModesInType R e t \<Longrightarrow>
   AddressOfModeTypeSettings R e t which = of_nat (spec_base R e t + unat which * spec_recordSize t)"
  by (cases t) (simp_all only: address_word_pass address_word_map address_word_heat
        address_word_cool address_word_auto)

lemma modes_start: "HVAC_MODES_EEPROM_START_ADDR R = R + 103"
  by (simp add: HVAC_MODES_EEPROM_START_ADDR_def HVAC_NUMBER_OF_MODES_IN_TYPE_ADDR_def
     HVAC_EEPROM_TYPE_AND_MODE_ADDR_def HVAC_EEPROM_START_def TOTAL_EEPROM_USED_def
     SCHEDULE_TEMPERATURE_ENTRIES_def HEATSAFETY_MAP_def HEATSAFETY_TRIGGER_TEMPERATURECx10_def
     HEATSAFETY_HOLD_SECONDS_def COMPRESSOR_HOLD_SECONDS_def COMPRESSOR_MASK_def
     DISPLAY_UNITS_ADDRESS_def SIGNAL_LABEL_ASSIGNMENT_def NUMBER_OF_SIGNALS_def MAX_WIRE_NAME_LEN_def
     NUM_HEAT_SAFETY_ENTRIES_def NUM_SCHEDULE_TEMPERATURE_ENTRIES_def HVAC_SAVED_TYPE_AND_MODE_SIZE_def
     NUMBER_OF_HVAC_TYPES_IN_EEPROM_def NUMBER_OF_HVAC_TYPES_def)

lemma unat_u8_le: "unat (w::u8) \<le> 255"
  using unsigned_less[of w, where 'a=nat] by simp

lemma mult_255: "a \<le> 255 \<Longrightarrow> a * k \<le> 255 * (k::nat)"
  by simp

lemma spec_base_bounds:
  assumes "unat R \<le> 26156"
  shows "spec_base R e t + unat (which::u8) * spec_recordSize t \<le> unat R + 103 + 6 + 255 * (70 + 23 + 27 + 34)"
proof -
  have s: "unat (HVAC_MODES_EEPROM_START_ADDR R) = unat R + 103"
    using assms by (simp add: modes_start unat_word_ariths)
  have p: "unat (NumberOfModesInType R e HVAC_PASSTHROUGH) = 1" by (simp add: NumberOfModesInType_def)
  have a: "unat (NumberOfModesInType R e HVAC_MAPINPUTTOOUTPUT) * 70 \<le> 255 * 70"
    by (rule mult_255[OF unat_u8_le])
  have b: "unat (NumberOfModesInType R e HVAC_HEAT) * 23 \<le> 255 * 23"
    by (rule mult_255[OF unat_u8_le])
  have c: "unat (NumberOfModesInType R e HVAC_COOL) * 27 \<le> 255 * 27"
    by (rule mult_255[OF unat_u8_le])
  have w: "\<And>k. unat which * k \<le> 255 * k"
    by (rule mult_255[OF unat_u8_le])
  show ?thesis
    using a b c w[of 6] w[of 70] w[of 23] w[of 27] w[of 34]
    by (cases t) (simp_all add: s p spec_recordSize_values)
qed

lemma address_unat:
  assumes "unat R \<le> 26156" "which \<le> NumberOfModesInType R e t"
  shows "unat (AddressOfModeTypeSettings R e t which) = spec_base R e t + unat which * spec_recordSize t"
proof -
  have "spec_base R e t + unat which * spec_recordSize t < 2 ^ 16"
    using spec_base_bounds[OF assms(1), of e t "which"] assms(1) by simp
  then show ?thesis
    by (simp add: address_word[OF assms(2)] unat_of_nat del: of_nat_add of_nat_mult)
qed


lemma NumberOfModes_Set:
  "NumberOfModesInType R (SetNumberOfModesInType R t c e) u =
     (if u = t \<and> t \<noteq> HVAC_PASSTHROUGH then (if c = 0xff then 0 else c)
      else NumberOfModesInType R e u)"
  by (cases t; cases u) (simp_all add: NumberOfModesInType_def SetNumberOfModesInType_def)

lemma spec_base_Set:
  assumes "ordinal t < ordinal u"
  shows "int (spec_base R (SetNumberOfModesInType R t c e) u) =
         int (spec_base R e u)
         + (int (unat (NumberOfModesInType R (SetNumberOfModesInType R t c e) t))
            - int (unat (NumberOfModesInType R e t))) * int (spec_recordSize t)"
  using assms
  by (cases t; cases u) (simp_all add: NumberOfModes_Set algebra_simps)

text \<open>
  C2: for every count vector and every instance index not exceeding the count of its type,
  the address of an instance is the base of its type plus the index times the record size of
  the type, with the record sizes and bases of the specification; consecutive instances of a
  type are exactly one record apart and strictly increasing; the first instance of each
  type begins where the previous type's last instance ends; changing the count of a type
  shifts the addresses of every higher-numbered type by the change of the count times the
  record size of that type, and writes no byte but the count byte itself. The bound on \<open>R\<close>
  keeps the 16-bit address arithmetic from wrapping.
\<close>

theorem address_layout:
  assumes "unat R \<le> 26156"
  shows
    "(\<forall>t i. i \<le> NumberOfModesInType R e t \<longrightarrow>
        unat (AddressOfModeTypeSettings R e t i) = spec_base R e t + unat i * spec_recordSize t)
   \<and> (\<forall>t i. i < NumberOfModesInType R e t \<longrightarrow>
        unat (AddressOfModeTypeSettings R e t (i + 1))
          = unat (AddressOfModeTypeSettings R e t i) + spec_recordSize t
        \<and> unat (AddressOfModeTypeSettings R e t i) < unat (AddressOfModeTypeSettings R e t (i + 1)))
   \<and> AddressOfModeTypeSettings R e HVAC_MAPINPUTTOOUTPUT 0
        = AddressOfModeTypeSettings R e HVAC_PASSTHROUGH (NumberOfModesInType R e HVAC_PASSTHROUGH)
   \<and> AddressOfModeTypeSettings R e HVAC_HEAT 0
        = AddressOfModeTypeSettings R e HVAC_MAPINPUTTOOUTPUT (NumberOfModesInType R e HVAC_MAPINPUTTOOUTPUT)
   \<and> AddressOfModeTypeSettings R e HVAC_COOL 0
        = AddressOfModeTypeSettings R e HVAC_HEAT (NumberOfModesInType R e HVAC_HEAT)
   \<and> AddressOfModeTypeSettings R e HVAC_AUTO 0
        = AddressOfModeTypeSettings R e HVAC_COOL (NumberOfModesInType R e HVAC_COOL)
   \<and> (\<forall>t c u i. ordinal t < ordinal u \<and> i \<le> NumberOfModesInType R e u \<longrightarrow>
        int (unat (AddressOfModeTypeSettings R (SetNumberOfModesInType R t c e) u i))
          = int (unat (AddressOfModeTypeSettings R e u i))
            + (int (unat (NumberOfModesInType R (SetNumberOfModesInType R t c e) t))
               - int (unat (NumberOfModesInType R e t))) * int (spec_recordSize t))
   \<and> (\<forall>t c a. a \<noteq> of_nat (ordinal t) - 1 + HVAC_NUMBER_OF_MODES_IN_TYPE_ADDR R \<longrightarrow>
        SetNumberOfModesInType R t c e a = e a)"
proof -
  have R: "unat R \<le> 26150 + 6" using assms by simp
  have A: "\<And>e t i. i \<le> NumberOfModesInType R e t \<Longrightarrow>
        unat (AddressOfModeTypeSettings R e t i) = spec_base R e t + unat i * spec_recordSize t"
    by (rule address_unat[OF assms])
  have P1: "\<forall>t i. i \<le> NumberOfModesInType R e t \<longrightarrow>
        unat (AddressOfModeTypeSettings R e t i) = spec_base R e t + unat i * spec_recordSize t"
    using A by blast
  have P2: "\<forall>t i. i < NumberOfModesInType R e t \<longrightarrow>
        unat (AddressOfModeTypeSettings R e t (i + 1))
          = unat (AddressOfModeTypeSettings R e t i) + spec_recordSize t
        \<and> unat (AddressOfModeTypeSettings R e t i) < unat (AddressOfModeTypeSettings R e t (i + 1))"
  proof (intro allI impI)
    fix t and i :: u8
    assume lt: "i < NumberOfModesInType R e t"
    have le: "i \<le> NumberOfModesInType R e t" using lt by simp
    have "unat i < unat (NumberOfModesInType R e t)"
      using lt by (simp add: word_less_nat_alt)
    then have i255: "unat i < 255"
      using unat_u8_le[of "NumberOfModesInType R e t"] by simp
    have u: "unat (i + 1) = unat i + 1"
      using i255 unat_add_lem[of i 1] by simp
    have le1: "i + 1 \<le> NumberOfModesInType R e t"
      using lt u by (simp add: word_le_nat_alt word_less_nat_alt)
    have pos: "0 < spec_recordSize t" by (cases t) (simp_all add: spec_recordSize_values)
    show "unat (AddressOfModeTypeSettings R e t (i + 1))
          = unat (AddressOfModeTypeSettings R e t i) + spec_recordSize t
        \<and> unat (AddressOfModeTypeSettings R e t i) < unat (AddressOfModeTypeSettings R e t (i + 1))"
      using pos by (simp add: A[OF le] A[OF le1] u)
  qed
  have P3: "AddressOfModeTypeSettings R e HVAC_MAPINPUTTOOUTPUT 0
        = AddressOfModeTypeSettings R e HVAC_PASSTHROUGH (NumberOfModesInType R e HVAC_PASSTHROUGH)"
    by simp
  have P4: "AddressOfModeTypeSettings R e HVAC_HEAT 0
        = AddressOfModeTypeSettings R e HVAC_MAPINPUTTOOUTPUT (NumberOfModesInType R e HVAC_MAPINPUTTOOUTPUT)"
    by simp
  have P5: "AddressOfModeTypeSettings R e HVAC_COOL 0
        = AddressOfModeTypeSettings R e HVAC_HEAT (NumberOfModesInType R e HVAC_HEAT)"
    by simp
  have P6: "AddressOfModeTypeSettings R e HVAC_AUTO 0
        = AddressOfModeTypeSettings R e HVAC_COOL (NumberOfModesInType R e HVAC_COOL)"
    by simp
  have P7: "\<forall>t c u i. ordinal t < ordinal u \<and> i \<le> NumberOfModesInType R e u \<longrightarrow>
        int (unat (AddressOfModeTypeSettings R (SetNumberOfModesInType R t c e) u i))
          = int (unat (AddressOfModeTypeSettings R e u i))
            + (int (unat (NumberOfModesInType R (SetNumberOfModesInType R t c e) t))
               - int (unat (NumberOfModesInType R e t))) * int (spec_recordSize t)"
  proof (intro allI impI, elim conjE)
    fix t c u and i :: u8
    assume o: "ordinal t < ordinal u" and le: "i \<le> NumberOfModesInType R e u"
    have ne: "u \<noteq> t" using o by auto
    have le': "i \<le> NumberOfModesInType R (SetNumberOfModesInType R t c e) u"
      using le ne by (simp add: NumberOfModes_Set)
    show "int (unat (AddressOfModeTypeSettings R (SetNumberOfModesInType R t c e) u i))
          = int (unat (AddressOfModeTypeSettings R e u i))
            + (int (unat (NumberOfModesInType R (SetNumberOfModesInType R t c e) t))
               - int (unat (NumberOfModesInType R e t))) * int (spec_recordSize t)"
      using spec_base_Set[OF o, of R c e] by (simp add: A[OF le] A[OF le'])
  qed
  have P8: "\<forall>t c a. a \<noteq> of_nat (ordinal t) - 1 + HVAC_NUMBER_OF_MODES_IN_TYPE_ADDR R \<longrightarrow>
        SetNumberOfModesInType R t c e a = e a"
    by (simp add: SetNumberOfModesInType_def)
  show ?thesis
    using P1 P2 P3 P4 P5 P6 P7 P8 by blast
qed



lemma modes_addr_0: "HVAC_NUMBER_OF_MODES_IN_TYPE_ADDR 0 = 99"
  by (simp add: HVAC_NUMBER_OF_MODES_IN_TYPE_ADDR_def
     HVAC_EEPROM_TYPE_AND_MODE_ADDR_def HVAC_EEPROM_START_def TOTAL_EEPROM_USED_def
     SCHEDULE_TEMPERATURE_ENTRIES_def HEATSAFETY_MAP_def HEATSAFETY_TRIGGER_TEMPERATURECx10_def
     HEATSAFETY_HOLD_SECONDS_def COMPRESSOR_HOLD_SECONDS_def COMPRESSOR_MASK_def
     DISPLAY_UNITS_ADDRESS_def SIGNAL_LABEL_ASSIGNMENT_def NUMBER_OF_SIGNALS_def MAX_WIRE_NAME_LEN_def
     NUM_HEAT_SAFETY_ENTRIES_def NUM_SCHEDULE_TEMPERATURE_ENTRIES_def HVAC_SAVED_TYPE_AND_MODE_SIZE_def)

lemma example_counts:
  "NumberOfModesInType 0 example_eeprom HVAC_PASSTHROUGH = 1"
  "NumberOfModesInType 0 example_eeprom HVAC_MAPINPUTTOOUTPUT = 2"
  "NumberOfModesInType 0 example_eeprom HVAC_HEAT = 1"
  "NumberOfModesInType 0 example_eeprom HVAC_COOL = 0"
  "NumberOfModesInType 0 example_eeprom HVAC_AUTO = 0"
  by (simp_all add: NumberOfModesInType_def example_eeprom_def modes_addr_0)

text \<open>The layout theorem at the example image.\<close>

theorem address_layout_witness:
  "unat (0::u16) \<le> 26156
   \<and> (1::u8) \<le> NumberOfModesInType 0 example_eeprom HVAC_HEAT
   \<and> unat (AddressOfModeTypeSettings 0 example_eeprom HVAC_HEAT 1) = 103 + 1 * 6 + 2 * 70 + 1 * 23
   \<and> (0::u8) < NumberOfModesInType 0 example_eeprom HVAC_MAPINPUTTOOUTPUT
   \<and> unat (AddressOfModeTypeSettings 0 example_eeprom HVAC_MAPINPUTTOOUTPUT (0 + 1))
       = unat (AddressOfModeTypeSettings 0 example_eeprom HVAC_MAPINPUTTOOUTPUT 0) + 70
   \<and> ordinal HVAC_MAPINPUTTOOUTPUT < ordinal HVAC_HEAT
   \<and> int (unat (AddressOfModeTypeSettings 0
          (SetNumberOfModesInType 0 HVAC_MAPINPUTTOOUTPUT 5 example_eeprom) HVAC_HEAT 1))
       = int (unat (AddressOfModeTypeSettings 0 example_eeprom HVAC_HEAT 1)) + (5 - 2) * 70
   \<and> SetNumberOfModesInType 0 HVAC_MAPINPUTTOOUTPUT 5 example_eeprom 300 = example_eeprom 300"
proof -
  have h: "unat (0::u16) \<le> 26156" by simp
  note L = address_layout[OF h, of example_eeprom]
  have a: "unat (AddressOfModeTypeSettings 0 example_eeprom HVAC_HEAT 1) = 103 + 1 * 6 + 2 * 70 + 1 * 23"
    using L[THEN conjunct1, rule_format, of 1 HVAC_HEAT]
    by (simp add: example_counts spec_recordSize_values modes_start)
  have b: "unat (AddressOfModeTypeSettings 0 example_eeprom HVAC_MAPINPUTTOOUTPUT (0 + 1))
       = unat (AddressOfModeTypeSettings 0 example_eeprom HVAC_MAPINPUTTOOUTPUT 0) + 70"
    using L[THEN conjunct2, THEN conjunct1, rule_format, of 0 HVAC_MAPINPUTTOOUTPUT]
    by (simp add: example_counts spec_recordSize_values)
  have c: "int (unat (AddressOfModeTypeSettings 0
          (SetNumberOfModesInType 0 HVAC_MAPINPUTTOOUTPUT 5 example_eeprom) HVAC_HEAT 1))
       = int (unat (AddressOfModeTypeSettings 0 example_eeprom HVAC_HEAT 1)) + (5 - 2) * 70"
    using L[THEN conjunct2, THEN conjunct2, THEN conjunct2, THEN conjunct2, THEN conjunct2,
            THEN conjunct2, THEN conjunct1, rule_format, of HVAC_MAPINPUTTOOUTPUT HVAC_HEAT 1 5]
    by (simp add: example_counts spec_recordSize_values NumberOfModes_Set)
  have d: "SetNumberOfModesInType 0 HVAC_MAPINPUTTOOUTPUT 5 example_eeprom 300 = example_eeprom 300"
    using L[THEN conjunct2, THEN conjunct2, THEN conjunct2, THEN conjunct2, THEN conjunct2,
            THEN conjunct2, THEN conjunct2, rule_format, of 300 HVAC_MAPINPUTTOOUTPUT 5]
    by (simp add: modes_addr_0)
  show ?thesis using a b c d by (simp add: example_counts)
qed
subsection \<open>What the arbiter and the sensor callbacks leave unchanged\<close>

lemma UpdateOutputs_frame [simp]:
  "eeprom (UpdateOutputs R m s) = eeprom s"
  "clock (UpdateOutputs R m s) = clock s"
  "hvac (UpdateOutputs R m s) = hvac s"
  "MyTypeNumber (UpdateOutputs R m s) = MyTypeNumber s"
  "MyModeNumber (UpdateOutputs R m s) = MyModeNumber s"
  "ModeName (UpdateOutputs R m s) = ModeName s"
  "inputToOutput (UpdateOutputs R m s) = inputToOutput s"
  "settingsOADFS (UpdateOutputs R m s) = settingsOADFS s"
  "settingsCool (UpdateOutputs R m s) = settingsCool s"
  "settingsAuto (UpdateOutputs R m s) = settingsAuto s"
  "run (UpdateOutputs R m s) = run s"
  "trace (UpdateOutputs R m s) = trace s"
  by (simp_all add: UpdateOutputs_def Let_def)

lemma UpdateOutputs_LastOutputWrite [simp]:
  "LastOutputWrite (furnace (UpdateOutputs R m s)) = m AND OUTPUT_SIGNAL_MASK"
  by (simp add: UpdateOutputs_def Let_def)

lemma ORTI_fst_run:
  "fancoilState r = fancoilState (run s) \<Longrightarrow>
   fst (OnReceivedTemperatureInput t d (s\<lparr>run := r\<rparr>)) = fst (OnReceivedTemperatureInput t d s)"
  by (simp add: OnReceivedTemperatureInput_def HvacHeat_OnReceivedTemperatureInput_def
      HvacCool_OnReceivedTemperatureInput_def Let_def)

lemma ORTI_frame [simp]:
  "lastHeardSensorId (run (snd (OnReceivedTemperatureInput t d s))) = lastHeardSensorId (run s)"
  "lastHeardFromSensor (run (snd (OnReceivedTemperatureInput t d s))) = lastHeardFromSensor (run s)"
  "fancoilState (run (snd (OnReceivedTemperatureInput t d s))) = fancoilState (run s)"
  "timeEnteredStage1 (run (snd (OnReceivedTemperatureInput t d s))) = timeEnteredStage1 (run s)"
  "fanIsOn (run (snd (OnReceivedTemperatureInput t d s))) = fanIsOn (run s)"
  "heatState (run (snd (OnReceivedTemperatureInput t d s))) = heatState (run s)"
  "dehumidifyState_hvacCool (run (snd (OnReceivedTemperatureInput t d s)))
     = dehumidifyState_hvacCool (run s)"
  "dehumidifyState_hvacAuto (run (snd (OnReceivedTemperatureInput t d s)))
     = dehumidifyState_hvacAuto (run s)"
  "settingsOADFS (snd (OnReceivedTemperatureInput t d s)) = settingsOADFS s"
  "settingsCool (snd (OnReceivedTemperatureInput t d s)) = settingsCool s"
  "settingsAuto (snd (OnReceivedTemperatureInput t d s)) = settingsAuto s"
  "clock (snd (OnReceivedTemperatureInput t d s)) = clock s"
  "eeprom (snd (OnReceivedTemperatureInput t d s)) = eeprom s"
  "furnace (snd (OnReceivedTemperatureInput t d s)) = furnace s"
  "hvac (snd (OnReceivedTemperatureInput t d s)) = hvac s"
  by (simp_all add: OnReceivedTemperatureInput_def Let_def)

lemma ORTI2_frame [simp]:
  "lastHeardSensorId (run (snd (OnReceivedTemperatureInput2 t d m s))) = lastHeardSensorId (run s)"
  "lastHeardFromSensor (run (snd (OnReceivedTemperatureInput2 t d m s))) = lastHeardFromSensor (run s)"
  "fancoilState (run (snd (OnReceivedTemperatureInput2 t d m s))) = fancoilState (run s)"
  "fanIsOn (run (snd (OnReceivedTemperatureInput2 t d m s))) = fanIsOn (run s)"
  "settingsOADFS (snd (OnReceivedTemperatureInput2 t d m s)) = settingsOADFS s"
  "settingsCool (snd (OnReceivedTemperatureInput2 t d m s)) = settingsCool s"
  "settingsAuto (snd (OnReceivedTemperatureInput2 t d m s)) = settingsAuto s"
  "clock (snd (OnReceivedTemperatureInput2 t d m s)) = clock s"
  "eeprom (snd (OnReceivedTemperatureInput2 t d m s)) = eeprom s"
  "furnace (snd (OnReceivedTemperatureInput2 t d m s)) = furnace s"
  "hvac (snd (OnReceivedTemperatureInput2 t d m s)) = hvac s"
  by (simp_all add: OnReceivedTemperatureInput2_def HvacAuto_OnReceivedTemperatureInput2_def Let_def)

lemma ORHI_frame [simp]:
  "lastHeardSensorId (run (snd (OnReceivedHumidityInput t rh d m s))) = lastHeardSensorId (run s)"
  "lastHeardFromSensor (run (snd (OnReceivedHumidityInput t rh d m s))) = lastHeardFromSensor (run s)"
  "fancoilState (run (snd (OnReceivedHumidityInput t rh d m s))) = fancoilState (run s)"
  "timeEnteredStage1 (run (snd (OnReceivedHumidityInput t rh d m s))) = timeEnteredStage1 (run s)"
  "fanIsOn (run (snd (OnReceivedHumidityInput t rh d m s))) = fanIsOn (run s)"
  "heatState (run (snd (OnReceivedHumidityInput t rh d m s))) = heatState (run s)"
  "settingsOADFS (snd (OnReceivedHumidityInput t rh d m s)) = settingsOADFS s"
  "settingsCool (snd (OnReceivedHumidityInput t rh d m s)) = settingsCool s"
  "settingsAuto (snd (OnReceivedHumidityInput t rh d m s)) = settingsAuto s"
  "clock (snd (OnReceivedHumidityInput t rh d m s)) = clock s"
  "eeprom (snd (OnReceivedHumidityInput t rh d m s)) = eeprom s"
  "furnace (snd (OnReceivedHumidityInput t rh d m s)) = furnace s"
  "hvac (snd (OnReceivedHumidityInput t rh d m s)) = hvac s"
  by (simp_all add: OnReceivedHumidityInput_def HvacCool_OnReceivedHumidityInput_def Let_def
      set_dehumidifyState_def)

lemma ORHI_fst_cong:
  assumes "settingsCool s' = settingsCool s" "settingsOADFS s' = settingsOADFS s"
    "heatState (run s') = heatState (run s)"
    "dehumidifyState_hvacCool (run s') = dehumidifyState_hvacCool (run s)"
    "dehumidifyState_hvacAuto (run s') = dehumidifyState_hvacAuto (run s)"
  shows "fst (OnReceivedHumidityInput t rh d m s') = fst (OnReceivedHumidityInput t rh d m s)"
  using assms
  by (simp add: OnReceivedHumidityInput_def HvacCool_OnReceivedHumidityInput_def Let_def
      get_dehumidifyState_def)

lemma select_stage_frame [simp]:
  "lastHeardSensorId (run (snd (select_stage t d n s))) = lastHeardSensorId (run s)"
  "lastHeardFromSensor (run (snd (select_stage t d n s))) = lastHeardFromSensor (run s)"
  "fanIsOn (run (snd (select_stage t d n s))) = fanIsOn (run s)"
  "settingsOADFS (snd (select_stage t d n s)) = settingsOADFS s"
  "settingsCool (snd (select_stage t d n s)) = settingsCool s"
  "settingsAuto (snd (select_stage t d n s)) = settingsAuto s"
  "clock (snd (select_stage t d n s)) = clock s"
  "eeprom (snd (select_stage t d n s)) = eeprom s"
  "furnace (snd (select_stage t d n s)) = furnace s"
  "hvac (snd (select_stage t d n s)) = hvac s"
  by (simp_all add: select_stage_def)

lemma overlays_frame [simp]:
  "lastHeardSensorId (run (snd (overlays t rh d m s))) = lastHeardSensorId (run s)"
  "lastHeardFromSensor (run (snd (overlays t rh d m s))) = lastHeardFromSensor (run s)"
  "fancoilState (run (snd (overlays t rh d m s))) = fancoilState (run s)"
  "timeEnteredStage1 (run (snd (overlays t rh d m s))) = timeEnteredStage1 (run s)"
  "fanIsOn (run (snd (overlays t rh d m s))) = fanIsOn (run s)"
  "heatState (run (snd (overlays t rh d m s))) = heatState (run s)"
  "settingsOADFS (snd (overlays t rh d m s)) = settingsOADFS s"
  "settingsCool (snd (overlays t rh d m s)) = settingsCool s"
  "settingsAuto (snd (overlays t rh d m s)) = settingsAuto s"
  "clock (snd (overlays t rh d m s)) = clock s"
  "eeprom (snd (overlays t rh d m s)) = eeprom s"
  "furnace (snd (overlays t rh d m s)) = furnace s"
  "hvac (snd (overlays t rh d m s)) = hvac s"
  by (simp_all add: overlays_def split_beta)

lemma accepted_report_frame [simp]:
  "fst (accepted_report R t cmd len d s)"
  "lastHeardSensorId (run (snd (accepted_report R t cmd len d s))) = lastHeardSensorId (run s)"
  "lastHeardFromSensor (run (snd (accepted_report R t cmd len d s))) = lastHeardFromSensor (run s)"
  "fanIsOn (run (snd (accepted_report R t cmd len d s))) = fanIsOn (run s)"
  "settingsOADFS (snd (accepted_report R t cmd len d s)) = settingsOADFS s"
  "settingsCool (snd (accepted_report R t cmd len d s)) = settingsCool s"
  "settingsAuto (snd (accepted_report R t cmd len d s)) = settingsAuto s"
  "clock (snd (accepted_report R t cmd len d s)) = clock s"
  "eeprom (snd (accepted_report R t cmd len d s)) = eeprom s"
  "hvac (snd (accepted_report R t cmd len d s)) = hvac s"
  by (simp_all add: accepted_report_def split_beta Let_def)


text \<open>A report from a configured sender that is not ignored, with and without a temperature.\<close>

lemma sensor_report_accepted_eq:
  assumes bit: "SensorMask (settingsOADFS s) AND push_bit (unat senderid) 1 \<noteq> 0"
    and acc: "\<not> (0 < lastHeardSensorId (run s) \<and> lastHeardSensorId (run s) < senderid \<and>
        clock s - lastHeardFromSensor (run s) < SENSOR_TIMEOUT_MSEC)"
  shows "sensor_report R t cmd len senderid s =
    (if parseForColon CHR ''T'' cmd len = - 1
     then (False, s\<lparr>run := (run s)\<lparr>lastHeardFromSensor := clock s, lastHeardSensorId := senderid\<rparr>\<rparr>)
     else accepted_report R t cmd len (parseForColon CHR ''T'' cmd len)
            (s\<lparr>run := (run s)\<lparr>lastHeardFromSensor := clock s, lastHeardSensorId := senderid\<rparr>\<rparr>))"
  unfolding sensor_report_def Let_def
  by (simp only: bit acc if_True if_False not_False_eq_True)


text \<open>A packet that is not addressed to this node reaches \<open>sensor_report\<close> in every sensor-driven mode.\<close>

lemma hvac_ProcessCommand_sniffed:
  assumes "hvac s = HVAC_HEAT \<or> hvac s = HVAC_COOL \<or> hvac s = HVAC_AUTO"
  shows "fst (sensor_report R (hvac s) cmd len senderid s) \<longrightarrow>
           hvac_ProcessCommand R cmd len senderid False s = sensor_report R (hvac s) cmd len senderid s"
    and "run (snd (hvac_ProcessCommand R cmd len senderid False s))
           = run (snd (sensor_report R (hvac s) cmd len senderid s))"
    and "furnace (snd (hvac_ProcessCommand R cmd len senderid False s))
           = furnace (snd (sensor_report R (hvac s) cmd len senderid s))"
  using assms
  by (auto simp add: hvac_ProcessCommand_def OverrideAndDriveFromSensors_ProcessCommand_def
      HvacCool_ProcessCommand_def HvacAuto_ProcessCommand_def HvacCommands_ProcessCommand_def
      split_beta prod_eq_iff split: option.splits)

subsection \<open>Staged activation\<close>


lemma overlays_fst:
  "fst (overlays t rh d m s) =
     (if fanIsOn (run s)
      then (if 0 < sint rh then fst (OnReceivedHumidityInput t rh d m s) else m)
             OR MaskFanOnly (settingsOADFS s)
      else (if 0 < sint rh then fst (OnReceivedHumidityInput t rh d m s) else m))"
  by (simp add: overlays_def split_beta)

text \<open>The request of an accepted report when the mode needs to be on.\<close>

lemma accepted_report_on:
  assumes need: "fst (OnReceivedTemperatureInput t d s)"
  shows "fancoilState (run (snd (accepted_report R t cmd len d s)))
           = (if fancoilState (run s) = STATE_OFF then STATE_STAGE1 else fancoilState (run s))"
    and "timeEnteredStage1 (run (snd (accepted_report R t cmd len d s)))
           = (if fancoilState (run s) = STATE_OFF then clock s else timeEnteredStage1 (run s))"
    and "LastOutputWrite (furnace (snd (accepted_report R t cmd len d s)))
           = (if fanIsOn (run s)
              then (if 0 < sint (parseForColon CHR ''R'' cmd len)
                    then fst (OnReceivedHumidityInput t (parseForColon CHR ''R'' cmd len) d (stage_base s) s)
                    else stage_base s) OR MaskFanOnly (settingsOADFS s)
              else (if 0 < sint (parseForColon CHR ''R'' cmd len)
                    then fst (OnReceivedHumidityInput t (parseForColon CHR ''R'' cmd len) d (stage_base s) s)
                    else stage_base s))
             AND OUTPUT_SIGNAL_MASK"
proof -
  define s2 where "s2 = (snd (OnReceivedTemperatureInput t d s))
      \<lparr>run := (run (snd (OnReceivedTemperatureInput t d s)))\<lparr>previousActual := d\<rparr>\<rparr>"
  have s2f: "fancoilState (run s2) = fancoilState (run s)"
       "timeEnteredStage1 (run s2) = timeEnteredStage1 (run s)"
       "clock s2 = clock s" "settingsOADFS s2 = settingsOADFS s" "settingsCool s2 = settingsCool s"
       "fanIsOn (run s2) = fanIsOn (run s)" "heatState (run s2) = heatState (run s)"
       "dehumidifyState_hvacCool (run s2) = dehumidifyState_hvacCool (run s)"
       "dehumidifyState_hvacAuto (run s2) = dehumidifyState_hvacAuto (run s)"
    by (simp_all add: s2_def)
  define s3 where "s3 = snd (select_stage t d True s2)"
  have sel: "fst (select_stage t d True s2) = stage_base s"
    by (simp add: select_stage_def stage_base_def s2f)
  have s3f: "fancoilState (run s3) = (if fancoilState (run s) = STATE_OFF then STATE_STAGE1 else fancoilState (run s))"
       "timeEnteredStage1 (run s3) = (if fancoilState (run s) = STATE_OFF then clock s else timeEnteredStage1 (run s))"
       "settingsOADFS s3 = settingsOADFS s" "settingsCool s3 = settingsCool s"
       "fanIsOn (run s3) = fanIsOn (run s)" "heatState (run s3) = heatState (run s)"
       "dehumidifyState_hvacCool (run s3) = dehumidifyState_hvacCool (run s)"
       "dehumidifyState_hvacAuto (run s3) = dehumidifyState_hvacAuto (run s)"
    by (simp_all add: s3_def select_stage_def s2f)
  have E: "accepted_report R t cmd len d s =
     (True, UpdateOutputs R (fst (overlays t (parseForColon CHR ''R'' cmd len) d (stage_base s) s3))
              (snd (overlays t (parseForColon CHR ''R'' cmd len) d (stage_base s) s3)))"
    using need by (simp add: accepted_report_def Let_def split_beta s2_def[symmetric] s3_def[symmetric] sel)
  have H: "\<And>rh m. fst (OnReceivedHumidityInput t rh d m s3) = fst (OnReceivedHumidityInput t rh d m s)"
    by (rule ORHI_fst_cong) (simp_all add: s3f)
  show "fancoilState (run (snd (accepted_report R t cmd len d s)))
           = (if fancoilState (run s) = STATE_OFF then STATE_STAGE1 else fancoilState (run s))"
    by (simp add: E s3f)
  show "timeEnteredStage1 (run (snd (accepted_report R t cmd len d s)))
           = (if fancoilState (run s) = STATE_OFF then clock s else timeEnteredStage1 (run s))"
    by (simp add: E s3f)
  show "LastOutputWrite (furnace (snd (accepted_report R t cmd len d s)))
           = (if fanIsOn (run s)
              then (if 0 < sint (parseForColon CHR ''R'' cmd len)
                    then fst (OnReceivedHumidityInput t (parseForColon CHR ''R'' cmd len) d (stage_base s) s)
                    else stage_base s) OR MaskFanOnly (settingsOADFS s)
              else (if 0 < sint (parseForColon CHR ''R'' cmd len)
                    then fst (OnReceivedHumidityInput t (parseForColon CHR ''R'' cmd len) d (stage_base s) s)
                    else stage_base s))
             AND OUTPUT_SIGNAL_MASK"
    by (simp add: E overlays_fst s3f H)
qed


lemma isSensorTimedOut_not:
  "\<not> sint (now - lastHeardFromSensor (run s)) > int (unat (SecondsToThirdStage (settingsOADFS s))) * 2000
   \<Longrightarrow> isSensorTimedOut R t now s = (False, s)"
  by (simp add: isSensorTimedOut_def Let_def)

lemma OverrideAndDriveFromSensors_loop_on:
  assumes "fancoilState (run s) \<noteq> STATE_OFF"
    and "\<not> sint (now - lastHeardFromSensor (run s)) > int (unat (SecondsToThirdStage (settingsOADFS s))) * 2000"
  shows "OverrideAndDriveFromSensors_loop R t now s =
     (if sint (now - timeEnteredStage1 (run s)) \<ge> int (unat (SecondsToThirdStage (settingsOADFS s))) * 1000
      then (if fancoilState (run s) \<noteq> STATE_STAGE3
            then UpdateOutputs R (OutputStage3 (settingsOADFS s))
                   (s\<lparr>run := (run s)\<lparr>fancoilState := STATE_STAGE3\<rparr>\<rparr>)
            else s)
      else if sint (now - timeEnteredStage1 (run s)) \<ge> int (unat (SecondsToSecondStage (settingsOADFS s))) * 1000
      then (if fancoilState (run s) \<noteq> STATE_STAGE2
            then UpdateOutputs R (OutputStage2 (settingsOADFS s))
                   (s\<lparr>run := (run s)\<lparr>fancoilState := STATE_STAGE2\<rparr>\<rparr>)
            else s)
      else s)"
  using assms by (simp add: OverrideAndDriveFromSensors_loop_def isSensorTimedOut_not Let_def)

lemma TurnFurnaceOff_frame [simp]:
  "eeprom (TurnFurnaceOff R t s) = eeprom s"
  "clock (TurnFurnaceOff R t s) = clock s"
  "hvac (TurnFurnaceOff R t s) = hvac s"
  "MyTypeNumber (TurnFurnaceOff R t s) = MyTypeNumber s"
  "MyModeNumber (TurnFurnaceOff R t s) = MyModeNumber s"
  "ModeName (TurnFurnaceOff R t s) = ModeName s"
  "inputToOutput (TurnFurnaceOff R t s) = inputToOutput s"
  "settingsOADFS (TurnFurnaceOff R t s) = settingsOADFS s"
  "settingsCool (TurnFurnaceOff R t s) = settingsCool s"
  "settingsAuto (TurnFurnaceOff R t s) = settingsAuto s"
  "run (TurnFurnaceOff R t s) = run s"
  "trace (TurnFurnaceOff R t s) = trace s"
  by (simp_all add: TurnFurnaceOff_def split: HvacTypes.splits)

lemma OverrideAndDriveFromSensors_loop_timeEntered:
  "timeEnteredStage1 (run (OverrideAndDriveFromSensors_loop R t now s)) = timeEnteredStage1 (run s)"
  by (simp add: OverrideAndDriveFromSensors_loop_def isSensorTimedOut_def Let_def emit_def)

lemma hvac_loop_cool_machine:
  assumes "hvac s = HVAC_HEAT \<or> hvac s = HVAC_COOL \<or> (hvac s = HVAC_AUTO \<and> heatState (run s) = HEAT_OFF)"
  shows "hvac_loop R now s = OverrideAndDriveFromSensors_loop R (hvac s) now s"
  using assms by (auto simp add: hvac_loop_def HvacAuto_loop_def)


lemma HvacAuto_loop_timeEntered:
  "timeEnteredStage1 (run (HvacAuto_loop R now s)) = timeEnteredStage1 (run s)"
  by (simp add: HvacAuto_loop_def isSensorTimedOut_def Let_def emit_def
      OverrideAndDriveFromSensors_loop_timeEntered)

lemma hvac_loop_timeEntered:
  "timeEnteredStage1 (run (hvac_loop R now s)) = timeEnteredStage1 (run s)"
  by (simp add: hvac_loop_def HvacAuto_loop_timeEntered OverrideAndDriveFromSensors_loop_timeEntered
      split: HvacTypes.splits)

text \<open>
  C3, as the code has it. An accepted report with a temperature for which the mode needs to
  be on (the qualifying report) takes a mode that is OFF to STAGE1 and records the time;
  in a mode that is already on it changes neither the state nor the recorded time. The mask
  it requests is built from the stage mask: OutputStage1 on entry, afterwards OutputStage3
  once the time since the entry into stage 1 has reached SecondsToThirdStage, otherwise
  OutputStage2 once it has reached SecondsToSecondStage, otherwise OutputStage1. The third
  stage is tested first, so the bands of the specification hold when SecondsToSecondStage
  is not above SecondsToThirdStage. The time is the signed 32-bit difference of the
  millisecond clock and the entry time. The dehumidify overlay (when the report carries a
  humidity) and the fan mask (while the continuous fan is on) are merged into the stage
  mask, and the arbiter keeps the output-legal bits. Between reports \<open>loop\<close> moves the state
  to STAGE3 or STAGE2 by the same thresholds and requests exactly that stage mask; it never
  changes the recorded entry time.
\<close>

theorem staged_activation:
  assumes mode: "hvac s = HVAC_HEAT \<or> hvac s = HVAC_COOL \<or> hvac s = HVAC_AUTO"
    and bit: "SensorMask (settingsOADFS s) AND push_bit (unat senderid) 1 \<noteq> 0"
    and acc: "\<not> (0 < lastHeardSensorId (run s) \<and> lastHeardSensorId (run s) < senderid \<and>
        clock s - lastHeardFromSensor (run s) < SENSOR_TIMEOUT_MSEC)"
    and T: "parseForColon CHR ''T'' cmd len \<noteq> - 1"
    and need: "fst (OnReceivedTemperatureInput (hvac s) (parseForColon CHR ''T'' cmd len) s)"
  shows
    "fancoilState (run (snd (hvac_ProcessCommand R cmd len senderid False s)))
       = (if fancoilState (run s) = STATE_OFF then STATE_STAGE1 else fancoilState (run s))
     \<and> timeEnteredStage1 (run (snd (hvac_ProcessCommand R cmd len senderid False s)))
       = (if fancoilState (run s) = STATE_OFF then clock s else timeEnteredStage1 (run s))
     \<and> LastOutputWrite (furnace (snd (hvac_ProcessCommand R cmd len senderid False s)))
       = (if fanIsOn (run s)
          then (if 0 < sint (parseForColon CHR ''R'' cmd len)
                then fst (OnReceivedHumidityInput (hvac s) (parseForColon CHR ''R'' cmd len)
                            (parseForColon CHR ''T'' cmd len) (stage_base s) s)
                else stage_base s) OR MaskFanOnly (settingsOADFS s)
          else (if 0 < sint (parseForColon CHR ''R'' cmd len)
                then fst (OnReceivedHumidityInput (hvac s) (parseForColon CHR ''R'' cmd len)
                            (parseForColon CHR ''T'' cmd len) (stage_base s) s)
                else stage_base s))
         AND OUTPUT_SIGNAL_MASK
     \<and> stage_base s
       = (if fancoilState (run s) = STATE_OFF then OutputStage1 (settingsOADFS s)
          else if int (unat (SecondsToThirdStage (settingsOADFS s))) * 1000
                    \<le> sint (clock s - timeEnteredStage1 (run s))
          then OutputStage3 (settingsOADFS s)
          else if int (unat (SecondsToSecondStage (settingsOADFS s))) * 1000
                    \<le> sint (clock s - timeEnteredStage1 (run s))
          then OutputStage2 (settingsOADFS s)
          else OutputStage1 (settingsOADFS s))
     \<and> (hvac s = HVAC_HEAT \<longrightarrow> (\<forall>rh m. fst (OnReceivedHumidityInput (hvac s) rh
            (parseForColon CHR ''T'' cmd len) m s) = m))
     \<and> (\<forall>now (u::machine). (hvac u = HVAC_HEAT \<or> hvac u = HVAC_COOL \<or>
                   (hvac u = HVAC_AUTO \<and> heatState (run u) = HEAT_OFF)) \<and>
                  fancoilState (run u) \<noteq> STATE_OFF \<and>
                  \<not> sint (now - lastHeardFromSensor (run u))
                       > int (unat (SecondsToThirdStage (settingsOADFS u))) * 2000
           \<longrightarrow> hvac_loop R now u =
                (if sint (now - timeEnteredStage1 (run u))
                      \<ge> int (unat (SecondsToThirdStage (settingsOADFS u))) * 1000
                 then (if fancoilState (run u) \<noteq> STATE_STAGE3
                       then UpdateOutputs R (OutputStage3 (settingsOADFS u))
                              (u\<lparr>run := (run u)\<lparr>fancoilState := STATE_STAGE3\<rparr>\<rparr>)
                       else u)
                 else if sint (now - timeEnteredStage1 (run u))
                      \<ge> int (unat (SecondsToSecondStage (settingsOADFS u))) * 1000
                 then (if fancoilState (run u) \<noteq> STATE_STAGE2
                       then UpdateOutputs R (OutputStage2 (settingsOADFS u))
                              (u\<lparr>run := (run u)\<lparr>fancoilState := STATE_STAGE2\<rparr>\<rparr>)
                       else u)
                 else u))
     \<and> (\<forall>now (u::machine). timeEnteredStage1 (run (hvac_loop R now u)) = timeEnteredStage1 (run u))"
proof -
  let ?T = "parseForColon CHR ''T'' cmd len"
  let ?s1 = "s\<lparr>run := (run s)\<lparr>lastHeardFromSensor := clock s, lastHeardSensorId := senderid\<rparr>\<rparr>"
  have E: "sensor_report R (hvac s) cmd len senderid s = accepted_report R (hvac s) cmd len ?T ?s1"
    using T by (simp add: sensor_report_accepted_eq[OF bit acc])
  have need1: "fst (OnReceivedTemperatureInput (hvac s) ?T ?s1)"
    using need by (simp add: ORTI_fst_run)
  have sb: "stage_base ?s1 = stage_base s" by (simp add: stage_base_def)
  have H: "\<And>rh m. fst (OnReceivedHumidityInput (hvac s) rh ?T m ?s1)
                    = fst (OnReceivedHumidityInput (hvac s) rh ?T m s)"
    by (rule ORHI_fst_cong) simp_all
  note P = hvac_ProcessCommand_sniffed(2,3)[OF mode, of R cmd len senderid]
  note A = accepted_report_on[OF need1, of R cmd len]
  have c1: "fancoilState (run (snd (hvac_ProcessCommand R cmd len senderid False s)))
       = (if fancoilState (run s) = STATE_OFF then STATE_STAGE1 else fancoilState (run s))"
    by (simp add: P E A)
  have c2: "timeEnteredStage1 (run (snd (hvac_ProcessCommand R cmd len senderid False s)))
       = (if fancoilState (run s) = STATE_OFF then clock s else timeEnteredStage1 (run s))"
    by (simp add: P E A)
  have c3: "LastOutputWrite (furnace (snd (hvac_ProcessCommand R cmd len senderid False s)))
       = (if fanIsOn (run s)
          then (if 0 < sint (parseForColon CHR ''R'' cmd len)
                then fst (OnReceivedHumidityInput (hvac s) (parseForColon CHR ''R'' cmd len)
                            (parseForColon CHR ''T'' cmd len) (stage_base s) s)
                else stage_base s) OR MaskFanOnly (settingsOADFS s)
          else (if 0 < sint (parseForColon CHR ''R'' cmd len)
                then fst (OnReceivedHumidityInput (hvac s) (parseForColon CHR ''R'' cmd len)
                            (parseForColon CHR ''T'' cmd len) (stage_base s) s)
                else stage_base s))
         AND OUTPUT_SIGNAL_MASK"
    by (simp add: P E A sb H)
  have c4: "stage_base s
       = (if fancoilState (run s) = STATE_OFF then OutputStage1 (settingsOADFS s)
          else if int (unat (SecondsToThirdStage (settingsOADFS s))) * 1000
                    \<le> sint (clock s - timeEnteredStage1 (run s))
          then OutputStage3 (settingsOADFS s)
          else if int (unat (SecondsToSecondStage (settingsOADFS s))) * 1000
                    \<le> sint (clock s - timeEnteredStage1 (run s))
          then OutputStage2 (settingsOADFS s)
          else OutputStage1 (settingsOADFS s))"
    by (simp add: stage_base_def stage_by_time_def)
  have c5: "hvac s = HVAC_HEAT \<longrightarrow> (\<forall>rh m. fst (OnReceivedHumidityInput (hvac s) rh
            (parseForColon CHR ''T'' cmd len) m s) = m)"
    by (simp add: OnReceivedHumidityInput_def)
  have c6: "\<forall>now (u::machine). (hvac u = HVAC_HEAT \<or> hvac u = HVAC_COOL \<or>
                   (hvac u = HVAC_AUTO \<and> heatState (run u) = HEAT_OFF)) \<and>
                  fancoilState (run u) \<noteq> STATE_OFF \<and>
                  \<not> sint (now - lastHeardFromSensor (run u))
                       > int (unat (SecondsToThirdStage (settingsOADFS u))) * 2000
           \<longrightarrow> hvac_loop R now u =
                (if sint (now - timeEnteredStage1 (run u))
                      \<ge> int (unat (SecondsToThirdStage (settingsOADFS u))) * 1000
                 then (if fancoilState (run u) \<noteq> STATE_STAGE3
                       then UpdateOutputs R (OutputStage3 (settingsOADFS u))
                              (u\<lparr>run := (run u)\<lparr>fancoilState := STATE_STAGE3\<rparr>\<rparr>)
                       else u)
                 else if sint (now - timeEnteredStage1 (run u))
                      \<ge> int (unat (SecondsToSecondStage (settingsOADFS u))) * 1000
                 then (if fancoilState (run u) \<noteq> STATE_STAGE2
                       then UpdateOutputs R (OutputStage2 (settingsOADFS u))
                              (u\<lparr>run := (run u)\<lparr>fancoilState := STATE_STAGE2\<rparr>\<rparr>)
                       else u)
                 else u)"
  proof (intro allI impI, elim conjE)
    fix now and u :: machine
    assume m: "hvac u = HVAC_HEAT \<or> hvac u = HVAC_COOL \<or>
                   (hvac u = HVAC_AUTO \<and> heatState (run u) = HEAT_OFF)"
      and on: "fancoilState (run u) \<noteq> STATE_OFF"
      and nt: "\<not> sint (now - lastHeardFromSensor (run u))
                       > int (unat (SecondsToThirdStage (settingsOADFS u))) * 2000"
    show "hvac_loop R now u =
                (if sint (now - timeEnteredStage1 (run u))
                      \<ge> int (unat (SecondsToThirdStage (settingsOADFS u))) * 1000
                 then (if fancoilState (run u) \<noteq> STATE_STAGE3
                       then UpdateOutputs R (OutputStage3 (settingsOADFS u))
                              (u\<lparr>run := (run u)\<lparr>fancoilState := STATE_STAGE3\<rparr>\<rparr>)
                       else u)
                 else if sint (now - timeEnteredStage1 (run u))
                      \<ge> int (unat (SecondsToSecondStage (settingsOADFS u))) * 1000
                 then (if fancoilState (run u) \<noteq> STATE_STAGE2
                       then UpdateOutputs R (OutputStage2 (settingsOADFS u))
                              (u\<lparr>run := (run u)\<lparr>fancoilState := STATE_STAGE2\<rparr>\<rparr>)
                       else u)
                 else u)"
      by (simp only: hvac_loop_cool_machine[OF m]
             OverrideAndDriveFromSensors_loop_on[OF on nt])
  qed
  have c7: "\<forall>now (u::machine). timeEnteredStage1 (run (hvac_loop R now u)) = timeEnteredStage1 (run u)"
    by (simp add: hvac_loop_timeEntered)
  show ?thesis
    using c1 c2 c3 c4 c5 c6 c7 by (intro conjI)
qed

text \<open>
  The theorem at the example: the report of 15.0 C at time 0 enters stage 1 and requests
  mask 08; a report of 16.0 C 1000 s later requests the stage 2 mask 18; \<open>loop\<close> at 900 s
  moves to stage 2 and requests 18.
\<close>

theorem staged_activation_witness:
  "hvac example_heat = HVAC_HEAT
   \<and> SensorMask (settingsOADFS example_heat) AND push_bit (unat (9 :: u8)) 1 \<noteq> 0
   \<and> \<not> (0 < lastHeardSensorId (run example_heat))
   \<and> parseForColon CHR ''T'' ''C:1, T:+15.00'' 61 = 150
   \<and> fst (OnReceivedTemperatureInput HVAC_HEAT 150 example_heat)
   \<and> fancoilState (run example_heat) = STATE_OFF
   \<and> fancoilState (run example_heat_stage1) = STATE_STAGE1
   \<and> timeEnteredStage1 (run example_heat_stage1) = 0
   \<and> LastOutputWrite (furnace example_heat_stage1) = 0x08
   \<and> fst (OnReceivedTemperatureInput HVAC_HEAT 160 (at_time 1000000 example_heat_stage1))
   \<and> LastOutputWrite (furnace (snd (hvac_ProcessCommand 0 ''C:2, T:+16.00'' 61 9 False
         (at_time 1000000 example_heat_stage1)))) = 0x18
   \<and> timeEnteredStage1 (run (snd (hvac_ProcessCommand 0 ''C:2, T:+16.00'' 61 9 False
         (at_time 1000000 example_heat_stage1)))) = 0
   \<and> fancoilState (run (hvac_loop 0 900000 (at_time 900000 example_heat_stage1))) = STATE_STAGE2
   \<and> LastOutputWrite (furnace (hvac_loop 0 900000 (at_time 900000 example_heat_stage1))) = 0x18"
proof -
  have a1: "hvac example_heat = HVAC_HEAT" by code_simp
  have a2: "SensorMask (settingsOADFS example_heat) AND push_bit (unat (9 :: u8)) 1 \<noteq> 0"
    by code_simp
  have a3: "\<not> (0 < lastHeardSensorId (run example_heat))" by code_simp
  have a4: "parseForColon CHR ''T'' ''C:1, T:+15.00'' 61 = 150" by code_simp
  have a5: "fst (OnReceivedTemperatureInput HVAC_HEAT 150 example_heat)" by code_simp
  have a6: "fancoilState (run example_heat) = STATE_OFF" by code_simp
  have A: "fancoilState (run example_heat_stage1) = STATE_STAGE1
     \<and> timeEnteredStage1 (run example_heat_stage1) = clock example_heat"
    using staged_activation[of example_heat 9 "''C:1, T:+15.00''" 61 0] a1 a2 a3 a4 a5 a6
    by (simp add: example_heat_stage1_def)
  have c0: "clock example_heat = 0" by code_simp
  let ?s = "at_time 1000000 example_heat_stage1"
  have b1: "hvac ?s = HVAC_HEAT \<or> hvac ?s = HVAC_COOL \<or> hvac ?s = HVAC_AUTO" by code_simp
  have b2: "SensorMask (settingsOADFS ?s) AND push_bit (unat (9 :: u8)) 1 \<noteq> 0" by code_simp
  have b3: "\<not> (0 < lastHeardSensorId (run ?s) \<and> lastHeardSensorId (run ?s) < 9 \<and>
        clock ?s - lastHeardFromSensor (run ?s) < SENSOR_TIMEOUT_MSEC)" by code_simp
  have b4: "parseForColon CHR ''T'' ''C:2, T:+16.00'' 61 \<noteq> - 1" by code_simp
  have b5: "fst (OnReceivedTemperatureInput (hvac ?s) (parseForColon CHR ''T'' ''C:2, T:+16.00'' 61) ?s)"
    by code_simp
  have b5': "fst (OnReceivedTemperatureInput HVAC_HEAT 160 ?s)" by code_simp
  note B = staged_activation[OF b1 b2 b3 b4 b5, of 0]
  have B3: "LastOutputWrite (furnace (snd (hvac_ProcessCommand 0 ''C:2, T:+16.00'' 61 9 False ?s))) = 0x18"
    by (subst B[THEN conjunct2, THEN conjunct2, THEN conjunct1]) code_simp
  have B2: "timeEnteredStage1 (run (snd (hvac_ProcessCommand 0 ''C:2, T:+16.00'' 61 9 False ?s))) = 0"
    by (subst B[THEN conjunct2, THEN conjunct1]) code_simp
  let ?u = "at_time 900000 example_heat_stage1"
  have u1: "(hvac ?u = HVAC_HEAT \<or> hvac ?u = HVAC_COOL \<or>
                   (hvac ?u = HVAC_AUTO \<and> heatState (run ?u) = HEAT_OFF)) \<and>
                  fancoilState (run ?u) \<noteq> STATE_OFF \<and>
                  \<not> sint (900000 - lastHeardFromSensor (run ?u))
                       > int (unat (SecondsToThirdStage (settingsOADFS ?u))) * 2000"
    by code_simp
  note L = B[THEN conjunct2, THEN conjunct2, THEN conjunct2, THEN conjunct2, THEN conjunct2,
             THEN conjunct1, rule_format, OF u1]
  have L1: "fancoilState (run (hvac_loop 0 900000 ?u)) = STATE_STAGE2"
    by (subst L) code_simp
  have L2: "LastOutputWrite (furnace (hvac_loop 0 900000 ?u)) = 0x18"
    by (subst L) code_simp
  have A3: "LastOutputWrite (furnace example_heat_stage1) = 0x08" by code_simp
  show ?thesis
    using a1 a2 a3 a4 a5 a6 A c0 A3 b5' B3 B2 L1 L2 by simp
qed

text \<open>The continuous fan command, symbolically.\<close>

lemma HVAC_FAN_text:
  "strstr ''HVAC FAN=ON'' ''TYPE='' = None" "strstr ''HVAC FAN=ON'' ''NAME='' = None"
  "strstr ''HVAC FAN=ON'' '' COMMIT'' = None"
  by code_simp+

lemma minus_one_u16: "unat (- 1 :: u16) = 65535"
  by (simp add: unsigned_minus_1_eq_mask mask_eq_exp_minus_1)

lemma HvacCommands_ProcessCommand_FAN:
  "HvacCommands_ProcessCommand R t ''HVAC FAN=ON'' len senderid toMe s = (False, s)"
  by (simp add: HvacCommands_ProcessCommand_def HVAC_FAN_text NUMBER_OF_HVAC_TYPES_def
        toupper_def minus_one_u16 del: strstr.simps)

lemma Heat_FAN_ON:
  "OverrideAndDriveFromSensors_ProcessCommand R t ''HVAC FAN=ON'' len senderid True s =
     (True, SetOutputBits R (MaskFanOnly (settingsOADFS s)) (s\<lparr>run := (run s)\<lparr>fanIsOn := True\<rparr>\<rparr>))"
  by (simp add: OverrideAndDriveFromSensors_ProcessCommand_def HvacCommands_ProcessCommand_FAN
      toupper_def cur_def)

text \<open>
  The claim as the specification states it fails in two ways. With SecondsToSecondStage =
  900 and SecondsToThirdStage = 300, a report 500 s after the entry into stage 1 requests
  the stage 3 mask 38, where the claim has the stage 1 mask 08 for as long as the time is
  below SecondsToSecondStage. And with the continuous fan on (\<open>HVAC FAN=ON\<close>), the report
  that enters stage 1 requests 0C, the stage mask 08 with the fan mask 04.
\<close>

theorem staged_activation_counterexample:
  "fancoilState (run (snd (hvac_ProcessCommand 0 ''C:1, T:+15.00'' 61 9 False example_heat_inverted)))
     = STATE_STAGE1
   \<and> timeEnteredStage1 (run (snd (hvac_ProcessCommand 0 ''C:1, T:+15.00'' 61 9 False
        example_heat_inverted))) = 0
   \<and> OutputStage1 (settingsOADFS example_heat_inverted) = 0x08
   \<and> SecondsToSecondStage (settingsOADFS example_heat_inverted) = 900
   \<and> LastOutputWrite (furnace (snd (hvac_ProcessCommand 0 ''C:2, T:+16.00'' 61 9 False
        (at_time 500000
           (snd (hvac_ProcessCommand 0 ''C:1, T:+15.00'' 61 9 False example_heat_inverted))))))
     = 0x38
   \<and> fst (OverrideAndDriveFromSensors_ProcessCommand 0 HVAC_HEAT ''HVAC FAN=ON'' 11 255 True
          example_heat)
   \<and> LastOutputWrite (furnace (snd (hvac_ProcessCommand 0 ''C:1, T:+15.00'' 61 9 False
        (snd (OverrideAndDriveFromSensors_ProcessCommand 0 HVAC_HEAT ''HVAC FAN=ON'' 11 255 True
                example_heat)))))
     = 0x0C"
  unfolding Heat_FAN_ON by code_simp

lemma previousActual_frame [simp]:
  "previousActual (run (snd (OnReceivedTemperatureInput t d s))) = previousActual (run s)"
  "previousActual (run (snd (OnReceivedTemperatureInput2 t d m s))) = previousActual (run s)"
  "previousActual (run (snd (OnReceivedHumidityInput t rh d m s))) = previousActual (run s)"
  "previousActual (run (snd (select_stage t d n s))) = previousActual (run s)"
  "previousActual (run (snd (overlays t rh d m s))) = previousActual (run s)"
proof -
  show a: "previousActual (run (snd (OnReceivedTemperatureInput t d s))) = previousActual (run s)"
    by (simp add: OnReceivedTemperatureInput_def Let_def)
  show b: "\<And>m s. previousActual (run (snd (OnReceivedTemperatureInput2 t d m s))) = previousActual (run s)"
    by (simp add: OnReceivedTemperatureInput2_def HvacAuto_OnReceivedTemperatureInput2_def Let_def)
  show c: "\<And>m s. previousActual (run (snd (OnReceivedHumidityInput t rh d m s))) = previousActual (run s)"
    by (simp add: OnReceivedHumidityInput_def HvacCool_OnReceivedHumidityInput_def Let_def
        set_dehumidifyState_def)
  show "previousActual (run (snd (select_stage t d n s))) = previousActual (run s)"
    by (simp add: select_stage_def b)
  show "previousActual (run (snd (overlays t rh d m s))) = previousActual (run s)"
    by (simp add: overlays_def split_beta c)
qed





subsection \<open>Sensor arbitration\<close>





subsection \<open>MapInputToOutput\<close>

lemma of_char_hex_digit:
  "d < 16 \<Longrightarrow> (of_char (hex_digit d) :: nat) = (if d < 10 then 48 + d else 55 + d)"
  by (simp add: hex_digit_def)

lemma aHexToInt_loop_hex_digit:
  assumes "d < 16"
  shows "aHexToInt_loop r (hex_digit d # p) = aHexToInt_loop (r * 16 + of_nat d) p"
proof (cases "d < 10")
  case True
  then show ?thesis
    using assms by (simp add: of_char_hex_digit isxdigit_def isdigit_def)
next
  case False
  then have u: "toupper (hex_digit d) = hex_digit d"
    using assms by (simp add: toupper_def of_char_hex_digit)
  from False show ?thesis
    using assms by (simp add: u of_char_hex_digit isxdigit_def isdigit_def)
qed

lemma hex_digit_not_NUL:
  assumes "d < 16"
  shows "hex_digit d \<noteq> NUL"
proof
  assume "hex_digit d = NUL"
  then have "(of_char (hex_digit d) :: nat) = of_char NUL" by simp
  then show False
    using assms by (simp add: of_char_hex_digit NUL_def split: if_splits)
qed

lemma aHexToInt_hex_byte:
  "aHexToInt (hex_byte v) = (ucast v, [])"
  "aHexToInt (hex_byte v @ CHR '' '' # rest) = (ucast v, rest)"
proof -
  have d: "unat v div 16 < 16" "unat v mod 16 < 16"
    using unsigned_less[of v, where 'a=nat] by simp_all
  have e: "(of_nat (unat v div 16) * 16 + of_nat (unat v mod 16) :: u32) = ucast v"
  proof -
    have "(of_nat (unat v div 16) * 16 + of_nat (unat v mod 16) :: u32)
            = of_nat (unat v div 16 * 16 + unat v mod 16)"
      by (simp only: of_nat_add of_nat_mult of_nat_numeral)
    also have "unat v div 16 * 16 + unat v mod 16 = unat v"
      by (rule div_mult_mod_eq)
    finally show ?thesis by simp
  qed
  have sp: "\<And>r. aHexToInt_loop r (CHR '' '' # rest) = (r, rest)"
    by (simp add: isxdigit_def isdigit_def NUL_def)
  have nil: "\<And>r. aHexToInt_loop r [] = (r, [])"
    by simp
  show "aHexToInt (hex_byte v) = (ucast v, [])"
    by (simp add: aHexToInt_def hex_byte_def aHexToInt_loop_hex_digit d e nil
        del: aHexToInt_loop.simps)
  show "aHexToInt (hex_byte v @ CHR '' '' # rest) = (ucast v, rest)"
    by (simp add: aHexToInt_def hex_byte_def aHexToInt_loop_hex_digit d e sp
        del: aHexToInt_loop.simps)
qed

lemma cur_hex_byte: "cur (hex_byte v @ p) \<noteq> NUL"
proof -
  have d: "unat v div 16 < 16"
    using unsigned_less[of v, where 'a=nat] by simp
  show ?thesis
    by (simp add: cur_def hex_byte_def hex_digit_not_NUL d)
qed

lemma NUM_INPUT_SIGNAL_COMBINATIONS_64: "NUM_INPUT_SIGNAL_COMBINATIONS = 64"
  by (simp add: NUM_INPUT_SIGNAL_COMBINATIONS_def NUM_HVAC_INPUT_SIGNALS_def BN_LAST_SIGNAL_def
      BN_FIRST_SIGNAL_def BN_X1_def BN_Z2_def)

lemma table64_id: "length tbl = 64 \<Longrightarrow> table64 tbl = tbl"
  by (simp add: table64_def NUM_INPUT_SIGNAL_COMBINATIONS_64)

lemma length_table64 [simp]: "length (table64 tbl) = 64"
  by (simp add: table64_def NUM_INPUT_SIGNAL_COMBINATIONS_64)

lemma ucast_ucast_u8: "(ucast (ucast (v :: u8) :: u32) :: u8) = v"
  by (rule bit_word_eqI) (auto simp add: bit_simps)

lemma HVACMAP_loop_step:
  assumes "unat a < 64" "cur q \<noteq> NUL"
  shows "HVACMAP_loop a q s =
         HVACMAP_loop (a + 1) (snd (aHexToInt q))
           (s\<lparr>inputToOutput := (table64 (inputToOutput s))[unat a := ucast (fst (aHexToInt q))]\<rparr>)"
  using assms by (subst HVACMAP_loop.simps) (simp add: NUM_INPUT_SIGNAL_COMBINATIONS_64)

lemma HVACMAP_loop_end: "HVACMAP_loop a [] s = (True, s)"
  by (subst HVACMAP_loop.simps) (simp add: cur_def)

lemma HVACMAP_loop_values:
  "length (inputToOutput s) = 64 \<Longrightarrow> unat a + length vs \<le> 64 \<Longrightarrow>
   HVACMAP_loop a (HVACMAP_values vs) s =
     (True, s\<lparr>inputToOutput :=
               take (unat a) (inputToOutput s) @ vs @ drop (unat a + length vs) (inputToOutput s)\<rparr>)"
proof (induction vs arbitrary: a s rule: HVACMAP_values.induct)
  case 1
  then show ?case by (simp add: HVACMAP_loop_end)
next
  case (2 v)
  then have a: "unat a < 64" by simp
  have c: "cur (hex_byte v) \<noteq> NUL" using cur_hex_byte[of v "[]"] by simp
  show ?case
    using 2 a
    by (simp add: HVACMAP_loop_step[OF a c] aHexToInt_hex_byte HVACMAP_loop_end table64_id
        ucast_ucast_u8 upd_conv_take_nth_drop)
next
  case (3 v w vs)
  then have a: "unat a < 64" by simp
  then have a1: "unat (a + 1) = unat a + 1"
    using unat_add_lem[of a 1] by simp
  have c: "cur (hex_byte v @ CHR '' '' # HVACMAP_values (w # vs)) \<noteq> NUL"
    by (rule cur_hex_byte)
  let ?s = "s\<lparr>inputToOutput := (inputToOutput s)[unat a := v]\<rparr>"
  have l: "length (inputToOutput ?s) = 64" using 3 by simp
  have b: "unat (a + 1) + length (w # vs) \<le> 64" using 3 a1 by simp
  have "HVACMAP_loop a (HVACMAP_values (v # w # vs)) s = HVACMAP_loop (a + 1) (HVACMAP_values (w # vs)) ?s"
    using 3 by (simp add: HVACMAP_loop_step[OF a c] aHexToInt_hex_byte table64_id ucast_ucast_u8)
  also have "\<dots> = (True, ?s\<lparr>inputToOutput :=
               take (unat (a + 1)) (inputToOutput ?s) @ (w # vs) @
               drop (unat (a + 1) + length (w # vs)) (inputToOutput ?s)\<rparr>)"
    by (rule "3.IH"[OF l b])
  also have "take (unat (a + 1)) (inputToOutput ?s) @ (w # vs) @
               drop (unat (a + 1) + length (w # vs)) (inputToOutput ?s)
             = take (unat a) (inputToOutput s) @ (v # w # vs) @
               drop (unat a + length (v # w # vs)) (inputToOutput s)"
    using 3 a by (simp add: a1 take_Suc_conv_app_nth)
  finally show ?case by simp
qed

lemma HVACMAP_text_prefix:
  "HvacCommands_ProcessCommand R t (HVACMAP_text a vs) len senderid toMe s = (False, s)"
  by (simp add: HvacCommands_ProcessCommand_def HVACMAP_text_def toupper_def)

lemma MapInputToOutput_ProcessCommand_HVACMAP:
  assumes "length (inputToOutput s) = 64" "unat a + length vs \<le> 64"
  shows "MapInputToOutput_ProcessCommand R (HVACMAP_text a vs) len senderid True s =
     (True, s\<lparr>inputToOutput :=
               take (unat a) (inputToOutput s) @ vs @ drop (unat a + length vs) (inputToOutput s)\<rparr>)"
proof (cases vs)
  case Nil
  then show ?thesis
    by (simp add: MapInputToOutput_ProcessCommand_def HVACMAP_text_prefix)
       (simp add: HVACMAP_text_def aHexToInt_hex_byte HVACMAP_loop_end)
next
  case (Cons v ws)
  have "MapInputToOutput_ProcessCommand R (HVACMAP_text a vs) len senderid True s =
        HVACMAP_loop a (HVACMAP_values vs) s"
    using Cons
    by (simp add: MapInputToOutput_ProcessCommand_def HVACMAP_text_prefix)
       (simp add: HVACMAP_text_def aHexToInt_hex_byte ucast_ucast_u8)
  then show ?thesis
    by (simp add: HVACMAP_loop_values[OF assms])
qed


lemma INPUT_SIGNAL_MASK_7F: "INPUT_SIGNAL_MASK = 0x7F"
  by (simp add: INPUT_SIGNAL_MASK_def BN_Z2_def BN_Z1_def BN_W_def BN_ZX_def BN_X2_def BN_X1_def
      BN_R_def BN_W_FAILSAFE_def)

lemma OUTPUT_SIGNAL_MASK_FE: "OUTPUT_SIGNAL_MASK = 0xFE"
  by (simp add: OUTPUT_SIGNAL_MASK_def BN_Z2_def BN_Z1_def BN_W_def BN_ZX_def BN_X2_def BN_X1_def
      BN_X3_def)

lemma and_mask_not_mask:
  "(((x :: u8) AND mask m) AND NOT (mask n)) = push_bit n (drop_bit n (x AND mask m))"
  by (rule bit_word_eqI) (auto simp add: bit_simps)

lemma and_mask_split:
  "((x :: u8) AND mask m) = push_bit n (drop_bit n (x AND mask m)) OR ((x AND mask m) AND mask n)"
  by (rule bit_word_eqI) (auto simp add: bit_simps)

lemma and_mask_mask_7_1: "((x :: u8) AND mask 7) AND mask 1 = x AND mask 1"
  by (rule bit_word_eqI) (auto simp add: bit_simps)

lemma u8_masks: "(0xFE :: u8) = NOT (mask 1)" "(0x7F :: u8) = mask 7" "(1 :: u8) = mask 1"
  by (simp_all add: mask_eq_exp_minus_1)

lemma sentinel_request:
  "((inputs :: u8) AND INPUT_SIGNAL_MASK) AND OUTPUT_SIGNAL_MASK
     = push_bit BN_FIRST_SIGNAL (drop_bit BN_FIRST_SIGNAL (inputs AND INPUT_SIGNAL_MASK))"
  unfolding INPUT_SIGNAL_MASK_7F OUTPUT_SIGNAL_MASK_FE BN_FIRST_SIGNAL_def BN_Z2_def u8_masks(1,2)
  by (rule and_mask_not_mask)

lemma sentinel_value:
  "(inputs :: u8) AND INPUT_SIGNAL_MASK
     = push_bit BN_FIRST_SIGNAL (drop_bit BN_FIRST_SIGNAL (inputs AND INPUT_SIGNAL_MASK))
       OR (inputs AND push_bit BN_R 1)"
proof -
  have A: "(inputs AND mask 7) = push_bit 1 (drop_bit 1 (inputs AND mask 7)) OR (inputs AND mask 1)"
    using and_mask_split[of inputs 7 1] by (simp only: and_mask_mask_7_1)
  have p: "push_bit BN_R (1 :: u8) = mask 1"
    by (simp add: BN_R_def BN_W_FAILSAFE_def)
  show ?thesis
    unfolding INPUT_SIGNAL_MASK_7F BN_FIRST_SIGNAL_def BN_Z2_def p u8_masks(2) by (rule A)
qed

lemma index_lt_64:
  "unat (drop_bit BN_FIRST_SIGNAL ((inputs :: u8) AND INPUT_SIGNAL_MASK)) < NUM_INPUT_SIGNAL_COMBINATIONS"
proof -
  have "unat (inputs AND 0x7F) \<le> unat (0x7F :: u8)"
    using word_and_le1[of inputs "0x7F"] by (simp only: word_le_nat_alt)
  then have "unat (inputs AND 0x7F) \<le> 127" by simp
  then show ?thesis
    by (simp add: unat_drop_bit_eq drop_bit_eq_div unat_div INPUT_SIGNAL_MASK_7F
        NUM_INPUT_SIGNAL_COMBINATIONS_64 BN_FIRST_SIGNAL_def BN_Z2_def)
qed

lemma MapInputToOutput_value_entry:
  "length tbl = 64 \<Longrightarrow>
   MapInputToOutput_value tbl inputs
     = (if tbl ! unat (drop_bit BN_FIRST_SIGNAL (inputs AND INPUT_SIGNAL_MASK)) = 0xff
        then inputs AND INPUT_SIGNAL_MASK
        else tbl ! unat (drop_bit BN_FIRST_SIGNAL (inputs AND INPUT_SIGNAL_MASK)))"
  by (simp add: MapInputToOutput_value_def Let_def table64_id)

lemma written_nth:
  assumes "length tbl = 64" "n + length vs \<le> 64"
  shows "i < length vs \<Longrightarrow> (take n tbl @ vs @ drop (n + length vs) tbl) ! (n + i) = vs ! i"
    and "j < n \<Longrightarrow> (take n tbl @ vs @ drop (n + length vs) tbl) ! j = tbl ! j"
    and "n + length vs \<le> j \<Longrightarrow> j < 64 \<Longrightarrow>
           (take n tbl @ vs @ drop (n + length vs) tbl) ! j = tbl ! j"
    and "length (take n tbl @ vs @ drop (n + length vs) tbl) = 64"
proof -
  have l: "length (take n tbl) = n" using assms by simp
  show "i < length vs \<Longrightarrow> (take n tbl @ vs @ drop (n + length vs) tbl) ! (n + i) = vs ! i"
    using l by (simp add: nth_append)
  show "j < n \<Longrightarrow> (take n tbl @ vs @ drop (n + length vs) tbl) ! j = tbl ! j"
    using l by (simp add: nth_append)
  show "length (take n tbl @ vs @ drop (n + length vs) tbl) = 64"
    using assms by simp
  assume j: "n + length vs \<le> j" "j < 64"
  define k where "k = j - (n + length vs)"
  have jk: "j = length (take n tbl) + (length vs + k)"
    using j l by (simp add: k_def)
  have "(take n tbl @ vs @ drop (n + length vs) tbl) ! j
               = (vs @ drop (n + length vs) tbl) ! (length vs + k)"
    unfolding jk by (rule nth_append_length_plus)
  also have "\<dots> = drop (n + length vs) tbl ! k"
    by (rule nth_append_length_plus)
  also have "\<dots> = tbl ! j"
    using j assms by (simp add: k_def)
  finally show "(take n tbl @ vs @ drop (n + length vs) tbl) ! j = tbl ! j" .
qed

text \<open>
  C7, as the code has it. The inputs are masked to the input-legal bits and shifted right by
  one, which drops the R bit and gives an index below 64. The value handed to the output
  arbiter is the table entry at that index; for the sentinel FF it is the masked inputs: the
  index shifted back into signal position, together with the R bit of the inputs. The
  arbiter keeps the output-legal bits of what it is handed, so the request it records is the
  index shifted back for the sentinel, and the entry without bit 0 otherwise. A well-formed
  \<open>HVACMAP\<close> command (an address and a list of values in two hexadecimal digits that fits the
  table) is handled and writes its values from the address on, leaving the other entries;
  afterwards every input combination whose index was written with a value other than FF
  is handed exactly that value.
\<close>

theorem map_input_to_output:
  assumes tbl: "length (inputToOutput s) = 64" and fit: "unat a + length vs \<le> 64"
  shows
    "unat (drop_bit BN_FIRST_SIGNAL (inputs AND INPUT_SIGNAL_MASK)) < NUM_INPUT_SIGNAL_COMBINATIONS
     \<and> MapInputToOutput_value (inputToOutput s) inputs
         = (if inputToOutput s ! unat (drop_bit BN_FIRST_SIGNAL (inputs AND INPUT_SIGNAL_MASK)) = 0xff
            then push_bit BN_FIRST_SIGNAL (drop_bit BN_FIRST_SIGNAL (inputs AND INPUT_SIGNAL_MASK))
                 OR (inputs AND push_bit BN_R 1)
            else inputToOutput s ! unat (drop_bit BN_FIRST_SIGNAL (inputs AND INPUT_SIGNAL_MASK)))
     \<and> LastOutputWrite (furnace (MapInputToOutput_OnInputsChanged R inputs previous s))
         = (if inputToOutput s ! unat (drop_bit BN_FIRST_SIGNAL (inputs AND INPUT_SIGNAL_MASK)) = 0xff
            then push_bit BN_FIRST_SIGNAL (drop_bit BN_FIRST_SIGNAL (inputs AND INPUT_SIGNAL_MASK))
            else inputToOutput s ! unat (drop_bit BN_FIRST_SIGNAL (inputs AND INPUT_SIGNAL_MASK))
                 AND OUTPUT_SIGNAL_MASK)
     \<and> MapInputToOutput_ProcessCommand R (HVACMAP_text a vs) len senderid True s
         = (True, s\<lparr>inputToOutput :=
                     take (unat a) (inputToOutput s) @ vs @
                     drop (unat a + length vs) (inputToOutput s)\<rparr>)
     \<and> (\<forall>i inp. i < length vs \<and> vs ! i \<noteq> 0xff \<and>
            unat (drop_bit BN_FIRST_SIGNAL (inp AND INPUT_SIGNAL_MASK)) = unat a + i
          \<longrightarrow> MapInputToOutput_value (inputToOutput (snd
                (MapInputToOutput_ProcessCommand R (HVACMAP_text a vs) len senderid True s))) inp
              = vs ! i)
     \<and> (\<forall>j. j < 64 \<and> (j < unat a \<or> unat a + length vs \<le> j)
          \<longrightarrow> inputToOutput (snd
                (MapInputToOutput_ProcessCommand R (HVACMAP_text a vs) len senderid True s)) ! j
              = inputToOutput s ! j)"
proof -
  note P = MapInputToOutput_ProcessCommand_HVACMAP[OF tbl fit]
  note W = written_nth[OF tbl fit]
  have c1: "unat (drop_bit BN_FIRST_SIGNAL (inputs AND INPUT_SIGNAL_MASK)) < NUM_INPUT_SIGNAL_COMBINATIONS"
    by (rule index_lt_64)
  have c2: "MapInputToOutput_value (inputToOutput s) inputs
         = (if inputToOutput s ! unat (drop_bit BN_FIRST_SIGNAL (inputs AND INPUT_SIGNAL_MASK)) = 0xff
            then push_bit BN_FIRST_SIGNAL (drop_bit BN_FIRST_SIGNAL (inputs AND INPUT_SIGNAL_MASK))
                 OR (inputs AND push_bit BN_R 1)
            else inputToOutput s ! unat (drop_bit BN_FIRST_SIGNAL (inputs AND INPUT_SIGNAL_MASK)))"
    using sentinel_value[of inputs] by (simp only: MapInputToOutput_value_entry[OF tbl])
  have c3: "LastOutputWrite (furnace (MapInputToOutput_OnInputsChanged R inputs previous s))
         = (if inputToOutput s ! unat (drop_bit BN_FIRST_SIGNAL (inputs AND INPUT_SIGNAL_MASK)) = 0xff
            then push_bit BN_FIRST_SIGNAL (drop_bit BN_FIRST_SIGNAL (inputs AND INPUT_SIGNAL_MASK))
            else inputToOutput s ! unat (drop_bit BN_FIRST_SIGNAL (inputs AND INPUT_SIGNAL_MASK))
                 AND OUTPUT_SIGNAL_MASK)"
    using sentinel_request[of inputs]
    by (simp add: MapInputToOutput_OnInputsChanged_def MapInputToOutput_value_entry[OF tbl])
  have c5: "\<forall>i inp. i < length vs \<and> vs ! i \<noteq> 0xff \<and>
            unat (drop_bit BN_FIRST_SIGNAL (inp AND INPUT_SIGNAL_MASK)) = unat a + i
          \<longrightarrow> MapInputToOutput_value (inputToOutput (snd
                (MapInputToOutput_ProcessCommand R (HVACMAP_text a vs) len senderid True s))) inp
              = vs ! i"
    by (simp add: P MapInputToOutput_value_entry[OF W(4)] W(1))
  have c6: "\<forall>j. j < 64 \<and> (j < unat a \<or> unat a + length vs \<le> j)
          \<longrightarrow> inputToOutput (snd
                (MapInputToOutput_ProcessCommand R (HVACMAP_text a vs) len senderid True s)) ! j
              = inputToOutput s ! j"
    using W(2,3) by (auto simp add: P)
  show ?thesis
    using c1 c2 c3 P c5 c6 by (intro conjI)
qed


text \<open>
  The theorem at the second command of the specification's round trip, on the table of a
  blank EEPROM: \<open>HVACMAP=0x08\<close> followed by eight values 08 is handled and fills the entries
  8 to 15; the inputs 13 (index 9, with the R bit) are then handed 08, while the inputs 09
  (index 4, a sentinel entry) record the request 08.
\<close>

theorem map_input_to_output_witness:
  "length (inputToOutput example_map) = 64
   \<and> unat (8 :: u8) + length (replicate 8 (8 :: u8)) \<le> 64
   \<and> HVACMAP_text 8 (replicate 8 8) = ''HVACMAP=0x08 08 08 08 08 08 08 08 08''
   \<and> MapInputToOutput_ProcessCommand 0 ''HVACMAP=0x08 08 08 08 08 08 08 08 08'' 36 255 True example_map
       = (True, example_map\<lparr>inputToOutput := replicate 8 0xff @ replicate 8 8 @ replicate 48 0xff\<rparr>)
   \<and> MapInputToOutput_value (replicate 8 0xff @ replicate 8 8 @ replicate 48 0xff) 0x13 = 8
   \<and> LastOutputWrite (furnace (MapInputToOutput_OnInputsChanged 0 0x09 0 example_map)) = 0x08"
proof -
  have h1: "length (inputToOutput example_map) = 64" by code_simp
  have h2: "unat (8 :: u8) + length (replicate 8 (8 :: u8)) \<le> 64" by simp
  have t: "HVACMAP_text 8 (replicate 8 8) = ''HVACMAP=0x08 08 08 08 08 08 08 08 08''"
    by code_simp
  note M = map_input_to_output[OF h1 h2, of "0x09" 0 0 36 255]
  have tb: "take (unat (8 :: u8)) (inputToOutput example_map) @ replicate 8 8 @
            drop (unat (8 :: u8) + length (replicate 8 (8 :: u8))) (inputToOutput example_map)
            = replicate 8 0xff @ replicate 8 8 @ replicate 48 0xff"
    by code_simp
  have c4: "MapInputToOutput_ProcessCommand 0 ''HVACMAP=0x08 08 08 08 08 08 08 08 08'' 36 255 True example_map
       = (True, example_map\<lparr>inputToOutput := replicate 8 0xff @ replicate 8 8 @ replicate 48 0xff\<rparr>)"
    using M[THEN conjunct2, THEN conjunct2, THEN conjunct2, THEN conjunct1]
    by (simp only: t tb)
  have c5: "MapInputToOutput_value (replicate 8 0xff @ replicate 8 8 @ replicate 48 0xff) 0x13 = 8"
    by code_simp
  have c6: "LastOutputWrite (furnace (MapInputToOutput_OnInputsChanged 0 0x09 0 example_map)) = 0x08"
    by (subst M[THEN conjunct2, THEN conjunct2, THEN conjunct1]) code_simp
  show ?thesis
    using h1 h2 t c4 c5 c6 by (intro conjI)
qed

text \<open>
  The claim as the specification states it fails for the value handed to the arbiter and
  for the request the arbiter records alike. On the table of a blank EEPROM the inputs 09
  (W with the R bit) meet a sentinel entry and are handed on as 09, where the index shifted
  back into signal position is 08. And after \<open>HVACMAP=0x04 09\<close> the inputs 08 meet the
  entry 09, of which the arbiter records 08.
\<close>

theorem map_input_to_output_counterexample:
  "inputToOutput example_map ! unat (drop_bit BN_FIRST_SIGNAL (0x09 AND INPUT_SIGNAL_MASK)) = 0xff
   \<and> MapInputToOutput_value (inputToOutput example_map) 0x09 = 0x09
   \<and> push_bit BN_FIRST_SIGNAL (drop_bit BN_FIRST_SIGNAL (0x09 AND INPUT_SIGNAL_MASK)) = (0x08 :: u8)
   \<and> fst (MapInputToOutput_ProcessCommand 0 (HVACMAP_text 4 [9]) 15 255 True example_map)
   \<and> HVACMAP_text 4 [9] = ''HVACMAP=0x04 09''
   \<and> inputToOutput (snd (MapInputToOutput_ProcessCommand 0 (HVACMAP_text 4 [9]) 15 255 True example_map))
         ! unat (drop_bit BN_FIRST_SIGNAL (0x08 AND INPUT_SIGNAL_MASK)) = 0x09
   \<and> LastOutputWrite (furnace (MapInputToOutput_OnInputsChanged 0 0x08 0
         (snd (MapInputToOutput_ProcessCommand 0 (HVACMAP_text 4 [9]) 15 255 True example_map)))) = 0x08"
proof -
  have h1: "length (inputToOutput example_map) = 64" by code_simp
  have h2: "unat (4 :: u8) + length [9 :: u8] \<le> 64" by simp
  show ?thesis
    unfolding MapInputToOutput_ProcessCommand_HVACMAP[OF h1 h2] by code_simp
qed

subsection \<open>Auto: the cool and the heat machine\<close>

text \<open>
  C8 at a failing input. In Auto mode a reading of 15.0 C starts the heat machine; the next
  reading, 30.0 C a minute later, passes Cool's activation test, so the cool machine enters
  stage 1 and the heat machine is not evaluated, which leaves it in its stage 1: both
  machines are on. Fifteen minutes later \<open>HvacAuto::loop\<close>, which looks at the heat machine
  first, moves it to stage 2 and asserts the heat mask 18 while the room needs cooling.
\<close>

theorem auto_both_machines_on:
  "heatState (run (snd (hvac_ProcessCommand 0 ''C:1, T:+15.00'' 61 9 False example_auto)))
     = HEAT_STAGE1
   \<and> fancoilState (run (snd (hvac_ProcessCommand 0 ''C:1, T:+15.00'' 61 9 False example_auto)))
     = STATE_OFF
   \<and> heatState (run (snd (hvac_ProcessCommand 0 ''C:2, T:+30.00'' 61 9 False
        (at_time 60000 (snd (hvac_ProcessCommand 0 ''C:1, T:+15.00'' 61 9 False example_auto))))))
     = HEAT_STAGE1
   \<and> fancoilState (run (snd (hvac_ProcessCommand 0 ''C:2, T:+30.00'' 61 9 False
        (at_time 60000 (snd (hvac_ProcessCommand 0 ''C:1, T:+15.00'' 61 9 False example_auto))))))
     = STATE_STAGE1
   \<and> LastOutputWrite (furnace (snd (hvac_ProcessCommand 0 ''C:2, T:+30.00'' 61 9 False
        (at_time 60000 (snd (hvac_ProcessCommand 0 ''C:1, T:+15.00'' 61 9 False example_auto))))))
     = 0x20
   \<and> LastOutputWrite (furnace (hvac_loop 0 960000 (at_time 960000
        (snd (hvac_ProcessCommand 0 ''C:2, T:+30.00'' 61 9 False
          (at_time 60000 (snd (hvac_ProcessCommand 0 ''C:1, T:+15.00'' 61 9 False example_auto))))))))
     = 0x18"
  by code_simp

subsection \<open>Partially specified settings commands\<close>














lemma given_simps:
  "i < length vs \<Longrightarrow> given vs i old = ucast (vs ! i)"
  "length vs \<le> i \<Longrightarrow> given vs i old = old"
  by (simp_all add: given_def)




text \<open>
  The signals \<open>UpdateOutputs\<close> is about to write for the request \<open>m\<close>, before the compressor
  hold: the output-legal bits of the request, without the bits of an active heat safety.
\<close>

lemma failsafe_not_signal: "push_bit BN_W_FAILSAFE 1 AND OUTPUT_SIGNAL_MASK = 0"
  by (simp add: OUTPUT_SIGNAL_MASK_def BN_Z2_def BN_Z1_def BN_W_def BN_ZX_def BN_X2_def BN_X1_def
      BN_X3_def BN_W_FAILSAFE_def)

lemma or_failsafe_signals:
  "((x AND OUTPUT_SIGNAL_MASK) OR push_bit BN_W_FAILSAFE 1) AND OUTPUT_SIGNAL_MASK
     = x AND OUTPUT_SIGNAL_MASK"
  by (simp only: word_ao_dist failsafe_not_signal word_bw_assocs and.idem or.right_neutral)

lemma and_signals_absorb:
  "((m AND OUTPUT_SIGNAL_MASK) AND h) AND OUTPUT_SIGNAL_MASK = (m AND OUTPUT_SIGNAL_MASK) AND h"
  "(((m AND OUTPUT_SIGNAL_MASK) AND h) AND c) AND OUTPUT_SIGNAL_MASK
     = ((m AND OUTPUT_SIGNAL_MASK) AND h) AND c"
  "((m AND OUTPUT_SIGNAL_MASK) AND c) AND OUTPUT_SIGNAL_MASK = (m AND OUTPUT_SIGNAL_MASK) AND c"
  "(m AND OUTPUT_SIGNAL_MASK) AND OUTPUT_SIGNAL_MASK = m AND OUTPUT_SIGNAL_MASK"
  by (simp_all add: word_bw_assocs word_bw_comms word_bw_lcs)


lemma mask_before_compressor_signals:
  "mask_before_compressor m s AND OUTPUT_SIGNAL_MASK = mask_before_compressor m s"
  "(mask_before_compressor m s AND c) AND OUTPUT_SIGNAL_MASK = mask_before_compressor m s AND c"
  by (simp_all add: mask_before_compressor_def and_signals_absorb)

lemma or_failsafe_signals':
  "x AND OUTPUT_SIGNAL_MASK = x \<Longrightarrow>
   (x OR push_bit BN_W_FAILSAFE 1) AND OUTPUT_SIGNAL_MASK = x"
  using or_failsafe_signals[of x] by simp

text \<open>The flag, the start time and the signals written by \<open>UpdateOutputs\<close>.\<close>

lemma UpdateOutputs_compressor:
  "CompressorOffTimeActive (furnace (UpdateOutputs R m s)) =
     (CompressorOffTimeActive (furnace s) \<or>
      (OutputRegister (furnace s) AND getCompressorMask R (eeprom s) \<noteq> 0 \<and>
       mask_before_compressor m s AND getCompressorMask R (eeprom s) = 0))"
  "CompressorOffStartTime (furnace (UpdateOutputs R m s)) =
     (if \<not> CompressorOffTimeActive (furnace s) \<and>
         OutputRegister (furnace s) AND getCompressorMask R (eeprom s) \<noteq> 0 \<and>
         mask_before_compressor m s AND getCompressorMask R (eeprom s) = 0
      then clock s else CompressorOffStartTime (furnace s))"
proof -
  have n: "getCompressorMask R (eeprom s) \<noteq> 0xff"
    by (simp add: getCompressorMask_def Let_def)
  show "CompressorOffTimeActive (furnace (UpdateOutputs R m s)) =
     (CompressorOffTimeActive (furnace s) \<or>
      (OutputRegister (furnace s) AND getCompressorMask R (eeprom s) \<noteq> 0 \<and>
       mask_before_compressor m s AND getCompressorMask R (eeprom s) = 0))"
    using n by (auto simp add: UpdateOutputs_def Let_def mask_before_compressor_def)
  show "CompressorOffStartTime (furnace (UpdateOutputs R m s)) =
     (if \<not> CompressorOffTimeActive (furnace s) \<and>
         OutputRegister (furnace s) AND getCompressorMask R (eeprom s) \<noteq> 0 \<and>
         mask_before_compressor m s AND getCompressorMask R (eeprom s) = 0
      then clock s else CompressorOffStartTime (furnace s))"
    using n by (auto simp add: UpdateOutputs_def Let_def mask_before_compressor_def)
qed

lemma UpdateOutputs_OutputRegister:
  "OutputRegister (furnace (UpdateOutputs R m s)) =
     (if CompressorOffTimeActive (furnace (UpdateOutputs R m s))
      then mask_before_compressor m s AND NOT (getCompressorMask R (eeprom s))
      else mask_before_compressor m s)
   \<or> OutputRegister (furnace (UpdateOutputs R m s)) =
     (if CompressorOffTimeActive (furnace (UpdateOutputs R m s))
      then mask_before_compressor m s AND NOT (getCompressorMask R (eeprom s))
      else mask_before_compressor m s) OR push_bit BN_W_FAILSAFE 1"
  unfolding UpdateOutputs_compressor(1)
  by (simp add: UpdateOutputs_def Let_def mask_before_compressor_def getCompressorMask_def)

lemma UpdateOutputs_signals:
  "OutputRegister (furnace (UpdateOutputs R m s)) AND OUTPUT_SIGNAL_MASK =
     (if CompressorOffTimeActive (furnace (UpdateOutputs R m s))
      then mask_before_compressor m s AND NOT (getCompressorMask R (eeprom s))
      else mask_before_compressor m s)"
proof -
  let ?x = "if CompressorOffTimeActive (furnace (UpdateOutputs R m s))
      then mask_before_compressor m s AND NOT (getCompressorMask R (eeprom s))
      else mask_before_compressor m s"
  have x: "?x AND OUTPUT_SIGNAL_MASK = ?x"
    by (simp add: mask_before_compressor_signals)
  from UpdateOutputs_OutputRegister[of R m s] show ?thesis
  proof
    assume "OutputRegister (furnace (UpdateOutputs R m s)) = ?x"
    then show ?thesis using x by simp
  next
    assume "OutputRegister (furnace (UpdateOutputs R m s)) = ?x OR push_bit BN_W_FAILSAFE 1"
    then show ?thesis using or_failsafe_signals'[OF x] by simp
  qed
qed




subsection \<open>Compressor lockout\<close>




lemma entries_list: "[0..<NUM_HEAT_SAFETY_ENTRIES] = [0, 1, 2]"
  by (simp add: NUM_HEAT_SAFETY_ENTRIES_def upt_rec)

lemma UpdateOutputs_heat_safety_frame [simp]:
  "HeatSafetyOffTimeActive (furnace (UpdateOutputs R m s)) = HeatSafetyOffTimeActive (furnace s)"
  "HeatSafetyOffStartTime (furnace (UpdateOutputs R m s)) = HeatSafetyOffStartTime (furnace s)"
  "HeatSafetyShutoffMask (furnace (UpdateOutputs R m s)) = HeatSafetyShutoffMask (furnace s)"
  "TinletTemperatureCx10 (furnace (UpdateOutputs R m s)) = TinletTemperatureCx10 (furnace s)"
  by (simp_all add: UpdateOutputs_def Let_def)

lemma heat_safety_entries_Cons:
  "heat_safety_entries R (i # rest) s =
     (if heat_safety_match R s i then heat_safety_trip R (getHeatSafetyMask R (eeprom s) i) s else heat_safety_entries R rest s)"
  by (simp add: heat_safety_match_def Let_def)

lemma heat_safety_entries_first:
  assumes "i < 3" "heat_safety_match R s i" "\<forall>j<i. \<not> heat_safety_match R s j"
  shows "heat_safety_entries R [0, 1, 2] s = heat_safety_trip R (getHeatSafetyMask R (eeprom s) i) s"
proof -
  from assms(1) have "i = 0 \<or> i = 1 \<or> i = 2" by auto
  then show ?thesis
    using assms(2,3) by (auto simp add: heat_safety_entries_Cons simp del: heat_safety_entries.simps)
qed

lemma heat_safety_entries_none:
  assumes "\<forall>i<3. \<not> heat_safety_match R s i"
  shows "heat_safety_entries R [0, 1, 2] s = s"
  using assms by (simp add: heat_safety_entries_Cons del: heat_safety_entries.simps(2))

lemma heat_safety_trip_fields:
  "HeatSafetyOffTimeActive (furnace (heat_safety_trip R (getHeatSafetyMask R (eeprom s) i) s))"
  "HeatSafetyOffStartTime (furnace (heat_safety_trip R (getHeatSafetyMask R (eeprom s) i) s)) = clock s"
  "HeatSafetyShutoffMask (furnace (heat_safety_trip R (getHeatSafetyMask R (eeprom s) i) s)) = NOT (toClear (getHeatSafetyMask R (eeprom s) i))"
  "trace (heat_safety_trip R (getHeatSafetyMask R (eeprom s) i) s) = trace s @ [LCD_printBanner HeatSafetyBanner]"
  "clock (heat_safety_trip R (getHeatSafetyMask R (eeprom s) i) s) = clock s + BANNER_TIME_MSEC"
  "LastOutputWrite (furnace (heat_safety_trip R (getHeatSafetyMask R (eeprom s) i) s)) = LastOutputWrite (furnace s) AND OUTPUT_SIGNAL_MASK"
  "(OutputRegister (furnace (heat_safety_trip R (getHeatSafetyMask R (eeprom s) i) s)) AND OUTPUT_SIGNAL_MASK)
     AND toClear (getHeatSafetyMask R (eeprom s) i) = 0"
proof -
  show "HeatSafetyOffTimeActive (furnace (heat_safety_trip R (getHeatSafetyMask R (eeprom s) i) s))"
    by (simp add: heat_safety_trip_def Let_def SetOutputBits_def printBanner_def emit_def)
  show "HeatSafetyOffStartTime (furnace (heat_safety_trip R (getHeatSafetyMask R (eeprom s) i) s)) = clock s"
    by (simp add: heat_safety_trip_def Let_def SetOutputBits_def printBanner_def emit_def)
  show "HeatSafetyShutoffMask (furnace (heat_safety_trip R (getHeatSafetyMask R (eeprom s) i) s)) = NOT (toClear (getHeatSafetyMask R (eeprom s) i))"
    by (simp add: heat_safety_trip_def Let_def SetOutputBits_def printBanner_def emit_def)
  show "trace (heat_safety_trip R (getHeatSafetyMask R (eeprom s) i) s) = trace s @ [LCD_printBanner HeatSafetyBanner]"
    by (simp add: heat_safety_trip_def Let_def SetOutputBits_def printBanner_def emit_def)
  show "clock (heat_safety_trip R (getHeatSafetyMask R (eeprom s) i) s) = clock s + BANNER_TIME_MSEC"
    by (simp add: heat_safety_trip_def Let_def SetOutputBits_def printBanner_def emit_def)
  show "LastOutputWrite (furnace (heat_safety_trip R (getHeatSafetyMask R (eeprom s) i) s)) = LastOutputWrite (furnace s) AND OUTPUT_SIGNAL_MASK"
    by (simp add: heat_safety_trip_def Let_def SetOutputBits_def printBanner_def emit_def)
  have "(OutputRegister (furnace (heat_safety_trip R (getHeatSafetyMask R (eeprom s) i) s)) AND OUTPUT_SIGNAL_MASK)
          AND toClear (getHeatSafetyMask R (eeprom s) i)
        = (if CompressorOffTimeActive (furnace (heat_safety_trip R (getHeatSafetyMask R (eeprom s) i) s))
           then (((LastOutputWrite (furnace s) AND OUTPUT_SIGNAL_MASK)
                    AND NOT (toClear (getHeatSafetyMask R (eeprom s) i)))
                   AND NOT (getCompressorMask R (eeprom s)))
                  AND toClear (getHeatSafetyMask R (eeprom s) i)
           else ((LastOutputWrite (furnace s) AND OUTPUT_SIGNAL_MASK)
                    AND NOT (toClear (getHeatSafetyMask R (eeprom s) i)))
                  AND toClear (getHeatSafetyMask R (eeprom s) i))"
    unfolding heat_safety_trip_def Let_def SetOutputBits_def UpdateOutputs_signals
    by (simp add: mask_before_compressor_def printBanner_def emit_def)
  then show "(OutputRegister (furnace (heat_safety_trip R (getHeatSafetyMask R (eeprom s) i) s)) AND OUTPUT_SIGNAL_MASK)
     AND toClear (getHeatSafetyMask R (eeprom s) i) = 0"
    by (simp add: word_bw_assocs word_bw_comms word_bw_lcs)
qed


lemma and_and_not:
  "((x AND h) AND c) AND NOT (h :: u8) = 0"
  "(x AND h) AND NOT (h :: u8) = 0"
  by (rule bit_word_eqI, auto simp add: bit_simps)+

lemma heat_safety_expire_fields:
  assumes a: "HeatSafetyOffTimeActive (furnace s)"
    and e: "uint (now - HeatSafetyOffStartTime (furnace s))
              > 1000 * uint (getHeatSafetyHoldSeconds R (eeprom s))"
  shows "\<not> HeatSafetyOffTimeActive (furnace (heat_safety_expire R now s))"
    and "trace (heat_safety_expire R now s) = trace s @ [LCD_printBanner (hvac_ModeNameString s)]"
    and "LastOutputWrite (furnace (heat_safety_expire R now s))
           = LastOutputWrite (furnace s) AND OUTPUT_SIGNAL_MASK"
    and "OutputRegister (furnace (heat_safety_expire R now s)) AND OUTPUT_SIGNAL_MASK
           = (if CompressorOffTimeActive (furnace (heat_safety_expire R now s))
              then (LastOutputWrite (furnace s) AND OUTPUT_SIGNAL_MASK)
                     AND NOT (getCompressorMask R (eeprom s))
              else LastOutputWrite (furnace s) AND OUTPUT_SIGNAL_MASK)"
proof -
  let ?s0 = "printBanner (hvac_ModeNameString s)
               (s\<lparr>furnace := (furnace s)\<lparr>HeatSafetyOffTimeActive := False\<rparr>\<rparr>)"
  have L: "heat_safety_expire R now s = UpdateOutputs R (LastOutputWrite (furnace s)) ?s0"
    using a e by (simp add: heat_safety_expire_def SetOutputBits_def printBanner_def emit_def)
  have m: "mask_before_compressor (LastOutputWrite (furnace s)) ?s0
             = LastOutputWrite (furnace s) AND OUTPUT_SIGNAL_MASK"
    by (simp add: mask_before_compressor_def printBanner_def emit_def)
  have ee: "eeprom ?s0 = eeprom s" by (simp add: printBanner_def emit_def)
  show "\<not> HeatSafetyOffTimeActive (furnace (heat_safety_expire R now s))"
    by (simp add: L printBanner_def emit_def)
  show "trace (heat_safety_expire R now s) = trace s @ [LCD_printBanner (hvac_ModeNameString s)]"
    by (simp add: L printBanner_def emit_def)
  show "LastOutputWrite (furnace (heat_safety_expire R now s))
           = LastOutputWrite (furnace s) AND OUTPUT_SIGNAL_MASK"
    by (simp add: L)
  show "OutputRegister (furnace (heat_safety_expire R now s)) AND OUTPUT_SIGNAL_MASK
           = (if CompressorOffTimeActive (furnace (heat_safety_expire R now s))
              then (LastOutputWrite (furnace s) AND OUTPUT_SIGNAL_MASK)
                     AND NOT (getCompressorMask R (eeprom s))
              else LastOutputWrite (furnace s) AND OUTPUT_SIGNAL_MASK)"
    by (simp only: L UpdateOutputs_signals m ee)
qed

lemma heat_safety_detect_trip:
  assumes "\<not> HeatSafetyOffTimeActive (furnace s)"
    and "0 < getHeatSafetyHoldSeconds R (eeprom s)" "getHeatSafetyHoldSeconds R (eeprom s) \<noteq> 0xffff"
    and "0 < sint (getHeatSafetyTemperatureCx10 R (eeprom s))"
    and "sint (getHeatSafetyTemperatureCx10 R (eeprom s)) \<le> sint (TinletTemperatureCx10 (furnace s))"
    and "i < 3" "heat_safety_match R s i" "\<forall>j<i. \<not> heat_safety_match R s j"
  shows "heat_safety_detect R s = heat_safety_trip R (getHeatSafetyMask R (eeprom s) i) s"
  using assms(1-5) heat_safety_entries_first[OF assms(6-8)]
  by (simp add: heat_safety_detect_def Let_def entries_list del: heat_safety_entries.simps)

lemma heat_safety_detect_not:
  assumes "HeatSafetyOffTimeActive (furnace s) \<or> getHeatSafetyHoldSeconds R (eeprom s) = 0 \<or>
      getHeatSafetyHoldSeconds R (eeprom s) = 0xffff \<or>
      sint (getHeatSafetyTemperatureCx10 R (eeprom s)) \<le> 0 \<or>
      sint (TinletTemperatureCx10 (furnace s)) < sint (getHeatSafetyTemperatureCx10 R (eeprom s)) \<or>
      (\<forall>i<3. \<not> heat_safety_match R s i)"
  shows "heat_safety_detect R s = s"
proof (cases "\<forall>i<3. \<not> heat_safety_match R s i")
  case True
  have e: "heat_safety_entries R [0..<NUM_HEAT_SAFETY_ENTRIES] s = s"
    by (simp only: entries_list heat_safety_entries_none[OF True])
  show ?thesis
    by (simp add: heat_safety_detect_def Let_def e del: heat_safety_entries.simps)
next
  case False
  with assms show ?thesis
    by (auto simp add: heat_safety_detect_def Let_def simp del: heat_safety_entries.simps)
qed

subsection \<open>Heat safety\<close>

text \<open>
  C5, as the code has it. On a loop iteration with no heat safety hold active, the hold
  starts when the hold time is configured (neither 0 nor FFFF), the trigger temperature is
  positive and not above the inlet temperature, and an entry matches: the complement of its
  \<open>dontCare\<close> mask AND the last output the mode requested equals its \<open>mustMatch\<close> mask, and
  its \<open>toClear\<close> mask is not 0. The first entry that matches is taken: the hold is active
  from the time of the iteration, the banner is shown, and the signals written no longer
  show the entry's \<open>toClear\<close> bits. In every other case the detection changes nothing.
  During the hold every output update writes signals without the \<open>toClear\<close> bits, and still
  records the request of the mode. \<open>loop\<close> leaves the hold alone until more than 1000
  times the hold seconds have passed since its start; then it ends the hold, shows the mode
  name and writes the last request of the mode again, and the detection runs in that same
  iteration, so that a hold whose condition still holds starts again at once.
\<close>

theorem heat_safety:
  "(\<not> HeatSafetyOffTimeActive (furnace s) \<and>
    0 < getHeatSafetyHoldSeconds R (eeprom s) \<and> getHeatSafetyHoldSeconds R (eeprom s) \<noteq> 0xffff \<and>
    0 < sint (getHeatSafetyTemperatureCx10 R (eeprom s)) \<and>
    sint (getHeatSafetyTemperatureCx10 R (eeprom s)) \<le> sint (TinletTemperatureCx10 (furnace s)) \<and>
    i < 3 \<and> heat_safety_match R s i \<and> (\<forall>j<i. \<not> heat_safety_match R s j)
    \<longrightarrow> HeatSafetyOffTimeActive (furnace (heat_safety_detect R s))
      \<and> HeatSafetyOffStartTime (furnace (heat_safety_detect R s)) = clock s
      \<and> HeatSafetyShutoffMask (furnace (heat_safety_detect R s))
          = NOT (toClear (getHeatSafetyMask R (eeprom s) i))
      \<and> trace (heat_safety_detect R s) = trace s @ [LCD_printBanner HeatSafetyBanner]
      \<and> LastOutputWrite (furnace (heat_safety_detect R s))
          = LastOutputWrite (furnace s) AND OUTPUT_SIGNAL_MASK
      \<and> (OutputRegister (furnace (heat_safety_detect R s)) AND OUTPUT_SIGNAL_MASK)
            AND toClear (getHeatSafetyMask R (eeprom s) i) = 0)
   \<and> (HeatSafetyOffTimeActive (furnace s) \<or> getHeatSafetyHoldSeconds R (eeprom s) = 0 \<or>
      getHeatSafetyHoldSeconds R (eeprom s) = 0xffff \<or>
      sint (getHeatSafetyTemperatureCx10 R (eeprom s)) \<le> 0 \<or>
      sint (TinletTemperatureCx10 (furnace s)) < sint (getHeatSafetyTemperatureCx10 R (eeprom s)) \<or>
      (\<forall>k<3. \<not> heat_safety_match R s k)
      \<longrightarrow> heat_safety_detect R s = s)
   \<and> (heat_safety_match R s i \<longleftrightarrow>
        NOT (dontCareMask (getHeatSafetyMask R (eeprom s) i)) AND LastOutputWrite (furnace s)
          = mustMatchMask (getHeatSafetyMask R (eeprom s) i) \<and>
        toClear (getHeatSafetyMask R (eeprom s) i) \<noteq> 0)
   \<and> (HeatSafetyOffTimeActive (furnace s)
      \<longrightarrow> (OutputRegister (furnace (UpdateOutputs R m s)) AND OUTPUT_SIGNAL_MASK)
            AND NOT (HeatSafetyShutoffMask (furnace s)) = 0
        \<and> LastOutputWrite (furnace (UpdateOutputs R m s)) = m AND OUTPUT_SIGNAL_MASK
        \<and> HeatSafetyOffTimeActive (furnace (UpdateOutputs R m s))
        \<and> HeatSafetyShutoffMask (furnace (UpdateOutputs R m s)) = HeatSafetyShutoffMask (furnace s)
        \<and> HeatSafetyOffStartTime (furnace (UpdateOutputs R m s)) = HeatSafetyOffStartTime (furnace s))
   \<and> (HeatSafetyOffTimeActive (furnace s) \<and>
      push_bit BN_W_FAILSAFE 1 AND NOT (HeatSafetyShutoffMask (furnace s)) = 0
      \<longrightarrow> OutputRegister (furnace (UpdateOutputs R m s))
            AND NOT (HeatSafetyShutoffMask (furnace s)) = 0)
   \<and> (HeatSafetyOffTimeActive (furnace s) \<and>
      \<not> uint (now - HeatSafetyOffStartTime (furnace s))
           > 1000 * uint (getHeatSafetyHoldSeconds R (eeprom s))
      \<longrightarrow> loop_heat_safety R now s = s)
   \<and> (HeatSafetyOffTimeActive (furnace s) \<and>
      uint (now - HeatSafetyOffStartTime (furnace s))
        > 1000 * uint (getHeatSafetyHoldSeconds R (eeprom s))
      \<longrightarrow> \<not> HeatSafetyOffTimeActive (furnace (heat_safety_expire R now s))
        \<and> trace (heat_safety_expire R now s)
            = trace s @ [LCD_printBanner (hvac_ModeNameString s)]
        \<and> LastOutputWrite (furnace (heat_safety_expire R now s))
            = LastOutputWrite (furnace s) AND OUTPUT_SIGNAL_MASK
        \<and> OutputRegister (furnace (heat_safety_expire R now s)) AND OUTPUT_SIGNAL_MASK
            = (if CompressorOffTimeActive (furnace (heat_safety_expire R now s))
               then (LastOutputWrite (furnace s) AND OUTPUT_SIGNAL_MASK)
                      AND NOT (getCompressorMask R (eeprom s))
               else LastOutputWrite (furnace s) AND OUTPUT_SIGNAL_MASK))
   \<and> loop_heat_safety R now s = heat_safety_detect R (heat_safety_expire R now s)"
proof -
  have c1: "\<not> HeatSafetyOffTimeActive (furnace s) \<and>
    0 < getHeatSafetyHoldSeconds R (eeprom s) \<and> getHeatSafetyHoldSeconds R (eeprom s) \<noteq> 0xffff \<and>
    0 < sint (getHeatSafetyTemperatureCx10 R (eeprom s)) \<and>
    sint (getHeatSafetyTemperatureCx10 R (eeprom s)) \<le> sint (TinletTemperatureCx10 (furnace s)) \<and>
    i < 3 \<and> heat_safety_match R s i \<and> (\<forall>j<i. \<not> heat_safety_match R s j)
    \<longrightarrow> HeatSafetyOffTimeActive (furnace (heat_safety_detect R s))
      \<and> HeatSafetyOffStartTime (furnace (heat_safety_detect R s)) = clock s
      \<and> HeatSafetyShutoffMask (furnace (heat_safety_detect R s))
          = NOT (toClear (getHeatSafetyMask R (eeprom s) i))
      \<and> trace (heat_safety_detect R s) = trace s @ [LCD_printBanner HeatSafetyBanner]
      \<and> LastOutputWrite (furnace (heat_safety_detect R s))
          = LastOutputWrite (furnace s) AND OUTPUT_SIGNAL_MASK
      \<and> (OutputRegister (furnace (heat_safety_detect R s)) AND OUTPUT_SIGNAL_MASK)
            AND toClear (getHeatSafetyMask R (eeprom s) i) = 0"
  proof (intro impI, elim conjE)
    assume h: "\<not> HeatSafetyOffTimeActive (furnace s)"
      "0 < getHeatSafetyHoldSeconds R (eeprom s)" "getHeatSafetyHoldSeconds R (eeprom s) \<noteq> 0xffff"
      "0 < sint (getHeatSafetyTemperatureCx10 R (eeprom s))"
      "sint (getHeatSafetyTemperatureCx10 R (eeprom s)) \<le> sint (TinletTemperatureCx10 (furnace s))"
      "i < 3" "heat_safety_match R s i" "\<forall>j<i. \<not> heat_safety_match R s j"
    note D = heat_safety_detect_trip[OF h]
    show "HeatSafetyOffTimeActive (furnace (heat_safety_detect R s))
      \<and> HeatSafetyOffStartTime (furnace (heat_safety_detect R s)) = clock s
      \<and> HeatSafetyShutoffMask (furnace (heat_safety_detect R s))
          = NOT (toClear (getHeatSafetyMask R (eeprom s) i))
      \<and> trace (heat_safety_detect R s) = trace s @ [LCD_printBanner HeatSafetyBanner]
      \<and> LastOutputWrite (furnace (heat_safety_detect R s))
          = LastOutputWrite (furnace s) AND OUTPUT_SIGNAL_MASK
      \<and> (OutputRegister (furnace (heat_safety_detect R s)) AND OUTPUT_SIGNAL_MASK)
            AND toClear (getHeatSafetyMask R (eeprom s) i) = 0"
      unfolding D
      using heat_safety_trip_fields(1,2,3,4,6,7)[of R s i] by (intro conjI)
  qed
  have c2: "HeatSafetyOffTimeActive (furnace s) \<or> getHeatSafetyHoldSeconds R (eeprom s) = 0 \<or>
      getHeatSafetyHoldSeconds R (eeprom s) = 0xffff \<or>
      sint (getHeatSafetyTemperatureCx10 R (eeprom s)) \<le> 0 \<or>
      sint (TinletTemperatureCx10 (furnace s)) < sint (getHeatSafetyTemperatureCx10 R (eeprom s)) \<or>
      (\<forall>k<3. \<not> heat_safety_match R s k)
      \<longrightarrow> heat_safety_detect R s = s"
    using heat_safety_detect_not[of s R] by blast
  have c3: "heat_safety_match R s i \<longleftrightarrow>
        NOT (dontCareMask (getHeatSafetyMask R (eeprom s) i)) AND LastOutputWrite (furnace s)
          = mustMatchMask (getHeatSafetyMask R (eeprom s) i) \<and>
        toClear (getHeatSafetyMask R (eeprom s) i) \<noteq> 0"
    by (simp add: heat_safety_match_def)
  have c4: "HeatSafetyOffTimeActive (furnace s)
      \<longrightarrow> (OutputRegister (furnace (UpdateOutputs R m s)) AND OUTPUT_SIGNAL_MASK)
            AND NOT (HeatSafetyShutoffMask (furnace s)) = 0
        \<and> LastOutputWrite (furnace (UpdateOutputs R m s)) = m AND OUTPUT_SIGNAL_MASK
        \<and> HeatSafetyOffTimeActive (furnace (UpdateOutputs R m s))
        \<and> HeatSafetyShutoffMask (furnace (UpdateOutputs R m s)) = HeatSafetyShutoffMask (furnace s)
        \<and> HeatSafetyOffStartTime (furnace (UpdateOutputs R m s)) = HeatSafetyOffStartTime (furnace s)"
  proof
    assume a: "HeatSafetyOffTimeActive (furnace s)"
    have mb: "mask_before_compressor m s
                = (m AND OUTPUT_SIGNAL_MASK) AND HeatSafetyShutoffMask (furnace s)"
      using a by (simp add: mask_before_compressor_def)
    have z: "(OutputRegister (furnace (UpdateOutputs R m s)) AND OUTPUT_SIGNAL_MASK)
            AND NOT (HeatSafetyShutoffMask (furnace s)) = 0"
      unfolding UpdateOutputs_signals mb
      by (cases "CompressorOffTimeActive (furnace (UpdateOutputs R m s))")
         (simp_all only: if_True if_False and_and_not)
    show "(OutputRegister (furnace (UpdateOutputs R m s)) AND OUTPUT_SIGNAL_MASK)
            AND NOT (HeatSafetyShutoffMask (furnace s)) = 0
        \<and> LastOutputWrite (furnace (UpdateOutputs R m s)) = m AND OUTPUT_SIGNAL_MASK
        \<and> HeatSafetyOffTimeActive (furnace (UpdateOutputs R m s))
        \<and> HeatSafetyShutoffMask (furnace (UpdateOutputs R m s)) = HeatSafetyShutoffMask (furnace s)
        \<and> HeatSafetyOffStartTime (furnace (UpdateOutputs R m s)) = HeatSafetyOffStartTime (furnace s)"
      using z a by simp
  qed
  have c4b: "HeatSafetyOffTimeActive (furnace s) \<and>
      push_bit BN_W_FAILSAFE 1 AND NOT (HeatSafetyShutoffMask (furnace s)) = 0
      \<longrightarrow> OutputRegister (furnace (UpdateOutputs R m s))
            AND NOT (HeatSafetyShutoffMask (furnace s)) = 0"
  proof (intro impI, elim conjE)
    assume a: "HeatSafetyOffTimeActive (furnace s)"
      and b: "push_bit BN_W_FAILSAFE 1 AND NOT (HeatSafetyShutoffMask (furnace s)) = 0"
    let ?x = "if CompressorOffTimeActive (furnace (UpdateOutputs R m s))
          then mask_before_compressor m s AND NOT (getCompressorMask R (eeprom s))
          else mask_before_compressor m s"
    have mb: "mask_before_compressor m s
                = (m AND OUTPUT_SIGNAL_MASK) AND HeatSafetyShutoffMask (furnace s)"
      using a by (simp add: mask_before_compressor_def)
    have x: "?x AND NOT (HeatSafetyShutoffMask (furnace s)) = 0"
      unfolding mb
      by (cases "CompressorOffTimeActive (furnace (UpdateOutputs R m s))")
         (simp_all only: if_True if_False and_and_not)
    from UpdateOutputs_OutputRegister[of R m s]
    show "OutputRegister (furnace (UpdateOutputs R m s))
            AND NOT (HeatSafetyShutoffMask (furnace s)) = 0"
    proof
      assume "OutputRegister (furnace (UpdateOutputs R m s)) = ?x"
      then show ?thesis using x by simp
    next
      assume "OutputRegister (furnace (UpdateOutputs R m s)) = ?x OR push_bit BN_W_FAILSAFE 1"
      then show ?thesis using x b by (simp only: word_ao_dist or.right_neutral)
    qed
  qed
  have c5: "HeatSafetyOffTimeActive (furnace s) \<and>
      \<not> uint (now - HeatSafetyOffStartTime (furnace s))
           > 1000 * uint (getHeatSafetyHoldSeconds R (eeprom s))
      \<longrightarrow> loop_heat_safety R now s = s"
    by (simp add: loop_heat_safety_def heat_safety_expire_def heat_safety_detect_def)
  have c6: "HeatSafetyOffTimeActive (furnace s) \<and>
      uint (now - HeatSafetyOffStartTime (furnace s))
        > 1000 * uint (getHeatSafetyHoldSeconds R (eeprom s))
      \<longrightarrow> \<not> HeatSafetyOffTimeActive (furnace (heat_safety_expire R now s))
        \<and> trace (heat_safety_expire R now s)
            = trace s @ [LCD_printBanner (hvac_ModeNameString s)]
        \<and> LastOutputWrite (furnace (heat_safety_expire R now s))
            = LastOutputWrite (furnace s) AND OUTPUT_SIGNAL_MASK
        \<and> OutputRegister (furnace (heat_safety_expire R now s)) AND OUTPUT_SIGNAL_MASK
            = (if CompressorOffTimeActive (furnace (heat_safety_expire R now s))
               then (LastOutputWrite (furnace s) AND OUTPUT_SIGNAL_MASK)
                      AND NOT (getCompressorMask R (eeprom s))
               else LastOutputWrite (furnace s) AND OUTPUT_SIGNAL_MASK)"
    using heat_safety_expire_fields[where s=s and now=now and R=R] by blast
  have c7: "loop_heat_safety R now s = heat_safety_detect R (heat_safety_expire R now s)"
    by (simp add: loop_heat_safety_def)
  show ?thesis
    using c1 c2 c3 c4 c4b c5 c6 c7 by (intro conjI)
qed

text \<open>
  The theorem at the trip of the specification: trigger 32.2 C, hold 300 s, an entry for W
  that clears 38, the mode requesting W and the inlet at 33.0 C. The detection starts the
  hold at 0 s and the relays go to 00; a request for W during the hold is recorded and the
  relays stay without the bits of 38; \<open>loop\<close> leaves the hold alone at 300 s; one
  millisecond later, with the inlet back at 30.0 C, it ends the hold and the signals
  written are W again.
\<close>

theorem heat_safety_witness:
  "\<not> HeatSafetyOffTimeActive (furnace example_heat_safety)
   \<and> getHeatSafetyHoldSeconds 0 (eeprom example_heat_safety) = 300
   \<and> getHeatSafetyTemperatureCx10 0 (eeprom example_heat_safety) = 322
   \<and> TinletTemperatureCx10 (furnace example_heat_safety) = 330
   \<and> heat_safety_match 0 example_heat_safety 0
   \<and> HeatSafetyOffTimeActive (furnace (heat_safety_detect 0 example_heat_safety))
   \<and> HeatSafetyOffStartTime (furnace (heat_safety_detect 0 example_heat_safety)) = 0
   \<and> HeatSafetyShutoffMask (furnace (heat_safety_detect 0 example_heat_safety)) = 0xC7
   \<and> trace (heat_safety_detect 0 example_heat_safety) = [LCD_printBanner ''OVER!'']
   \<and> OutputRegister (furnace (heat_safety_detect 0 example_heat_safety)) = 0
   \<and> LastOutputWrite (furnace (UpdateOutputs 0 0x08 (heat_safety_detect 0 example_heat_safety)))
       = 0x08
   \<and> OutputRegister (furnace (UpdateOutputs 0 0x08 (heat_safety_detect 0 example_heat_safety)))
         AND 0x38 = 0
   \<and> loop_heat_safety 0 300000 (at_time 300000 (heat_safety_detect 0 example_heat_safety))
       = at_time 300000 (heat_safety_detect 0 example_heat_safety)
   \<and> \<not> HeatSafetyOffTimeActive (furnace (heat_safety_expire 0 300001
         ((at_time 300001 (heat_safety_detect 0 example_heat_safety))
            \<lparr>furnace := (furnace (heat_safety_detect 0 example_heat_safety))
               \<lparr>TinletTemperatureCx10 := 300\<rparr>\<rparr>)))
   \<and> OutputRegister (furnace (heat_safety_expire 0 300001
         ((at_time 300001 (heat_safety_detect 0 example_heat_safety))
            \<lparr>furnace := (furnace (heat_safety_detect 0 example_heat_safety))
               \<lparr>TinletTemperatureCx10 := 300\<rparr>\<rparr>))) AND OUTPUT_SIGNAL_MASK = 0x08
   \<and> \<not> HeatSafetyOffTimeActive (furnace (loop_heat_safety 0 300001
         ((at_time 300001 (heat_safety_detect 0 example_heat_safety))
            \<lparr>furnace := (furnace (heat_safety_detect 0 example_heat_safety))
               \<lparr>TinletTemperatureCx10 := 300\<rparr>\<rparr>)))"
proof -
  define s1 where "s1 = heat_safety_detect 0 example_heat_safety"
  define s3 where "s3 = (at_time 300001 s1)\<lparr>furnace := (furnace s1)\<lparr>TinletTemperatureCx10 := 300\<rparr>\<rparr>"
  have p1: "\<not> HeatSafetyOffTimeActive (furnace example_heat_safety)" by code_simp
  have p2: "getHeatSafetyHoldSeconds 0 (eeprom example_heat_safety) = 300" by code_simp
  have p3: "getHeatSafetyTemperatureCx10 0 (eeprom example_heat_safety) = 322" by code_simp
  have p4: "TinletTemperatureCx10 (furnace example_heat_safety) = 330" by code_simp
  have p5: "heat_safety_match 0 example_heat_safety 0" by code_simp
  have pre: "\<not> HeatSafetyOffTimeActive (furnace example_heat_safety) \<and>
    0 < getHeatSafetyHoldSeconds 0 (eeprom example_heat_safety) \<and>
    getHeatSafetyHoldSeconds 0 (eeprom example_heat_safety) \<noteq> 0xffff \<and>
    0 < sint (getHeatSafetyTemperatureCx10 0 (eeprom example_heat_safety)) \<and>
    sint (getHeatSafetyTemperatureCx10 0 (eeprom example_heat_safety))
      \<le> sint (TinletTemperatureCx10 (furnace example_heat_safety)) \<and>
    (0 :: nat) < 3 \<and> heat_safety_match 0 example_heat_safety 0 \<and>
    (\<forall>j<(0 :: nat). \<not> heat_safety_match 0 example_heat_safety j)"
    using p1 p5 by (simp add: p2 p3 p4)
  note A = heat_safety[where s=example_heat_safety and R=0 and i=0, THEN conjunct1, rule_format, OF pre]
  have c0: "clock example_heat_safety = 0" "trace example_heat_safety = []" by code_simp+
  have tc: "NOT (toClear (getHeatSafetyMask 0 (eeprom example_heat_safety) 0)) = 0xC7" by code_simp
  have a1: "HeatSafetyOffTimeActive (furnace s1)"
    unfolding s1_def by (rule A[THEN conjunct1])
  have a2: "HeatSafetyOffStartTime (furnace s1) = 0"
    unfolding s1_def using A[THEN conjunct2, THEN conjunct1] by (simp only: c0)
  have a3: "HeatSafetyShutoffMask (furnace s1) = 0xC7"
    unfolding s1_def using A[THEN conjunct2, THEN conjunct2, THEN conjunct1] by (simp only: tc)
  have a4: "trace s1 = [LCD_printBanner ''OVER!'']"
    unfolding s1_def using A[THEN conjunct2, THEN conjunct2, THEN conjunct2, THEN conjunct1]
    by (simp add: c0 HeatSafetyBanner_def)
  have a5: "OutputRegister (furnace s1) = 0" unfolding s1_def by code_simp
  have rb: "push_bit BN_W_FAILSAFE 1 AND NOT (HeatSafetyShutoffMask (furnace s1)) = 0"
    unfolding a3 by code_simp
  note B = heat_safety[where s=s1 and R=0 and m="0x08"]
  have b1: "LastOutputWrite (furnace (UpdateOutputs 0 0x08 s1)) = 0x08"
    unfolding s1_def by code_simp
  have n38: "NOT (0xC7 :: u8) = 0x38" by simp
  have b2: "OutputRegister (furnace (UpdateOutputs 0 0x08 s1)) AND 0x38 = 0"
    using B[THEN conjunct2, THEN conjunct2, THEN conjunct2, THEN conjunct2, THEN conjunct1,
            rule_format, OF conjI[OF a1 rb]]
    by (simp only: a3 n38)
  have hold: "getHeatSafetyHoldSeconds 0 (eeprom (at_time 300000 s1)) = 300"
    "HeatSafetyOffStartTime (furnace (at_time 300000 s1)) = 0"
    "HeatSafetyOffTimeActive (furnace (at_time 300000 s1))"
    unfolding s1_def by code_simp+
  have ne: "HeatSafetyOffTimeActive (furnace (at_time 300000 s1)) \<and>
      \<not> uint (300000 - HeatSafetyOffStartTime (furnace (at_time 300000 s1)))
           > 1000 * uint (getHeatSafetyHoldSeconds 0 (eeprom (at_time 300000 s1)))"
    using hold(3) by (simp add: hold(1,2))
  have k: "loop_heat_safety 0 300000 (at_time 300000 s1) = at_time 300000 s1"
    using heat_safety[where s="at_time 300000 s1" and R=0 and now=300000, THEN conjunct2,
            THEN conjunct2, THEN conjunct2, THEN conjunct2, THEN conjunct2, THEN conjunct1,
            rule_format, OF ne] .
  have e1: "\<not> HeatSafetyOffTimeActive (furnace (heat_safety_expire 0 300001 s3))"
    unfolding s3_def s1_def by code_simp
  have e2: "OutputRegister (furnace (heat_safety_expire 0 300001 s3)) AND OUTPUT_SIGNAL_MASK = 0x08"
    unfolding s3_def s1_def by code_simp
  have e3: "\<not> HeatSafetyOffTimeActive (furnace (loop_heat_safety 0 300001 s3))"
    unfolding s3_def s1_def by code_simp
  show ?thesis
    using p1 p2 p3 p4 p5 a1 a2 a3 a4 a5 b1 b2 k e1 e2 e3 unfolding s3_def s1_def
    by (intro conjI)
qed

text \<open>
  The claim as the specification states it fails where the code has the detection switched
  off. In each of the four states below entry 1 matches the request W of the mode and the
  inlet, at 33.0 C, is not below the trigger temperature, yet the loop iteration starts no
  hold and the relays still show W: with the hold time 0, with the hold time FFFF of a blank
  EEPROM, with the trigger temperature 0, and with a \<open>toClear\<close> mask 00.
\<close>

theorem heat_safety_counterexample:
  "NOT (dontCareMask (getHeatSafetyMask 0 example_heat_safety_eeprom 0))
       AND LastOutputWrite (furnace example_heat_safety)
     = mustMatchMask (getHeatSafetyMask 0 example_heat_safety_eeprom 0)
   \<and> sint (getHeatSafetyTemperatureCx10 0 example_heat_safety_eeprom)
       \<le> sint (TinletTemperatureCx10 (furnace example_heat_safety))
   \<and> \<not> HeatSafetyOffTimeActive (furnace example_heat_safety)
   \<and> OutputRegister (furnace example_heat_safety) = 0x08
   \<and> \<not> HeatSafetyOffTimeActive (furnace (loop_heat_safety 0 0
         (example_heat_safety\<lparr>eeprom := setHeatSafetyHoldSeconds 0 0 example_heat_safety_eeprom\<rparr>)))
   \<and> OutputRegister (furnace (loop_heat_safety 0 0
         (example_heat_safety\<lparr>eeprom := setHeatSafetyHoldSeconds 0 0 example_heat_safety_eeprom\<rparr>)))
       = 0x08
   \<and> \<not> HeatSafetyOffTimeActive (furnace (loop_heat_safety 0 0
         (example_heat_safety\<lparr>eeprom := setHeatSafetyHoldSeconds 0 0xffff example_heat_safety_eeprom\<rparr>)))
   \<and> OutputRegister (furnace (loop_heat_safety 0 0
         (example_heat_safety\<lparr>eeprom := setHeatSafetyHoldSeconds 0 0xffff example_heat_safety_eeprom\<rparr>)))
       = 0x08
   \<and> sint (getHeatSafetyTemperatureCx10 0 (setHeatSafetyTemperatureX10 0 0 example_heat_safety_eeprom))
       \<le> sint (TinletTemperatureCx10 (furnace example_heat_safety))
   \<and> \<not> HeatSafetyOffTimeActive (furnace (loop_heat_safety 0 0
         (example_heat_safety\<lparr>eeprom := setHeatSafetyTemperatureX10 0 0 example_heat_safety_eeprom\<rparr>)))
   \<and> OutputRegister (furnace (loop_heat_safety 0 0
         (example_heat_safety\<lparr>eeprom := setHeatSafetyTemperatureX10 0 0 example_heat_safety_eeprom\<rparr>)))
       = 0x08
   \<and> \<not> HeatSafetyOffTimeActive (furnace (loop_heat_safety 0 0
         (example_heat_safety\<lparr>eeprom := setHeatSafetyMask 0 0
            \<lparr>dontCareMask = 0xF7, mustMatchMask = 0x08, toClear = 0x00\<rparr>
            example_heat_safety_eeprom\<rparr>)))
   \<and> OutputRegister (furnace (loop_heat_safety 0 0
         (example_heat_safety\<lparr>eeprom := setHeatSafetyMask 0 0
            \<lparr>dontCareMask = 0xF7, mustMatchMask = 0x08, toClear = 0x00\<rparr>
            example_heat_safety_eeprom\<rparr>)))
       = 0x08"
  by code_simp

end
